theory Spec2Isabelle
  imports Complex_Main "HOL-Library.AList"
begin

section \<open>JSON values and JavaScript numbers\<close>

text \<open>
  The value \<open>JSON.parse\<close> returns. A JavaScript number is an IEEE-754 binary64 value; the
  model carries its exact rational value. \<open>undefined\<close> is the \<open>None\<close> of a property lookup.
  An object is the list of its own properties in insertion order, each key once.
\<close>

datatype json =
    JNull
  | JBool bool
  | JNum rat
  | JStr string
  | JArr "json list"
  | JObj "(string \<times> json) list"

type_synonym obj = "(string \<times> json) list"

text \<open>\<open>v[k]\<close> for a value \<open>v\<close> that is neither \<open>null\<close> nor \<open>undefined\<close>, at the keys
  this program reads (none of them is a property of a primitive, an array or a prototype).\<close>

fun js_prop :: "json \<Rightarrow> string \<Rightarrow> json option" where
  "js_prop (JObj kvs) k = map_of kvs k"
| "js_prop v k = None"

text \<open>JavaScript truthiness: \<open>null\<close>, \<open>false\<close>, \<open>0\<close> and the empty string are falsy.\<close>

fun truthy :: "json \<Rightarrow> bool" where
  "truthy JNull = False"
| "truthy (JBool b) = b"
| "truthy (JNum x) = (x \<noteq> 0)"
| "truthy (JStr s) = (s \<noteq> [])"
| "truthy (JArr xs) = True"
| "truthy (JObj kvs) = True"

text \<open>
  Arithmetic on numbers is parametrised by the rounding \<open>rd\<close> applied to every exact
  result: \<open>binary64\<close> below is round-to-nearest, ties-to-even, onto 53-bit significands
  (the arithmetic of the JavaScript engine; subnormals included, overflow out of reach for
  the magnitudes used here), and the identity is exact arithmetic.
\<close>

definition pow2 :: "int \<Rightarrow> rat" where
  "pow2 k = (if 0 \<le> k then 2 ^ nat k else 1 / 2 ^ nat (- k))"

function bitlen :: "int \<Rightarrow> int" where
  "bitlen p = (if p \<le> 0 then 0 else 1 + bitlen (p div 2))"
  by pat_completeness auto
termination
  by (relation "measure nat") auto

declare bitlen.simps [simp del]

text \<open>\<open>ilog2 a\<close> is the integer \<open>e\<close> with \<open>2^e \<le> a < 2^(e+1)\<close>, for \<open>a > 0\<close>.\<close>

definition ilog2 :: "rat \<Rightarrow> int" where
  "ilog2 a = (let (p, q) = quotient_of a;
                  k = bitlen p - bitlen q
              in if pow2 k \<le> a then k else k - 1)"

definition round_half_even :: "rat \<Rightarrow> int" where
  "round_half_even q = (let n = \<lfloor>q\<rfloor>; r = q - of_int n
     in if r > 1/2 \<or> (r = 1/2 \<and> odd n) then n + 1 else n)"

definition binary64 :: "rat \<Rightarrow> rat" where
  "binary64 x = (if x = 0 then 0 else
     let a = \<bar>x\<bar>;
         e = max (ilog2 a) (- 1022);
         ulp = pow2 (e - 52);
         n = round_half_even (a / ulp)
     in sgn x * of_int n * ulp)"

text \<open>\<open>Math.round\<close>: the nearest integer, a tie going up.\<close>

definition Math_round :: "rat \<Rightarrow> int" where
  "Math_round x = \<lfloor>x + 1/2\<rfloor>"

section \<open>The scoring aggregator: \<open>calculateOverallScore\<close>\<close>

text \<open>The weight table, in the order the \<open>for ... in\<close> loop visits it.\<close>

definition weights :: "(string \<times> rat) list" where
  "weights =
    [(''Problem Statement'', 10/100),
     (''Solution/Product'', 15/100),
     (''Market Opportunity'', 20/100),
     (''Business Model'', 15/100),
     (''Competitive Landscape'', 10/100),
     (''Team'', 10/100),
     (''Traction/Milestones'', 10/100),
     (''Financial Projections'', 5/100),
     (''Clarity and Presentation'', 5/100)]"

text \<open>
  The guard \<open>categoryData && typeof categoryData.score === 'number' &&
  categoryData.score >= 0 && categoryData.score <= 10\<close>: the score when it holds.
\<close>

definition usable_score :: "json option \<Rightarrow> rat option" where
  "usable_score categoryData =
     (case categoryData of
        None \<Rightarrow> None
      | Some d \<Rightarrow>
          if \<not> truthy d then None
          else (case js_prop d ''score'' of
                  Some (JNum score) \<Rightarrow> if 0 \<le> score \<and> score \<le> 10 then Some score else None
                | _ \<Rightarrow> None))"

text \<open>One turn of the loop over the weight table, on \<open>(totalScore, totalWeightUsed)\<close>.\<close>

fun score_step :: "(rat \<Rightarrow> rat) \<Rightarrow> obj \<Rightarrow> string \<times> rat \<Rightarrow> rat \<times> rat \<Rightarrow> rat \<times> rat" where
  "score_step rd analysisResult (category, w) (totalScore, totalWeightUsed) =
     (let categoryData = map_of analysisResult category;
          weight = rd w;
          totalScore' =
            (case usable_score categoryData of
               Some score \<Rightarrow> rd (totalScore + rd (score * weight))
             | None \<Rightarrow> rd (totalScore + rd (0 * weight)))
      in (totalScore', rd (totalWeightUsed + weight)))"

definition calculateOverallScore :: "(rat \<Rightarrow> rat) \<Rightarrow> obj \<Rightarrow> int" where
  "calculateOverallScore rd analysisResult =
     (let (totalScore, totalWeightUsed) = fold (score_step rd analysisResult) weights (0, 0)
      in if \<bar>rd (totalWeightUsed - 1)\<bar> > rd (1/1000) \<and> totalWeightUsed = 0 then 0
         else
           let effectiveTotalWeight = 1;
               overall = Math_round (rd (rd (totalScore / effectiveTotalWeight) * 10))
           in max 0 (min 100 overall))"

text \<open>
  The formula of the specification: each category contributes \<open>score / 10 \<times> weight\<close>, an
  absent or invalid one contributes 0, the sum is scaled by 100, rounded to the nearest
  integer and clamped.
\<close>

definition category_score_or_0 :: "obj \<Rightarrow> string \<Rightarrow> rat" where
  "category_score_or_0 a c = (case usable_score (map_of a c) of Some s \<Rightarrow> s | None \<Rightarrow> 0)"

definition overall_score_formula :: "obj \<Rightarrow> int" where
  "overall_score_formula a =
     max 0 (min 100 (round ((\<Sum>(c, w) \<leftarrow> weights. category_score_or_0 a c / 10 * w) * 100)))"

text \<open>An analysis in which only one category is present: Solution/Product, scored 9.\<close>

definition only_solution_9 :: obj where
  "only_solution_9 = [(''Solution/Product'', JObj [(''score'', JNum 9)])]"

subsection \<open>The aggregator in exact arithmetic\<close>

lemma fold_score_step_exact:
  "fold (score_step (\<lambda>x. x) a) ws (t, u) =
     (t + (\<Sum>(c, w) \<leftarrow> ws. category_score_or_0 a c * w), u + (\<Sum>(c, w) \<leftarrow> ws. w))"
  by (induction ws arbitrary: t u)
     (auto simp: category_score_or_0_def Let_def split: option.splits)

lemma weights_total: "(\<Sum>(c, w) \<leftarrow> weights. w) = 1"
  by (simp add: weights_def)

lemma sum_scale:
  "(\<Sum>(c, w) \<leftarrow> ws. f c / 10 * w) * 100 = (\<Sum>(c, w) \<leftarrow> ws. f c * w) * (10::rat)"
  by (induction ws) (auto simp: algebra_simps)

text \<open>
  With every operation exact (no rounding of intermediate results) the code computes the
  formula of the specification, for every analysis object: the weights are the fixed
  table, an absent or invalid category adds 0 while its weight stays in the total of 1,
  and the result is clamped to \<open>[0, 100]\<close>.
\<close>

theorem calculateOverallScore_exact:
  "calculateOverallScore (\<lambda>x. x) a = overall_score_formula a"
proof -
  have "fold (score_step (\<lambda>x. x) a) weights (0, 0) =
          ((\<Sum>(c, w) \<leftarrow> weights. category_score_or_0 a c * w), 1)"
    by (simp only: fold_score_step_exact weights_total) simp
  then show ?thesis
    unfolding calculateOverallScore_def overall_score_formula_def sum_scale
    by (simp add: Math_round_def round_def)
qed

lemma calculateOverallScore_range:
  "0 \<le> calculateOverallScore rd a \<and> calculateOverallScore rd a \<le> 100"
  by (simp add: calculateOverallScore_def Let_def split: prod.splits)

subsection \<open>The aggregator in double precision\<close>

text \<open>Two well-known doubles, as a check of \<open>binary64\<close>: the literal \<open>0.1\<close>, and
  \<open>0.1 + 0.2 = 0.30000000000000004\<close>.\<close>

lemma binary64_tenth: "binary64 (1 / 10) = 3602879701896397 / 36028797018963968"
  by code_simp

lemma binary64_tenth_plus_fifth:
  "binary64 (binary64 (1 / 10) + binary64 (2 / 10)) = 1351079888211149 / 4503599627370496"
  by code_simp

text \<open>The nine turns of the loop on \<open>only_solution_9\<close>; \<open>9 * 0.15\<close> is the double
  \<open>1.3499999999999999\<close>, below \<open>1.35\<close>.\<close>

lemma tie_step1:
  "score_step binary64 only_solution_9 (''Problem Statement'', 1 / 10)
     (0, 0) =
     (0, 3602879701896397 / 36028797018963968)"
  by code_simp

lemma tie_step2:
  "score_step binary64 only_solution_9 (''Solution/Product'', 3 / 20)
     (0, 3602879701896397 / 36028797018963968) =
     (6079859496950169 / 4503599627370496, 1 / 4)"
  by code_simp

lemma tie_step3:
  "score_step binary64 only_solution_9 (''Market Opportunity'', 1 / 5)
     (6079859496950169 / 4503599627370496, 1 / 4) =
     (6079859496950169 / 4503599627370496, 8106479329266893 / 18014398509481984)"
  by code_simp

lemma tie_step4:
  "score_step binary64 only_solution_9 (''Business Model'', 3 / 20)
     (6079859496950169 / 4503599627370496, 8106479329266893 / 18014398509481984) =
     (6079859496950169 / 4503599627370496, 5404319552844595 / 9007199254740992)"
  by code_simp

lemma tie_step5:
  "score_step binary64 only_solution_9 (''Competitive Landscape'', 1 / 10)
     (6079859496950169 / 4503599627370496, 5404319552844595 / 9007199254740992) =
     (6079859496950169 / 4503599627370496, 3152519739159347 / 4503599627370496)"
  by code_simp

lemma tie_step6:
  "score_step binary64 only_solution_9 (''Team'', 1 / 10)
     (6079859496950169 / 4503599627370496, 3152519739159347 / 4503599627370496) =
     (6079859496950169 / 4503599627370496, 7205759403792793 / 9007199254740992)"
  by code_simp

lemma tie_step7:
  "score_step binary64 only_solution_9 (''Traction/Milestones'', 1 / 10)
     (6079859496950169 / 4503599627370496, 7205759403792793 / 9007199254740992) =
     (6079859496950169 / 4503599627370496, 2026619832316723 / 2251799813685248)"
  by code_simp

lemma tie_step8:
  "score_step binary64 only_solution_9 (''Financial Projections'', 1 / 20)
     (6079859496950169 / 4503599627370496, 2026619832316723 / 2251799813685248) =
     (6079859496950169 / 4503599627370496, 4278419646001971 / 4503599627370496)"
  by code_simp

lemma tie_step9:
  "score_step binary64 only_solution_9 (''Clarity and Presentation'', 1 / 20)
     (6079859496950169 / 4503599627370496, 4278419646001971 / 4503599627370496) =
     (6079859496950169 / 4503599627370496, 1)"
  by code_simp

lemma tie_fold:
  "fold (score_step binary64 only_solution_9) weights (0, 0) =
     (6079859496950169 / 4503599627370496, 1)"
  by (simp add: weights_def tie_step1 tie_step2 tie_step3 tie_step4 tie_step5 tie_step6
      tie_step7 tie_step8 tie_step9 del: score_step.simps)

lemma tie_round:
  "Math_round (binary64 (binary64 (6079859496950169 / 4503599627370496 / 1) * 10)) = 13"
  by code_simp

text \<open>
  Claim C1: for every analysis object, \<open>calculateOverallScore\<close> returns
  \<open>round(\<Sum> (score_i / 10 * weight_i) * 100)\<close> over the fixed weight table, clamped to
  \<open>[0, 100]\<close>, an absent or invalid category contributing 0, also when 1 to 8 categories
  are missing. In the double-precision arithmetic the code runs in, this fails where the
  exact weighted sum is a tie: with Solution/Product scored 9 and the other eight
  categories absent the sum \<open>9 * 0.15\<close> is the double \<open>1.3499999999999999\<close>, ten times it
  is \<open>13.499999999999998\<close>, and the code returns 13, while the formula gives
  \<open>round(13.5) = 14\<close>.
\<close>

theorem calculateOverallScore_double_tie:
  "calculateOverallScore binary64 only_solution_9 = 13 \<and>
   overall_score_formula only_solution_9 = 14"
proof
  show "calculateOverallScore binary64 only_solution_9 = 13"
    unfolding calculateOverallScore_def tie_fold using tie_round by (simp add: Let_def)
  show "overall_score_formula only_solution_9 = 14"
    by code_simp
qed

section \<open>Values thrown and caught\<close>

text \<open>
  What a \<open>catch\<close> block receives, as far as this program looks at it: \<open>null\<close>,
  \<open>undefined\<close>, or another value with its \<open>message\<close> property (a string, as for every
  \<open>Error\<close> object; \<open>None\<close> when the value has none).
\<close>

datatype thrown = ThrownNull | ThrownUndefined | Thrown "string option"

text \<open>\<open>error.message\<close> and \<open>error.stack\<close>: reading a property of \<open>null\<close> or \<open>undefined\<close> throws
  a \<open>TypeError\<close>, whose message is the \<open>Inl\<close>.\<close>

fun message_of :: "thrown \<Rightarrow> string + string option" where
  "message_of ThrownNull = Inl ''Cannot read properties of null (reading 'message')''"
| "message_of ThrownUndefined = Inl ''Cannot read properties of undefined (reading 'message')''"
| "message_of (Thrown m) = Inr m"

fun stack_of :: "thrown \<Rightarrow> string + unit" where
  "stack_of ThrownNull = Inl ''Cannot read properties of null (reading 'stack')''"
| "stack_of ThrownUndefined = Inl ''Cannot read properties of undefined (reading 'stack')''"
| "stack_of (Thrown m) = Inr ()"

text \<open>\<open>`${error.message}`\<close> and \<open>error.message || dflt\<close>, for a message that was read.\<close>

definition message_text :: "string option \<Rightarrow> string" where
  "message_text m = (case m of None \<Rightarrow> ''undefined'' | Some t \<Rightarrow> t)"

definition message_or :: "string option \<Rightarrow> string \<Rightarrow> string" where
  "message_or m dflt = (case m of None \<Rightarrow> dflt | Some t \<Rightarrow> if t = [] then dflt else t)"

text \<open>\<open>throw new Error(text)\<close>\<close>

definition Error :: "string \<Rightarrow> thrown" where
  "Error text = Thrown (Some text)"

section \<open>The external analysis client: \<open>callGeminiWithRetry\<close>\<close>

text \<open>Decimal digits of a natural number, as a template literal prints it.\<close>

function show_nat :: "nat \<Rightarrow> string" where
  "show_nat n =
     (if n < 10 then [''0123456789'' ! n] else show_nat (n div 10) @ [''0123456789'' ! (n mod 10)])"
  by pat_completeness auto
termination
  by (relation "measure id") auto

declare show_nat.simps [simp del]

text \<open>
  What one call \<open>geminiModel.generateContent(prompt)\<close> can do, as far as the body of the
  \<open>try\<close> block tells the cases apart: it rejects; it resolves with a result without
  \<open>response\<close>; with a response without a \<open>text\<close> member, the first candidate carrying a
  text part or none; with a response whose \<open>text()\<close> returns or throws. (A result that is
  \<open>null\<close> makes \<open>result.response\<close> throw a \<open>TypeError\<close> inside the block: a rejection
  with that error.)
\<close>

datatype api_call =
    Rejects thrown
  | NoResponse
  | NoTextMember "string option"
  | TextReturns string
  | TextThrows thrown

text \<open>The body of the \<open>try\<close> block: the text returned, or the value thrown.\<close>

fun attempt :: "api_call \<Rightarrow> thrown + string" where
  "attempt (Rejects e) = Inl e"
| "attempt NoResponse = Inl (Error ''API returned no response object.'')"
| "attempt (NoTextMember part) =
     (case part of
        Some t \<Rightarrow> if t \<noteq> [] then Inr t else Inl (Error ''API response text is empty or undefined.'')
      | None \<Rightarrow> Inl (Error ''API response text is empty or undefined.''))"
| "attempt (TextReturns t) = Inr t"
| "attempt (TextThrows e) = Inl e"

record retry_result =
  outcome :: "string + string"
  attempts :: nat
  sleeps :: "nat list"

text \<open>
  The loop of \<open>callGeminiWithRetry\<close>: \<open>calls\<close> counts the calls made, \<open>slept\<close> lists the
  delays waited, in milliseconds. The \<open>catch\<close> block reads \<open>error.message\<close> before anything
  else, so a value thrown that is \<open>null\<close> or \<open>undefined\<close> ends the function with a
  \<open>TypeError\<close>.
\<close>

function retry_loop :: "(nat \<Rightarrow> api_call) \<Rightarrow> nat \<Rightarrow> nat \<Rightarrow> nat \<Rightarrow> nat list \<Rightarrow> retry_result" where
  "retry_loop api maxRetries retries calls slept =
     (if retries \<le> maxRetries then
        (case attempt (api calls) of
           Inr text \<Rightarrow> \<lparr>outcome = Inr text, attempts = calls + 1, sleeps = slept\<rparr>
         | Inl error \<Rightarrow>
             let retries' = retries + 1 in
             (case message_of error of
                Inl typeError \<Rightarrow> \<lparr>outcome = Inl typeError, attempts = calls + 1, sleeps = slept\<rparr>
              | Inr message \<Rightarrow>
                  if retries' > maxRetries then
                    \<lparr>outcome = Inl (''Failed to get valid Gemini analysis after '' @
                         show_nat (maxRetries + 1) @ '' attempts: '' @ message_text message),
                     attempts = calls + 1, sleeps = slept\<rparr>
                  else
                    let delay = 1500 * 2 ^ (retries' - 1)
                    in retry_loop api maxRetries retries' (calls + 1) (slept @ [delay])))
      else \<lparr>outcome = Inl ''Gemini analysis failed after all retries.'',
            attempts = calls, sleeps = slept\<rparr>)"
  by pat_completeness auto
termination
  by (relation "measure (\<lambda>(api, maxRetries, retries, calls, slept). maxRetries + 1 - retries)") auto

declare retry_loop.simps [simp del]

definition callGeminiWithRetry :: "(nat \<Rightarrow> api_call) \<Rightarrow> retry_result" where
  "callGeminiWithRetry api = retry_loop api 2 0 0 []"







lemma show_nat_3: "show_nat 3 = ''3''"
  by (simp add: show_nat.simps)


text \<open>The loop with \<open>maxRetries = 2\<close>, unrolled.\<close>

lemma callGeminiWithRetry_cases:
  "callGeminiWithRetry api =
    (case attempt (api 0) of
       Inr t \<Rightarrow> \<lparr>outcome = Inr t, attempts = 1, sleeps = []\<rparr>
     | Inl e0 \<Rightarrow>
         (case message_of e0 of
            Inl typeError \<Rightarrow> \<lparr>outcome = Inl typeError, attempts = 1, sleeps = []\<rparr>
          | Inr m0 \<Rightarrow>
        (case attempt (api 1) of
          Inr t \<Rightarrow> \<lparr>outcome = Inr t, attempts = 2, sleeps = [1500]\<rparr>
        | Inl e1 \<Rightarrow>
            (case message_of e1 of
               Inl typeError \<Rightarrow> \<lparr>outcome = Inl typeError, attempts = 2, sleeps = [1500]\<rparr>
             | Inr m1 \<Rightarrow>
            (case attempt (api 2) of
               Inr t \<Rightarrow> \<lparr>outcome = Inr t, attempts = 3, sleeps = [1500, 3000]\<rparr>
             | Inl e2 \<Rightarrow>
                 (case message_of e2 of
                    Inl typeError \<Rightarrow> \<lparr>outcome = Inl typeError, attempts = 3, sleeps = [1500, 3000]\<rparr>
                  | Inr m2 \<Rightarrow>
                      \<lparr>outcome = Inl (''Failed to get valid Gemini analysis after 3 attempts: '' @
                           message_text m2),
                       attempts = 3, sleeps = [1500, 3000]\<rparr>))))))"
proof -
  have s2: "retry_loop api 2 2 2 [1500, 3000] =
    (case attempt (api 2) of
               Inr t \<Rightarrow> \<lparr>outcome = Inr t, attempts = 3, sleeps = [1500, 3000]\<rparr>
             | Inl e2 \<Rightarrow>
                 (case message_of e2 of
                    Inl typeError \<Rightarrow> \<lparr>outcome = Inl typeError, attempts = 3, sleeps = [1500, 3000]\<rparr>
                  | Inr m2 \<Rightarrow>
                      \<lparr>outcome = Inl (''Failed to get valid Gemini analysis after 3 attempts: '' @
                           message_text m2),
                       attempts = 3, sleeps = [1500, 3000]\<rparr>))"
    by (simp add: retry_loop.simps [of api 2 2 2] show_nat_3 split: sum.splits)
  have s1: "retry_loop api 2 1 1 [1500] =
    (case attempt (api 1) of
          Inr t \<Rightarrow> \<lparr>outcome = Inr t, attempts = 2, sleeps = [1500]\<rparr>
        | Inl e1 \<Rightarrow>
            (case message_of e1 of
               Inl typeError \<Rightarrow> \<lparr>outcome = Inl typeError, attempts = 2, sleeps = [1500]\<rparr>
             | Inr m1 \<Rightarrow>
            retry_loop api 2 2 2 [1500, 3000]))"
    by (simp add: retry_loop.simps [of api 2 "Suc 0" "Suc 0"] numeral_2_eq_2 [symmetric]
        split: sum.splits)
  have s0: "retry_loop api 2 0 0 [] =
    (case attempt (api 0) of
       Inr t \<Rightarrow> \<lparr>outcome = Inr t, attempts = 1, sleeps = []\<rparr>
     | Inl e0 \<Rightarrow>
         (case message_of e0 of
            Inl typeError \<Rightarrow> \<lparr>outcome = Inl typeError, attempts = 1, sleeps = []\<rparr>
          | Inr m0 \<Rightarrow>
        retry_loop api 2 1 1 [1500]))"
    by (simp add: retry_loop.simps [of api 2 0 0] split: sum.splits)
  show ?thesis
    unfolding callGeminiWithRetry_def s0 s1 s2 ..
qed





section \<open>Validation of the parsed response in \<open>analyzeWithGemini\<close>\<close>

definition requiredCategories :: "string list" where
  "requiredCategories =
    [''Problem Statement'', ''Solution/Product'', ''Market Opportunity'', ''Business Model'',
     ''Competitive Landscape'', ''Team'', ''Traction/Milestones'',
     ''Financial Projections'', ''Clarity and Presentation'']"

definition requiredTopLevelFields :: "string list" where
  "requiredTopLevelFields =
    [''overall_strengths'', ''overall_weaknesses'', ''recommendation'',
     ''confidence_score'', ''recommendations_for_investor'', ''processing_date'']"

text \<open>\<open>xs.join(sep)\<close> on an array of strings.\<close>

fun js_join :: "string \<Rightarrow> string list \<Rightarrow> string" where
  "js_join sep [] = []"
| "js_join sep [x] = x"
| "js_join sep (x # y # ys) = x @ sep @ js_join sep (y # ys)"

text \<open>\<open>!categoryData\<close>: the category is \<open>undefined\<close> or falsy.\<close>

definition category_missing :: "json option \<Rightarrow> bool" where
  "category_missing categoryData =
     (case categoryData of None \<Rightarrow> True | Some d \<Rightarrow> \<not> truthy d)"

text \<open>\<open>typeof categoryData.score !== 'number' || categoryData.score < 0 ||
  categoryData.score > 10\<close>, for a category that is not missing.\<close>

definition score_invalid :: "json \<Rightarrow> bool" where
  "score_invalid categoryData =
     (case js_prop categoryData ''score'' of
        Some (JNum score) \<Rightarrow> score < 0 \<or> score > 10
      | _ \<Rightarrow> True)"

definition missingCategories :: "obj \<Rightarrow> string list" where
  "missingCategories analysisResult =
     filter (\<lambda>cat. category_missing (map_of analysisResult cat)) requiredCategories"

text \<open>
  The entries \<open>`${cat} (Score: ${categoryData.score})`\<close>. The conversion of an arbitrary
  value to its text is JavaScript's own; it is the parameter \<open>toStr\<close>.
\<close>

definition categoriesWithInvalidScores :: "(json option \<Rightarrow> string) \<Rightarrow> obj \<Rightarrow> string list" where
  "categoriesWithInvalidScores toStr analysisResult =
     List.map_filter
       (\<lambda>cat. case map_of analysisResult cat of
                None \<Rightarrow> None
              | Some categoryData \<Rightarrow>
                  if \<not> truthy categoryData then None
                  else if score_invalid categoryData
                    then Some (cat @ '' (Score: '' @ toStr (js_prop categoryData ''score'') @ '')'')
                    else None)
       requiredCategories"

text \<open>\<open>analysisResult[field] === undefined || analysisResult[field] === null\<close>.\<close>

definition field_missing :: "json option \<Rightarrow> bool" where
  "field_missing v = (case v of None \<Rightarrow> True | Some JNull \<Rightarrow> True | Some _ \<Rightarrow> False)"

definition missingTopLevelFields :: "obj \<Rightarrow> string list" where
  "missingTopLevelFields analysisResult =
     filter (\<lambda>field. field_missing (map_of analysisResult field)) requiredTopLevelFields"

definition validationErrors :: "(json option \<Rightarrow> string) \<Rightarrow> obj \<Rightarrow> string list" where
  "validationErrors toStr analysisResult =
     (if missingCategories analysisResult \<noteq> []
        then [''Missing categories: '' @ js_join '', '' (missingCategories analysisResult)]
        else []) @
     (if categoriesWithInvalidScores toStr analysisResult \<noteq> []
        then [''Invalid scores: '' @ js_join '', '' (categoriesWithInvalidScores toStr analysisResult)]
        else []) @
     (if missingTopLevelFields analysisResult \<noteq> []
        then [''Missing top-level fields: '' @ js_join ''; '' (missingTopLevelFields analysisResult)]
        else [])"

text \<open>
  The statements between \<open>JSON.parse\<close> and \<open>return analysisResult\<close>, on a parsed object:
  the message of the error thrown, or the object returned (with \<open>overall_score\<close> assigned)
  and the warnings logged.
\<close>

definition validate_and_score ::
  "(rat \<Rightarrow> rat) \<Rightarrow> (json option \<Rightarrow> string) \<Rightarrow> obj \<Rightarrow> string + (obj \<times> string list)" where
  "validate_and_score rd toStr analysisResult =
     (if categoriesWithInvalidScores toStr analysisResult \<noteq> [] \<or>
         missingTopLevelFields analysisResult \<noteq> []
      then Inl (''Analysis validation failed: '' @
                js_join ''; '' (validationErrors toStr analysisResult))
      else
        Inr (AList.update ''overall_score''
               (JNum (of_int (calculateOverallScore rd analysisResult))) analysisResult,
             if missingCategories analysisResult \<noteq> []
             then [''Warning: Gemini response missing categories: '' @
                   js_join '', '' (missingCategories analysisResult) @
                   ''. These will be scored as 0.'']
             else []))"

text \<open>
  The inner \<open>try\<close> block of \<open>analyzeWithGemini\<close>. \<open>sanitize\<close> is the identity in
  \<open>server.js\<close> and \<open>sanitizeJsonString\<close> in \<open>ai/analyzeWithGemini.js\<close>; \<open>parse\<close> is
  \<open>JSON.parse\<close>, \<open>Inl\<close> the message of its \<open>SyntaxError\<close>. Reading a property of \<open>null\<close>
  throws a \<open>TypeError\<close>; a primitive or an array has none of the properties read. Whatever
  is thrown is caught and thrown again under a new message.
\<close>

definition parse_and_validate ::
  "(rat \<Rightarrow> rat) \<Rightarrow> (json option \<Rightarrow> string) \<Rightarrow> (string \<Rightarrow> string + string) \<Rightarrow>
   (string \<Rightarrow> string + json) \<Rightarrow> string \<Rightarrow> string + (obj \<times> string list)" where
  "parse_and_validate rd toStr sanitize parse responseText =
     (let thrown_or_result =
        (case sanitize responseText of
           Inl message \<Rightarrow> Inl message
         | Inr sanitizedResponse \<Rightarrow>
            (case parse sanitizedResponse of
               Inl message \<Rightarrow> Inl message
             | Inr JNull \<Rightarrow>
                 Inl ''Cannot read properties of null (reading 'Problem Statement')''
             | Inr (JObj analysisResult) \<Rightarrow> validate_and_score rd toStr analysisResult
             | Inr primitive_or_array \<Rightarrow> validate_and_score rd toStr []))
      in case thrown_or_result of
           Inl message \<Rightarrow> Inl (''Could not parse LLM JSON response: '' @ message)
         | Inr r \<Rightarrow> Inr r)"

text \<open>
  \<open>analyzeWithGemini\<close>: the guard on the slides, the warnings, the prompt, the retried call,
  and the inner block; an error of the call or of the inner block is thrown again as
  \<open>LLM analysis failed: ...\<close>. Building the prompt reads \<open>slide.text\<close> of every slide, which
  throws on a slide that is \<open>null\<close>; otherwise the prompt does not influence the model: the
  outcomes of the calls are the environment \<open>api\<close>.
\<close>

definition analyzeWithGemini ::
  "(rat \<Rightarrow> rat) \<Rightarrow> (json option \<Rightarrow> string) \<Rightarrow> (string \<Rightarrow> string + string) \<Rightarrow>
   (string \<Rightarrow> string + json) \<Rightarrow> (nat \<Rightarrow> api_call) \<Rightarrow> json \<Rightarrow>
   string + (obj \<times> string list)" where
  "analyzeWithGemini rd toStr sanitize parse api extractedSlides =
     (case extractedSlides of
        JArr (slide # slides) \<Rightarrow>
          (let n = length (slide # slides);
               slide_warnings =
                 (if n < 3 then [''Warning: Only '' @ show_nat n @
                      '' slides extracted. Minimum 5 recommended for full analysis.''] else []) @
                 (if n > 30 then [''Warning: More than 30 slides provided, analysis quality may be impacted.'']
                  else [])
           in if JNull \<in> set (slide # slides)
              then Inl ''Cannot read properties of null (reading 'text')''
              else
                case outcome (callGeminiWithRetry api) of
                  Inl message \<Rightarrow> Inl (''LLM analysis failed: '' @ message)
                | Inr responseText \<Rightarrow>
                    (case parse_and_validate rd toStr sanitize parse responseText of
                       Inl message \<Rightarrow> Inl (''LLM analysis failed: '' @ message)
                     | Inr (analysisResult, ws) \<Rightarrow> Inr (analysisResult, slide_warnings @ ws)))
      | _ \<Rightarrow> Inl ''Invalid slides: No slides extracted or data is malformed.'')"

text \<open>The text a template literal gives \<open>undefined\<close>, \<open>null\<close>, a boolean, a string, a
  non-negative integer and an object (the examples convert no other value).\<close>

definition template_text :: "json option \<Rightarrow> string" where
  "template_text v =
     (case v of
        None \<Rightarrow> ''undefined''
      | Some JNull \<Rightarrow> ''null''
      | Some (JBool b) \<Rightarrow> (if b then ''true'' else ''false'')
      | Some (JNum x) \<Rightarrow> show_nat (nat \<lfloor>x\<rfloor>)
      | Some (JStr s) \<Rightarrow> s
      | Some other \<Rightarrow> ''[object Object]'')"

text \<open>A response that passes validation with every category and field present.\<close>

definition complete_response :: obj where
  "complete_response =
    [(''Problem Statement'', JObj [(''score'', JNum 7), (''qualitative_feedback'', JStr ''Clear pain.'')]),
     (''Solution/Product'', JObj [(''score'', JNum 8), (''qualitative_feedback'', JStr ''Feasible.'')]),
     (''Market Opportunity'', JObj [(''score'', JNum 6), (''qualitative_feedback'', JStr ''TAM given.'')]),
     (''Business Model'', JObj [(''score'', JNum 6), (''qualitative_feedback'', JStr ''Subscription.'')]),
     (''Competitive Landscape'', JObj [(''score'', JNum 4), (''qualitative_feedback'', JStr ''Thin.'')]),
     (''Team'', JObj [(''score'', JNum 9), (''qualitative_feedback'', JStr ''Experienced.'')]),
     (''Traction/Milestones'', JObj [(''score'', JNum 3), (''qualitative_feedback'', JStr ''Early.'')]),
     (''Financial Projections'', JObj [(''score'', JNum 2), (''qualitative_feedback'', JStr ''Sparse.'')]),
     (''Clarity and Presentation'', JObj [(''score'', JNum 10), (''qualitative_feedback'', JStr ''Concise.'')]),
     (''overall_strengths'', JArr [JStr ''Team'', JStr ''Product'', JStr ''Clarity'']),
     (''overall_weaknesses'', JArr [JStr ''Traction'', JStr ''Financials'', JStr ''Competition'']),
     (''recommendation'', JStr ''Hold''),
     (''confidence_score'', JNum 70),
     (''recommendations_for_investor'', JStr ''Probe the unit economics.''),
     (''processing_date'', JStr ''2025-04-18 10:00:00 UTC''),
     (''overall_score'', JNum 99)]"

text \<open>The same response with the Team entry absent, and with the Team entry present but
  without a \<open>score\<close>.\<close>

definition without_team :: obj where
  "without_team = AList.delete ''Team'' complete_response"

definition team_without_score :: obj where
  "team_without_score =
     AList.update ''Team'' (JObj [(''qualitative_feedback'', JStr ''No team slide.'')])
       complete_response"

lemma map_filter_empty_iff: "List.map_filter f xs = [] \<longleftrightarrow> (\<forall>x \<in> set xs. f x = None)"
  by (induction xs) (auto simp: List.map_filter_simps split: option.splits)

lemma categoriesWithInvalidScores_empty_iff:
  "categoriesWithInvalidScores toStr a = [] \<longleftrightarrow>
     (\<forall>cat \<in> set requiredCategories. \<forall>d. map_of a cat = Some d \<longrightarrow> truthy d \<longrightarrow> \<not> score_invalid d)"
  unfolding categoriesWithInvalidScores_def map_filter_empty_iff
  by (auto split: option.splits if_splits)

lemma missingTopLevelFields_empty_iff:
  "missingTopLevelFields a = [] \<longleftrightarrow>
     (\<forall>field \<in> set requiredTopLevelFields. \<not> field_missing (map_of a field))"
  by (simp add: missingTopLevelFields_def filter_empty_conv)

lemma validate_and_score_fatal_iff:
  "(\<exists>message. validate_and_score rd toStr a = Inl message) \<longleftrightarrow>
     (\<exists>cat \<in> set requiredCategories. \<exists>d. map_of a cat = Some d \<and> truthy d \<and> score_invalid d) \<or>
     (\<exists>field \<in> set requiredTopLevelFields. field_missing (map_of a field))"
  using categoriesWithInvalidScores_empty_iff [of toStr a] missingTopLevelFields_empty_iff [of a]
  by (auto simp: validate_and_score_def)

lemma category_missing_score_0:
  "category_missing (map_of a cat) \<Longrightarrow> category_score_or_0 a cat = 0"
  by (auto simp: category_missing_def category_score_or_0_def usable_score_def split: option.splits)

lemma score_invalid_iff:
  "score_invalid d \<longleftrightarrow>
     (\<forall>s. js_prop d ''score'' = Some (JNum s) \<longrightarrow> s < 0 \<or> s > 10)"
  by (auto simp: score_invalid_def split: option.splits json.splits)

lemma valid_category_score:
  "map_of a cat = Some d \<Longrightarrow> truthy d \<Longrightarrow> \<not> score_invalid d \<Longrightarrow>
     \<exists>s. js_prop d ''score'' = Some (JNum s) \<and> 0 \<le> s \<and> s \<le> 10 \<and> usable_score (map_of a cat) = Some s"
  by (auto simp: score_invalid_def usable_score_def split: option.splits json.splits)

text \<open>
  Claim C5, as the code has it: validation is fatal exactly when a required category
  that is present (truthy) has a score that is missing, not a number or outside
  \<open>[0, 10]\<close>, or when one of the six required top-level fields is \<open>undefined\<close> or
  \<open>null\<close>; then the analysis throws. A required category that is absent (or falsy) is
  tolerated: when validation passes, every such category is listed in the one warning
  logged and counts 0 in the score. So it is the missing category entry that defaults to
  0; a category entry that is there without its score is a fatal error.
\<close>

theorem validate_and_score_policy:
  "((\<exists>message. validate_and_score rd toStr a = Inl message) \<longleftrightarrow>
      (\<exists>cat \<in> set requiredCategories. \<exists>d. map_of a cat = Some d \<and> truthy d \<and> score_invalid d) \<or>
      (\<exists>field \<in> set requiredTopLevelFields. field_missing (map_of a field))) \<and>
   (\<forall>a' ws. validate_and_score rd toStr a = Inr (a', ws) \<longrightarrow>
      (\<forall>cat \<in> set requiredCategories. category_missing (map_of a cat) \<longrightarrow>
          cat \<in> set (missingCategories a) \<and> category_score_or_0 a cat = 0 \<and>
          usable_score (map_of a cat) = None) \<and>
      ws = (if missingCategories a \<noteq> []
            then [''Warning: Gemini response missing categories: '' @
                  js_join '', '' (missingCategories a) @ ''. These will be scored as 0.'']
            else []))"
proof (intro conjI allI impI)
  show "(\<exists>message. validate_and_score rd toStr a = Inl message) \<longleftrightarrow>
      (\<exists>cat \<in> set requiredCategories. \<exists>d. map_of a cat = Some d \<and> truthy d \<and> score_invalid d) \<or>
      (\<exists>field \<in> set requiredTopLevelFields. field_missing (map_of a field))"
    by (rule validate_and_score_fatal_iff)
next
  fix a' ws
  assume "validate_and_score rd toStr a = Inr (a', ws)"
  then show "ws = (if missingCategories a \<noteq> []
            then [''Warning: Gemini response missing categories: '' @
                  js_join '', '' (missingCategories a) @ ''. These will be scored as 0.'']
            else [])"
    by (auto simp: validate_and_score_def split: if_splits)
next
  fix a' ws
  assume "validate_and_score rd toStr a = Inr (a', ws)"
  show "\<forall>cat \<in> set requiredCategories. category_missing (map_of a cat) \<longrightarrow>
          cat \<in> set (missingCategories a) \<and> category_score_or_0 a cat = 0 \<and>
          usable_score (map_of a cat) = None"
    by (auto simp: missingCategories_def category_missing_score_0 category_missing_def
        usable_score_def split: option.splits)
qed


lemma without_team_missing: "missingCategories without_team = [''Team'']"
  by (simp add: missingCategories_def requiredCategories_def without_team_def
      complete_response_def category_missing_def AList.delete_eq)

lemma without_team_no_invalid:
  "\<not> (\<exists>cat \<in> set requiredCategories. \<exists>d. map_of without_team cat = Some d \<and> truthy d \<and> score_invalid d)"
  by (simp add: requiredCategories_def without_team_def complete_response_def
      score_invalid_def AList.delete_eq)

lemma without_team_fields:
  "\<not> (\<exists>field \<in> set requiredTopLevelFields. field_missing (map_of without_team field))"
  by (simp add: requiredTopLevelFields_def without_team_def complete_response_def
      field_missing_def AList.delete_eq)

lemma team_without_score_invalid:
  "map_of team_without_score ''Team'' = Some (JObj [(''qualitative_feedback'', JStr ''No team slide.'')]) \<and>
   score_invalid (JObj [(''qualitative_feedback'', JStr ''No team slide.'')])"
  by (simp add: team_without_score_def complete_response_def score_invalid_def)

theorem validate_and_score_policy_witness:
  "(\<forall>toStr. \<exists>a'. validate_and_score binary64 toStr without_team =
       Inr (a', [''Warning: Gemini response missing categories: Team. These will be scored as 0.''])) \<and>
   category_score_or_0 without_team ''Team'' = 0 \<and>
   (\<forall>toStr. \<exists>message. validate_and_score binary64 toStr team_without_score = Inl message)"
proof (intro conjI allI)
  fix toStr :: "json option \<Rightarrow> string"
  note p = validate_and_score_policy [of binary64 toStr without_team]
  from p without_team_no_invalid without_team_fields
  have "\<not> (\<exists>message. validate_and_score binary64 toStr without_team = Inl message)"
    by blast
  then obtain a' ws where r: "validate_and_score binary64 toStr without_team = Inr (a', ws)"
    by (cases "validate_and_score binary64 toStr without_team") auto
  with p have "ws = (if missingCategories without_team \<noteq> []
            then [''Warning: Gemini response missing categories: '' @
                  js_join '', '' (missingCategories without_team) @ ''. These will be scored as 0.'']
            else [])"
    by blast
  then have "ws = [''Warning: Gemini response missing categories: Team. These will be scored as 0.'']"
    by (simp add: without_team_missing)
  with r show "\<exists>a'. validate_and_score binary64 toStr without_team =
       Inr (a', [''Warning: Gemini response missing categories: Team. These will be scored as 0.''])"
    by blast
next
  show "category_score_or_0 without_team ''Team'' = 0"
    by (simp add: category_score_or_0_def usable_score_def without_team_def
        complete_response_def AList.delete_eq)
next
  fix toStr :: "json option \<Rightarrow> string"
  from validate_and_score_policy [of binary64 toStr team_without_score]
       team_without_score_invalid
  show "\<exists>message. validate_and_score binary64 toStr team_without_score = Inl message"
    by (auto simp: requiredCategories_def)
qed

text \<open>
  Claim C5 as stated fails where the category is present and only its score is missing:
  the response below has every field and category, the Team entry carrying feedback but
  no \<open>score\<close>, and validation throws instead of defaulting Team to 0.
\<close>

theorem missing_score_is_fatal:
  "map_of team_without_score ''Team'' = Some (JObj [(''qualitative_feedback'', JStr ''No team slide.'')]) \<and>
   js_prop (JObj [(''qualitative_feedback'', JStr ''No team slide.'')]) ''score'' = None \<and>
   validate_and_score binary64 template_text team_without_score =
     Inl ''Analysis validation failed: Invalid scores: Team (Score: undefined)''"
  by (simp add: validate_and_score_def validationErrors_def categoriesWithInvalidScores_def
      missingCategories_def missingTopLevelFields_def requiredCategories_def
      requiredTopLevelFields_def team_without_score_def complete_response_def
      score_invalid_def field_missing_def category_missing_def List.map_filter_simps
      template_text_def)

section \<open>The JSON repair pass: \<open>sanitizeJsonString\<close>\<close>

text \<open>
  Strings are lists of Isabelle's characters, the code units below 256. The character
  classes of the regular expressions are given on these: \<open>.\<close> is any character but a line
  terminator, \<open>\s\<close> is white space, \<open>[a-zA-Z0-9_]\<close> a word character.
\<close>

definition dquote :: char where "dquote = CHR 0x22"
definition squote :: char where "squote = CHR 0x27"
definition backslash :: char where "backslash = CHR 0x5C"

definition is_control :: "char \<Rightarrow> bool" where
  "is_control c = ((of_char c :: nat) \<le> 0x1F \<or> (0x7F \<le> (of_char c :: nat) \<and> (of_char c :: nat) \<le> 0x9F))"

definition line_terminator :: "char \<Rightarrow> bool" where
  "line_terminator c = (c = CHR 0x0A \<or> c = CHR 0x0D)"

definition is_space :: "char \<Rightarrow> bool" where
  "is_space c = ((of_char c :: nat) \<in> {0x09, 0x0A, 0x0B, 0x0C, 0x0D, 0x20, 0xA0})"

definition is_word :: "char \<Rightarrow> bool" where
  "is_word c =
     ((0x61 \<le> (of_char c :: nat) \<and> (of_char c :: nat) \<le> 0x7A) \<or>
      (0x41 \<le> (of_char c :: nat) \<and> (of_char c :: nat) \<le> 0x5A) \<or>
      (0x30 \<le> (of_char c :: nat) \<and> (of_char c :: nat) \<le> 0x39) \<or> c = CHR ''_'')"

text \<open>\<open>jsonString.replace(/[\x00-\x1F\x7F-\x9F]/g, '')\<close>\<close>

definition remove_control :: "string \<Rightarrow> string" where
  "remove_control s = filter (\<lambda>c. \<not> is_control c) s"

text \<open>
  A match of \<open>/(\\*")(.*?)(")/\<close> at the start of \<open>s\<close>: the backslashes there and a quote
  (\<open>p1\<close>), the shortest run of characters up to the next quote, none of them a line
  terminator (\<open>p2\<close>), that quote (\<open>p3\<close>), and what follows the match.
\<close>

definition in_quotes :: "char \<Rightarrow> bool" where
  "in_quotes c = (c \<noteq> dquote \<and> \<not> line_terminator c)"

definition quoted_at :: "string \<Rightarrow> (string \<times> string \<times> string \<times> string) option" where
  "quoted_at s =
     (case dropWhile (\<lambda>c. c = backslash) s of
        [] \<Rightarrow> None
      | c # r \<Rightarrow>
          if c = dquote then
            (case dropWhile in_quotes r of
               [] \<Rightarrow> None
             | c' # rest \<Rightarrow>
                 if c' = dquote
                 then Some (takeWhile (\<lambda>c. c = backslash) s @ [dquote], takeWhile in_quotes r,
                            [dquote], rest)
                 else None)
          else None)"

text \<open>The callback of that replacement.\<close>

definition double_backslashes :: "string \<Rightarrow> string" where
  "double_backslashes s = concat (map (\<lambda>c. if c = backslash then [backslash, backslash] else [c]) s)"

definition escape_quotes :: "string \<Rightarrow> string" where
  "escape_quotes s = concat (map (\<lambda>c. if c = dquote then [backslash, dquote] else [c]) s)"

definition requote :: "string \<Rightarrow> string \<Rightarrow> string \<Rightarrow> string" where
  "requote p1 p2 p3 =
     (if p1 = [backslash, dquote] \<and> p3 = [backslash, dquote] then p1 @ p2 @ p3
      else [dquote] @ escape_quotes (double_backslashes p2) @ [dquote])"

lemma quoted_at_shorter:
  assumes "quoted_at s = Some (p1, p2, p3, rest)"
  shows "length rest < length s"
proof -
  from assms obtain r where r: "dropWhile (\<lambda>c. c = backslash) s = dquote # r"
    and rest: "dropWhile in_quotes r = dquote # rest"
    by (auto simp: quoted_at_def split: list.splits if_splits)
  have "length rest < length (dropWhile in_quotes r)" by (simp add: rest)
  also have "\<dots> \<le> length r" by (rule length_dropWhile_le)
  also have "\<dots> < length (dropWhile (\<lambda>c. c = backslash) s)" by (simp add: r)
  also have "\<dots> \<le> length s" by (rule length_dropWhile_le)
  finally show ?thesis .
qed

text \<open>\<open>sanitized.replace(/(\\*")(.*?)(")/g, ...)\<close>: the matches from left to right, none
  overlapping another.\<close>

function requote_strings :: "string \<Rightarrow> string" where
  "requote_strings s =
     (case quoted_at s of
        Some (p1, p2, p3, rest) \<Rightarrow> requote p1 p2 p3 @ requote_strings rest
      | None \<Rightarrow> (case s of [] \<Rightarrow> [] | c # cs \<Rightarrow> c # requote_strings cs))"
  by pat_completeness auto
termination
  by (relation "measure length") (auto dest: quoted_at_shorter)

declare requote_strings.simps [simp del]

text \<open>
  A match of \<open>/(\s*?{\s*?|\s*?,\s*?)(['"])?([a-zA-Z0-9_]+)(['"])?:/\<close> at the start of \<open>s\<close>:
  white space, a brace or a comma, white space (\<open>$1\<close>), a quote or none, word characters
  (\<open>$3\<close>), a quote or none, and a colon; and what follows the match.
\<close>

definition skip_quote :: "string \<Rightarrow> string" where
  "skip_quote s = (case s of [] \<Rightarrow> [] | c # cs \<Rightarrow> if c = squote \<or> c = dquote then cs else s)"

definition property_at :: "string \<Rightarrow> (string \<times> string \<times> string) option" where
  "property_at s =
     (case dropWhile is_space s of
        [] \<Rightarrow> None
      | c # r \<Rightarrow>
          if c = CHR ''{'' \<or> c = CHR '','' then
            (let after = skip_quote (dropWhile is_space r);
                 name = takeWhile is_word after
             in if name = [] then None
                else (case skip_quote (dropWhile is_word after) of
                        [] \<Rightarrow> None
                      | c' # rest \<Rightarrow>
                          if c' = CHR '':''
                          then Some (takeWhile is_space s @ [c] @ takeWhile is_space r, name, rest)
                          else None))
          else None)"

lemma skip_quote_le: "length (skip_quote s) \<le> length s"
  by (simp add: skip_quote_def split: list.splits)

lemma property_at_shorter:
  assumes "property_at s = Some (g1, name, rest)"
  shows "length rest < length s"
proof -
  from assms obtain c r where r: "dropWhile is_space s = c # r"
    and rest: "skip_quote (dropWhile is_word (skip_quote (dropWhile is_space r))) = CHR '':'' # rest"
    by (auto simp: property_at_def Let_def split: list.splits if_splits)
  have "length rest < length (skip_quote (dropWhile is_word (skip_quote (dropWhile is_space r))))"
    by (simp add: rest)
  also have "\<dots> \<le> length (dropWhile is_word (skip_quote (dropWhile is_space r)))"
    by (rule skip_quote_le)
  also have "\<dots> \<le> length (skip_quote (dropWhile is_space r))" by (rule length_dropWhile_le)
  also have "\<dots> \<le> length (dropWhile is_space r)" by (rule skip_quote_le)
  also have "\<dots> \<le> length r" by (rule length_dropWhile_le)
  also have "\<dots> < length (dropWhile is_space s)" by (simp add: r)
  also have "\<dots> \<le> length s" by (rule length_dropWhile_le)
  finally show ?thesis .
qed

text \<open>\<open>sanitized.replace(..., '$1"$3":')\<close>\<close>

function quote_property_names :: "string \<Rightarrow> string" where
  "quote_property_names s =
     (case property_at s of
        Some (g1, name, rest) \<Rightarrow> g1 @ [dquote] @ name @ [dquote] @ '':'' @ quote_property_names rest
      | None \<Rightarrow> (case s of [] \<Rightarrow> [] | c # cs \<Rightarrow> c # quote_property_names cs))"
  by pat_completeness auto
termination
  by (relation "measure length") (auto dest: property_at_shorter)

declare quote_property_names.simps [simp del]

text \<open>\<open>jsonString.match(/\{[\s\S]*\}/)\<close>: from the first opening brace to the last closing
  brace after it.\<close>

definition match_braces :: "string \<Rightarrow> string option" where
  "match_braces s =
     (case dropWhile (\<lambda>c. c \<noteq> CHR ''{'') s of
        [] \<Rightarrow> None
      | c # r \<Rightarrow>
          if CHR ''}'' \<in> set r
          then Some (c # rev (dropWhile (\<lambda>c. c \<noteq> CHR ''}'') (rev r)))
          else None)"

text \<open>
  \<open>sanitizeJsonString\<close>; \<open>parse\<close> is \<open>JSON.parse\<close>, \<open>Inl\<close> the message of its \<open>SyntaxError\<close>.
  The result is \<open>Inl\<close> the message of the error thrown, or \<open>Inr\<close> the value returned.
\<close>

definition sanitizeJsonString :: "(string \<Rightarrow> string + json) \<Rightarrow> json \<Rightarrow> string + json" where
  "sanitizeJsonString parse jsonString =
     (case jsonString of
        JStr s \<Rightarrow>
          (case parse s of
             Inr parsed \<Rightarrow> Inr (JStr s)
           | Inl m0 \<Rightarrow>
               (let sanitized = quote_property_names (requote_strings (remove_control s))
                in case parse sanitized of
                     Inr parsed \<Rightarrow> Inr (JStr sanitized)
                   | Inl m1 \<Rightarrow>
                       (case match_braces s of
                          Some extractedJson \<Rightarrow>
                            (case parse extractedJson of
                               Inr parsed \<Rightarrow> Inr (JStr extractedJson)
                             | Inl m2 \<Rightarrow> Inl (''Unable to sanitize malformed JSON: '' @ m2))
                        | None \<Rightarrow> Inl (''Unable to extract valid JSON structure: '' @ m1))))
      | not_a_string \<Rightarrow> Inr not_a_string)"

subsection \<open>A reader of JSON text\<close>

text \<open>
  \<open>JSON.parse\<close> is a built-in of the language; the repair pass is stated for any \<open>parse\<close>.
  The examples use this reader of the JSON grammar (a value between white space; objects,
  arrays, strings with their escapes, numbers, \<open>true\<close>, \<open>false\<close>, \<open>null\<close>), with numbers
  read exactly and one message for every syntax error.
\<close>

definition json_ws :: "char \<Rightarrow> bool" where
  "json_ws c = (c = CHR '' '' \<or> c = CHR 0x09 \<or> c = CHR 0x0A \<or> c = CHR 0x0D)"

definition is_digit :: "char \<Rightarrow> bool" where
  "is_digit c = (0x30 \<le> (of_char c :: nat) \<and> (of_char c :: nat) \<le> 0x39)"

definition digits_value :: "string \<Rightarrow> nat" where
  "digits_value ds = foldl (\<lambda>n c. 10 * n + (of_char c - 0x30)) 0 ds"

definition hex_value :: "char \<Rightarrow> nat option" where
  "hex_value c =
     (let n = (of_char c :: nat)
      in if 0x30 \<le> n \<and> n \<le> 0x39 then Some (n - 0x30)
         else if 0x41 \<le> n \<and> n \<le> 0x46 then Some (n - 0x41 + 10)
         else if 0x61 \<le> n \<and> n \<le> 0x66 then Some (n - 0x61 + 10)
         else None)"

definition read_hex4 :: "string \<Rightarrow> char option" where
  "read_hex4 s =
     (case map hex_value (take 4 s) of
        [Some a, Some b, Some c, Some d] \<Rightarrow> Some (char_of (((a * 16 + b) * 16 + c) * 16 + d))
      | _ \<Rightarrow> None)"

definition unescape :: "char \<Rightarrow> char option" where
  "unescape e =
     (if e = dquote \<or> e = backslash \<or> e = CHR ''/'' then Some e
      else if e = CHR ''b'' then Some (CHR 0x08)
      else if e = CHR ''f'' then Some (CHR 0x0C)
      else if e = CHR ''n'' then Some (CHR 0x0A)
      else if e = CHR ''r'' then Some (CHR 0x0D)
      else if e = CHR ''t'' then Some (CHR 0x09)
      else None)"

definition cons_to :: "'a \<Rightarrow> ('a list \<times> 'b) option \<Rightarrow> ('a list \<times> 'b) option" where
  "cons_to x r = map_option (\<lambda>(xs, rest). (x # xs, rest)) r"

text \<open>The characters of a string, read after its opening quote, and what follows the
  closing quote.\<close>

fun read_string :: "string \<Rightarrow> (string \<times> string) option" where
  "read_string [] = None"
| "read_string (c # r) =
     (if c = dquote then Some ([], r)
      else if c = backslash then
        (case r of
           [] \<Rightarrow> None
         | e # r' \<Rightarrow>
             if e = CHR ''u'' then
               (case read_hex4 r' of
                  None \<Rightarrow> None
                | Some x \<Rightarrow> cons_to x (read_string (drop 4 r')))
             else
               (case unescape e of
                  None \<Rightarrow> None
                | Some x \<Rightarrow> cons_to x (read_string r')))
      else if (of_char c :: nat) < 0x20 then None
      else cons_to c (read_string r))"

definition read_sign :: "string \<Rightarrow> bool \<times> string" where
  "read_sign s = (case s of [] \<Rightarrow> (False, s) | c # r \<Rightarrow> if c = CHR ''-'' then (True, r) else (False, s))"

definition read_fraction :: "string \<Rightarrow> (rat \<times> string) option" where
  "read_fraction s =
     (case s of
        [] \<Rightarrow> Some (0, s)
      | c # r \<Rightarrow>
          if c = CHR ''.'' then
            (let ds = takeWhile is_digit r
             in if ds = [] then None
                else Some (of_nat (digits_value ds) / 10 ^ length ds, dropWhile is_digit r))
          else Some (0, s))"

definition read_exponent :: "string \<Rightarrow> (int \<times> string) option" where
  "read_exponent s =
     (case s of
        [] \<Rightarrow> Some (0, s)
      | c # r \<Rightarrow>
          if c = CHR ''e'' \<or> c = CHR ''E'' then
            (let (negative, r') =
                   (case r of
                      [] \<Rightarrow> (False, r)
                    | sg # t \<Rightarrow> if sg = CHR ''-'' then (True, t)
                                else if sg = CHR ''+'' then (False, t) else (False, r));
                 ds = takeWhile is_digit r'
             in if ds = [] then None
                else Some (if negative then - int (digits_value ds) else int (digits_value ds),
                           dropWhile is_digit r'))
          else Some (0, s))"

definition read_number :: "string \<Rightarrow> (rat \<times> string) option" where
  "read_number s =
     (let (negative, s1) = read_sign s;
          ds = takeWhile is_digit s1
      in if ds = [] \<or> (1 < length ds \<and> hd ds = CHR ''0'') then None
         else
           (case read_fraction (dropWhile is_digit s1) of
              None \<Rightarrow> None
            | Some (f, s2) \<Rightarrow>
                (case read_exponent s2 of
                   None \<Rightarrow> None
                 | Some (e, s3) \<Rightarrow>
                     Some ((if negative then - 1 else 1) * (of_nat (digits_value ds) + f) *
                             (if e < 0 then 1 / 10 ^ nat (- e) else 10 ^ nat e), s3))))"

definition starts_with :: "string \<Rightarrow> string \<Rightarrow> bool" where
  "starts_with w s = (take (length w) s = w)"

text \<open>The members of an object as a JavaScript object holds them: a name read again keeps
  its place and takes the later value.\<close>

definition as_object :: "(string \<times> json) list \<Rightarrow> json" where
  "as_object members = JObj (foldl (\<lambda>ob (k, v). AList.update k v ob) [] members)"

text \<open>A value and what follows it; the elements of an array after \<open>[\<close> and the members of
  an object after \<open>{\<close>, neither empty. The first argument bounds the depth of the
  recursion.\<close>

fun read_value :: "nat \<Rightarrow> string \<Rightarrow> (json \<times> string) option"
  and read_elements :: "nat \<Rightarrow> string \<Rightarrow> (json list \<times> string) option"
  and read_members :: "nat \<Rightarrow> string \<Rightarrow> ((string \<times> json) list \<times> string) option" where
  "read_value 0 s = None"
| "read_value (Suc k) s =
     (case dropWhile json_ws s of
        [] \<Rightarrow> None
      | c # r \<Rightarrow>
          if c = CHR ''{'' then
            (case dropWhile json_ws r of
               [] \<Rightarrow> None
             | c' # r' \<Rightarrow>
                 if c' = CHR ''}'' then Some (JObj [], r')
                 else map_option (\<lambda>(members, rest). (as_object members, rest)) (read_members k r))
          else if c = CHR ''['' then
            (case dropWhile json_ws r of
               [] \<Rightarrow> None
             | c' # r' \<Rightarrow>
                 if c' = CHR '']'' then Some (JArr [], r')
                 else map_option (\<lambda>(elements, rest). (JArr elements, rest)) (read_elements k r))
          else if c = dquote then map_option (\<lambda>(str, rest). (JStr str, rest)) (read_string r)
          else if starts_with ''true'' (c # r) then Some (JBool True, drop 4 (c # r))
          else if starts_with ''false'' (c # r) then Some (JBool False, drop 5 (c # r))
          else if starts_with ''null'' (c # r) then Some (JNull, drop 4 (c # r))
          else map_option (\<lambda>(x, rest). (JNum x, rest)) (read_number (c # r)))"
| "read_elements 0 s = None"
| "read_elements (Suc k) s =
     (case read_value k s of
        None \<Rightarrow> None
      | Some (v, r) \<Rightarrow>
          (case dropWhile json_ws r of
             [] \<Rightarrow> None
           | c # r' \<Rightarrow>
               if c = CHR '','' then cons_to v (read_elements k r')
               else if c = CHR '']'' then Some ([v], r')
               else None))"
| "read_members 0 s = None"
| "read_members (Suc k) s =
     (case dropWhile json_ws s of
        [] \<Rightarrow> None
      | q # r \<Rightarrow>
          if q = dquote then
            (case read_string r of
               None \<Rightarrow> None
             | Some (name, r1) \<Rightarrow>
                 (case dropWhile json_ws r1 of
                    [] \<Rightarrow> None
                  | colon # r2 \<Rightarrow>
                      if colon = CHR '':'' then
                        (case read_value k r2 of
                           None \<Rightarrow> None
                         | Some (v, r3) \<Rightarrow>
                             (case dropWhile json_ws r3 of
                                [] \<Rightarrow> None
                              | c # r4 \<Rightarrow>
                                  if c = CHR '','' then cons_to (name, v) (read_members k r4)
                                  else if c = CHR ''}'' then Some ([(name, v)], r4)
                                  else None))
                      else None))
          else None)"

definition read_json :: "string \<Rightarrow> string + json" where
  "read_json s =
     (case read_value (Suc (length s)) s of
        None \<Rightarrow> Inl ''Unexpected token in JSON''
      | Some (v, rest) \<Rightarrow>
          if dropWhile json_ws rest = [] then Inr v else Inl ''Unexpected token in JSON'')"

definition valid_text :: string where
  "valid_text = ''{'' @ [dquote] @ ''a'' @ [dquote] @ '':1}''"

lemma valid_text_parses: "read_json valid_text = Inr (JObj [(''a'', JNum 1)])"
  by code_simp

lemma unquoted_name_repaired:
  "read_json ''{a:1}'' = Inl ''Unexpected token in JSON'' \<and>
   sanitizeJsonString read_json (JStr ''{a:1}'') = Inr (JStr valid_text)"
  by code_simp

lemma surrounded_text_extracted:
  "sanitizeJsonString read_json (JStr (''Result: '' @ valid_text @ '' end'')) = Inr (JStr valid_text)"
  by code_simp

lemma unrepairable_text_throws:
  "sanitizeJsonString read_json (JStr ''Result: {a:1} end'') =
     Inl ''Unable to sanitize malformed JSON: Unexpected token in JSON'' \<and>
   sanitizeJsonString read_json (JStr ''no braces'') =
     Inl ''Unable to extract valid JSON structure: Unexpected token in JSON''"
  by code_simp

text \<open>
  Claim C10: \<open>sanitizeJsonString\<close> returns a string that \<open>JSON.parse\<close> accepts unchanged, and
  every string it returns is one that \<open>JSON.parse\<close> accepts.
\<close>

theorem sanitizeJsonString_identity_and_parses:
  "(parse s = Inr v \<longrightarrow> sanitizeJsonString parse (JStr s) = Inr (JStr s)) \<and>
   (sanitizeJsonString parse jsonString = Inr (JStr returned) \<longrightarrow> (\<exists>parsed. parse returned = Inr parsed))"
  by (auto simp: sanitizeJsonString_def Let_def split: json.splits sum.splits option.splits)

theorem sanitizeJsonString_identity_and_parses_witness:
  "read_json valid_text = Inr (JObj [(''a'', JNum 1)]) \<and>
   sanitizeJsonString read_json (JStr valid_text) = Inr (JStr valid_text) \<and>
   sanitizeJsonString read_json (JStr ''{a:1}'') = Inr (JStr valid_text) \<and>
   (\<exists>parsed. read_json valid_text = Inr parsed)"
  using sanitizeJsonString_identity_and_parses
    [of read_json valid_text "JObj [(''a'', JNum 1)]" "JStr ''{a:1}''" valid_text]
    valid_text_parses unquoted_name_repaired
  by blast

section \<open>The Job row and its status\<close>

datatype status =
    PENDING
  | UPLOADING_DECK
  | EXTRACTING_TEXT
  | ANALYZING_AI
  | SAVING_ANALYSIS
  | GENERATING_PDF
  | UPLOADING_PDF
  | COMPLETED
  | FAILED
  | FILE_UNAVAILABLE

text \<open>One row of \<open>analysis_results\<close>; a column that is \<open>NULL\<close> is \<open>None\<close>.\<close>

record job =
  s3_key :: string
  user_id :: nat
  original_filename :: string
  analysis_data :: obj
  overall_score :: int
  recommendation :: "json option"
  confidence_score :: "json option"
  processing_status :: status
  failure_reason :: "string option"
  pdf_s3_key :: "string option"
  email_status :: "string option"
  email_failure_reason :: "string option"

text \<open>
  An \<open>UPDATE ... WHERE id = $n\<close> on the row of this Job: it changes the row when the
  statement succeeds and the row exists, and nothing otherwise. A statement that fails
  does so by \<open>pool.connect()\<close> or \<open>client.query()\<close> rejecting with a value: its outcome is
  \<open>None\<close> for success and \<open>Some\<close> the value otherwise.
\<close>

definition db_update :: "bool \<Rightarrow> (job \<Rightarrow> job) \<Rightarrow> job option \<Rightarrow> job option" where
  "db_update query_ok set_clause row = (if query_ok then map_option set_clause row else row)"

section \<open>The notification dispatcher: \<open>sendCompletionEmail\<close>\<close>

text \<open>\<open>(status === 'FAILED' && failureReason) ? failureReason.substring(0, 255) : null\<close>\<close>

definition email_reasonToStore :: "string \<Rightarrow> string option \<Rightarrow> string option" where
  "email_reasonToStore st failureReason =
     (case failureReason of
        Some r \<Rightarrow> if st = ''FAILED'' \<and> r \<noteq> [] then Some (take 255 r) else None
      | None \<Rightarrow> None)"

text \<open>
  \<open>updateEmailStatus\<close>: what the \<open>async\<close> function settles with (\<open>Inl\<close> a rejection, \<open>Inr\<close> the
  boolean returned) and the row afterwards. When the statement fails, the \<open>catch\<close> block
  logs \<open>error.message\<close> and returns \<open>false\<close>; reading the message of \<open>null\<close> or \<open>undefined\<close>
  throws, and the function rejects.
\<close>

definition updateEmailStatus ::
  "thrown option \<Rightarrow> string \<Rightarrow> string option \<Rightarrow> job option \<Rightarrow> (string + bool) \<times> job option" where
  "updateEmailStatus query st failureReason row =
     (case query of
        None \<Rightarrow>
          (Inr True,
           db_update True
             (\<lambda>j. j\<lparr>email_status := Some st,
                    email_failure_reason := email_reasonToStore st failureReason\<rparr>) row)
      | Some error \<Rightarrow>
          (case message_of error of
             Inl typeError \<Rightarrow> (Inl typeError, row)
           | Inr message \<Rightarrow> (Inr False, row)))"

text \<open>
  What the call meets: the two variables of \<open>process.env\<close>; the outcome of \<open>getSignedUrl\<close>
  (\<open>Inl\<close> the value thrown); the outcome of the statements of the last \<open>try\<close> block up to
  its log line, which create the transporter, send the mail and read \<open>info.messageId\<close>
  (\<open>Inl\<close> the value thrown, \<open>Inr\<close> the message id); and the outcome of the \<open>UPDATE\<close> that
  writes a given email status.
\<close>

record mail_env =
  GMAIL_USER :: "string option"
  GMAIL_APP_PASSWORD :: "string option"
  getSignedUrl :: "thrown + string"
  sendMail :: "thrown + string"
  email_query :: "string \<Rightarrow> thrown option"

text \<open>A string that is \<open>undefined\<close>, \<open>null\<close> or empty is falsy.\<close>

definition present :: "string option \<Rightarrow> bool" where
  "present v = (case v of None \<Rightarrow> False | Some s \<Rightarrow> s \<noteq> [])"

text \<open>\<open>await updateEmailStatus(analysisId, 'FAILED', reason); return false;\<close>\<close>

definition fail_email :: "mail_env \<Rightarrow> string \<Rightarrow> job option \<Rightarrow> (string + bool) \<times> job option" where
  "fail_email env reason row =
     (case updateEmailStatus (email_query env ''FAILED'') ''FAILED'' (Some reason) row of
        (Inl typeError, row') \<Rightarrow> (Inl typeError, row')
      | (Inr updated, row') \<Rightarrow> (Inr False, row'))"

text \<open>The \<open>catch\<close> block of the last \<open>try\<close>: it reads \<open>error.message\<close> first.\<close>

definition smtp_failed :: "mail_env \<Rightarrow> thrown \<Rightarrow> job option \<Rightarrow> (string + bool) \<times> job option" where
  "smtp_failed env error row =
     (case message_of error of
        Inl typeError \<Rightarrow> (Inl typeError, row)
      | Inr message \<Rightarrow>
          fail_email env (''Gmail SMTP Error: '' @ message_or message ''Unknown Gmail SMTP error'') row)"

text \<open>
  \<open>sendCompletionEmail\<close>: what the \<open>async\<close> function settles with (\<open>Inl\<close> a rejection,
  \<open>Inr\<close> the boolean returned) and the row afterwards. The updates to \<open>FAILED\<close> and to
  \<open>SENDING\<close> are awaited outside any \<open>try\<close> block; the update to \<open>SENT\<close> is inside the last
  one, whose \<open>catch\<close> block receives its rejection.
\<close>

definition sendCompletionEmail ::
  "mail_env \<Rightarrow> string option \<Rightarrow> string option \<Rightarrow> job option \<Rightarrow> (string + bool) \<times> job option" where
  "sendCompletionEmail env recipientEmail pdfS3Key row =
     (if \<not> present (GMAIL_USER env) \<or> \<not> present (GMAIL_APP_PASSWORD env) then
        fail_email env ''Gmail API configuration missing in server'' row
      else if \<not> present recipientEmail then
        fail_email env ''Recipient email address missing'' row
      else if \<not> present pdfS3Key then
        fail_email env ''PDF S3 Key missing'' row
      else
        (case getSignedUrl env of
           Inl urlError \<Rightarrow>
             (case message_of urlError of
                Inl typeError \<Rightarrow> (Inl typeError, row)
              | Inr message \<Rightarrow>
                  fail_email env
                    (''Failed to generate report download link: '' @ message_text message) row)
         | Inr downloadUrl \<Rightarrow>
             (case updateEmailStatus (email_query env ''SENDING'') ''SENDING'' None row of
                (Inl typeError, row1) \<Rightarrow> (Inl typeError, row1)
              | (Inr updated, row1) \<Rightarrow>
                  (case sendMail env of
                     Inl error \<Rightarrow> smtp_failed env error row1
                   | Inr messageId \<Rightarrow>
                       (case updateEmailStatus (email_query env ''SENT'') ''SENT'' None row1 of
                          (Inl typeError, row2) \<Rightarrow> smtp_failed env (Error typeError) row2
                        | (Inr updated', row2) \<Rightarrow> (Inr True, row2))))))"




text \<open>Two rows agree on every column but the two email columns.\<close>

definition same_but_email :: "job \<Rightarrow> job \<Rightarrow> bool" where
  "same_but_email j j' =
     (j' = j\<lparr>email_status := email_status j', email_failure_reason := email_failure_reason j'\<rparr>)"


definition no_query_fails :: "string \<Rightarrow> thrown option" where
  "no_query_fails st = None"




definition mail_delivered :: mail_env where
  "mail_delivered =
     \<lparr>GMAIL_USER = Some ''analyzer@gmail.com'', GMAIL_APP_PASSWORD = Some ''app password'',
      getSignedUrl = Inr ''https://bucket.s3.amazonaws.com/reports/x.pdf?X-Amz-Signature=0'',
      sendMail = Inr ''<message-id>'', email_query = no_query_fails\<rparr>"

definition transport_rejects_null :: mail_env where
  "transport_rejects_null = mail_delivered\<lparr>sendMail := Inl ThrownNull\<rparr>"

subsection \<open>What the dispatcher leaves alone\<close>

text \<open>The row after a call agrees with the row before it on every column but the two
  email columns; a row that does not exist stays so.\<close>

definition email_only :: "job option \<Rightarrow> job option \<Rightarrow> bool" where
  "email_only row row' =
     (case row of
        None \<Rightarrow> row' = None
      | Some j \<Rightarrow> (case row' of None \<Rightarrow> False | Some j' \<Rightarrow> same_but_email j j'))"

lemma same_but_email_trans: "same_but_email a b \<Longrightarrow> same_but_email b c \<Longrightarrow> same_but_email a c"
  unfolding same_but_email_def
  by (metis job.surjective job.update_convs(11) job.update_convs(12) job.ext_inject)

lemma same_but_email_refl: "same_but_email a a"
  by (simp add: same_but_email_def)

lemma email_only_refl: "email_only row row"
  by (simp add: email_only_def same_but_email_refl split: option.splits)

lemma email_only_trans: "email_only a b \<Longrightarrow> email_only b c \<Longrightarrow> email_only a c"
  by (auto simp: email_only_def split: option.splits intro: same_but_email_trans)

lemma updateEmailStatus_frame: "email_only row (snd (updateEmailStatus q st r row))"
  by (auto simp: updateEmailStatus_def db_update_def email_only_def same_but_email_def
      split: option.splits sum.splits)

lemma fail_email_frame: "email_only row (snd (fail_email env reason row))"
proof -
  have "snd (fail_email env reason row) =
        snd (updateEmailStatus (email_query env ''FAILED'') ''FAILED'' (Some reason) row)"
    by (simp add: fail_email_def split: prod.splits sum.splits)
  then show ?thesis by (simp add: updateEmailStatus_frame)
qed

lemma smtp_failed_frame: "email_only row (snd (smtp_failed env error row))"
  by (simp add: smtp_failed_def fail_email_frame email_only_refl split: sum.splits)

lemma sendCompletionEmail_frame:
  "email_only row (snd (sendCompletionEmail env recipientEmail pdfS3Key row))"
proof -
  let ?sending = "updateEmailStatus (email_query env ''SENDING'') ''SENDING'' None row"
  let ?sent = "updateEmailStatus (email_query env ''SENT'') ''SENT'' None (snd ?sending)"
  have 1: "email_only row (snd ?sending)" by (rule updateEmailStatus_frame)
  have 2: "email_only row (snd ?sent)"
    by (rule email_only_trans [OF 1 updateEmailStatus_frame])
  have 3: "email_only row (snd (smtp_failed env e (snd ?sending)))" for e
    by (rule email_only_trans [OF 1 smtp_failed_frame])
  have 4: "email_only row (snd (smtp_failed env e (snd ?sent)))" for e
    by (rule email_only_trans [OF 2 smtp_failed_frame])
  show ?thesis
    unfolding sendCompletionEmail_def
    using 1 2 3 4
    by (auto simp: fail_email_frame email_only_refl split: sum.splits prod.splits)
qed

lemma same_but_email_columns:
  assumes "same_but_email j j'"
  shows "processing_status j' = processing_status j \<and> pdf_s3_key j' = pdf_s3_key j \<and>
      failure_reason j' = failure_reason j"
proof -
  from assms
  have "j' = j\<lparr>email_status := email_status j', email_failure_reason := email_failure_reason j'\<rparr>"
    by (simp add: same_but_email_def)
  then show ?thesis
    by (metis job.select_convs(8) job.select_convs(9) job.select_convs(10) job.surjective
        job.update_convs(11) job.update_convs(12))
qed

subsection \<open>What the dispatcher returns and records\<close>











section \<open>The report renderer\<close>

text \<open>The local calendar date \<open>new Date()\<close> stands for when \<open>prepareReportData\<close> runs.\<close>

record js_date =
  year :: nat
  month :: nat
  day :: nat

definition pad_zero :: "nat \<Rightarrow> string \<Rightarrow> string" where
  "pad_zero width s = replicate (width - length s) (CHR ''0'') @ s"

text \<open>\<open>format(today, 'ddMMyyyy')\<close> of date-fns.\<close>

definition ddMMyyyy :: "js_date \<Rightarrow> string" where
  "ddMMyyyy d = pad_zero 2 (show_nat (day d)) @ pad_zero 2 (show_nat (month d)) @
                pad_zero 4 (show_nat (year d))"

text \<open>
  \<open>path.basename(name, path.extname(name))\<close> of the POSIX \<open>path\<close> module: the last path
  component, without the extension that starts at its last dot (a leading dot starts no
  extension, and \<open>..\<close> has none).
\<close>

definition path_basename :: "string \<Rightarrow> string" where
  "path_basename p =
     rev (takeWhile (\<lambda>c. c \<noteq> CHR ''/'') (dropWhile (\<lambda>c. c = CHR ''/'') (rev p)))"

definition path_stem :: "string \<Rightarrow> string" where
  "path_stem p =
     (let b = path_basename p;
          ext_rev = takeWhile (\<lambda>c. c \<noteq> CHR ''.'') (rev b);
          before_dot = length b - length ext_rev - 1
      in if CHR ''.'' \<in> set b \<and> 0 < before_dot \<and> b \<noteq> ''..'' then take before_dot b else b)"

definition is_alnum :: "char \<Rightarrow> bool" where
  "is_alnum c =
     (let n = (of_char c :: nat)
      in (48 \<le> n \<and> n \<le> 57) \<or> (65 \<le> n \<and> n \<le> 90) \<or> (97 \<le> n \<and> n \<le> 122))"

text \<open>\<open>.replace(/[^a-zA-Z0-9\-_ ]/g, '').replace(/ /g, '_').substring(0, 50)\<close>\<close>

definition clean_name :: "string \<Rightarrow> string" where
  "clean_name s =
     take 50
       (map (\<lambda>c. if c = CHR '' '' then CHR ''_'' else c)
          (filter (\<lambda>c. is_alnum c \<or> c = CHR ''-'' \<or> c = CHR ''_'' \<or> c = CHR '' '') s))"

record report_details =
  reportData :: obj
  filename :: string

definition prepareReportData :: "obj \<Rightarrow> string option \<Rightarrow> nat \<Rightarrow> js_date \<Rightarrow> report_details" where
  "prepareReportData analysisResult originalFileName analysisId today =
     (let by_id = ''Analysis_'' @ show_nat analysisId;
          startupName =
            (case originalFileName of
               None \<Rightarrow> by_id
             | Some name \<Rightarrow>
                 if name = [] then by_id
                 else if clean_name (path_stem name) = [] then by_id
                 else clean_name (path_stem name));
          dateStr = ddMMyyyy today
      in \<lparr>reportData = analysisResult,
          filename = ''Investment_Thesis_'' @ startupName @ ''_'' @ dateStr @ ''.pdf''\<rparr>)"

text \<open>\<open>s.split('_')\<close>, with the piece being read kept in reverse.\<close>

fun split_underscore :: "string \<Rightarrow> string \<Rightarrow> string list" where
  "split_underscore cur [] = [rev cur]"
| "split_underscore cur (c # cs) =
     (if c = CHR ''_'' then rev cur # split_underscore [] cs
      else split_underscore (c # cur) cs)"

text \<open>\<open>filename.split('_')[2] || 'Startup'\<close>\<close>

definition startup_reference :: "string \<Rightarrow> string" where
  "startup_reference fname =
     (case drop 2 (split_underscore [] fname) of
        [] \<Rightarrow> ''Startup''
      | piece # rest \<Rightarrow> if piece = [] then ''Startup'' else piece)"

text \<open>
  The text the document is made of, in the order it is written; fonts, gaps and indents
  are constants of the program and are left out, and so is the page footer, which the PDF
  library derives from the pages it has laid out.
\<close>

datatype pdf_op = H1 string | H2 string | SubHeading string | P string

text \<open>\<open>v || dflt\<close> and \<open>v ?? dflt\<close>, printed.\<close>

definition or_else :: "(json option \<Rightarrow> string) \<Rightarrow> json option \<Rightarrow> string \<Rightarrow> string" where
  "or_else toStr v dflt =
     (case v of None \<Rightarrow> dflt | Some x \<Rightarrow> if truthy x then toStr v else dflt)"

definition nullish_else :: "(json option \<Rightarrow> string) \<Rightarrow> json option \<Rightarrow> string \<Rightarrow> string" where
  "nullish_else toStr v dflt =
     (case v of None \<Rightarrow> dflt | Some JNull \<Rightarrow> dflt | Some x \<Rightarrow> toStr v)"

text \<open>\<open>addP(txt)\<close> writes \<open>txt || 'N/A'\<close>: on a text, and on \<open>v || dflt\<close>, where a truthy \<open>v\<close>
  is what is written.\<close>

definition addP :: "string \<Rightarrow> pdf_op" where
  "addP txt = P (if txt = [] then ''N/A'' else txt)"

definition addP_or :: "(json option \<Rightarrow> string) \<Rightarrow> json option \<Rightarrow> string \<Rightarrow> pdf_op" where
  "addP_or toStr v dflt =
     (case v of None \<Rightarrow> addP dflt | Some x \<Rightarrow> if truthy x then P (toStr v) else addP dflt)"

text \<open>\<open>addBullet(txt)\<close> writes \<open>`\<bullet>  ${txt || 'N/A'}`\<close>: on a text that is not empty, and
  on an element of an array.\<close>

definition bullet :: "string \<Rightarrow> pdf_op" where
  "bullet txt = addP ([CHR 0xE2, CHR 0x80, CHR 0xA2] @ ''  '' @ txt)"

definition addBullet :: "(json option \<Rightarrow> string) \<Rightarrow> json option \<Rightarrow> pdf_op" where
  "addBullet toStr txt = bullet (or_else toStr txt ''N/A'')"

text \<open>\<open>x.toFixed(0)\<close> for a number that is not negative.\<close>

definition toFixed0 :: "rat \<Rightarrow> string" where
  "toFixed0 x = show_nat (nat \<lfloor>x + 1/2\<rfloor>)"

definition category_section ::
  "(rat \<Rightarrow> rat) \<Rightarrow> (json option \<Rightarrow> string) \<Rightarrow> obj \<Rightarrow> string \<times> rat \<Rightarrow> pdf_op list" where
  "category_section rd toStr analysisData cw =
     (case cw of (category, w) \<Rightarrow>
        H2 (category @ '' ('' @ toFixed0 (rd (rd w * 100)) @ ''%)'') #
        (case map_of analysisData category of
           None \<Rightarrow> [addP ''Analysis data missing for this category.'']
         | Some catData \<Rightarrow>
             if truthy catData then
               [SubHeading ''Score:'',
                addP (nullish_else toStr (js_prop catData ''score'') ''N/A'' @ '' / 10''),
                SubHeading ''Feedback:'',
                addP_or toStr (js_prop catData ''qualitative_feedback'')
                  ''No specific feedback provided.'']
             else [addP ''Analysis data missing for this category.'']))"

definition bullet_list :: "(json option \<Rightarrow> string) \<Rightarrow> json option \<Rightarrow> pdf_op list" where
  "bullet_list toStr v =
     (case v of
        Some (JArr (x # xs)) \<Rightarrow> map (\<lambda>s. addBullet toStr (Some s)) (x # xs)
      | _ \<Rightarrow> [bullet ''None explicitly identified in the analysis.''])"

text \<open>
  The argument of \<open>new Date(...)\<close> for the analysis date: the recorded
  \<open>processing_date\<close>, or the current time \<open>Date.now()\<close> when that is falsy.
\<close>

definition analysis_date_source :: "obj \<Rightarrow> rat \<Rightarrow> json" where
  "analysis_date_source analysisData now =
     (case map_of analysisData ''processing_date'' of
        None \<Rightarrow> JNum now
      | Some v \<Rightarrow> if truthy v then v else JNum now)"

record rendering =
  analysisData_after :: obj
  reportFilename :: string
  content :: "pdf_op list"

text \<open>
  \<open>generateInvestmentThesisPDF\<close>, up to \<open>doc.end()\<close>: the promise is rejected with the error
  thrown while the document is set up (\<open>formatDate\<close>, the \<open>Date\<close> constructor followed by
  \<open>format\<close> of date-fns, throws on an invalid date), or the document is written.
  \<open>today\<close> and \<open>now\<close> are the two readings of the clock.
\<close>

definition generateInvestmentThesisPDF ::
  "(rat \<Rightarrow> rat) \<Rightarrow> (json option \<Rightarrow> string) \<Rightarrow> (json \<Rightarrow> string + string) \<Rightarrow>
   obj \<Rightarrow> nat \<Rightarrow> string option \<Rightarrow> js_date \<Rightarrow> rat \<Rightarrow> string + rendering" where
  "generateInvestmentThesisPDF rd toStr formatDate analysisData analysisId originalFileName today now =
     (let reportDetails = prepareReportData analysisData originalFileName analysisId today;
          pdfFilename = filename reportDetails;
          startupName = startup_reference (filename reportDetails)
      in case formatDate (analysis_date_source analysisData now) of
           Inl error \<Rightarrow> Inl error
         | Inr analysisDateStr \<Rightarrow>
             (let overallScore = calculateOverallScore rd analysisData
              in Inr \<lparr>analysisData_after = reportData reportDetails,
                      reportFilename = pdfFilename,
                      content =
                        [H1 ''Investment Thesis Summary'',
                         addP (''Startup Reference: '' @ startupName),
                         addP (''Analysis Date: '' @ analysisDateStr),
                         SubHeading ''Overall Recommendation:'',
                         addP_or toStr (map_of analysisData ''recommendation'') ''Not Available'',
                         SubHeading ''Calculated Overall Score:'',
                         addP (show_nat (nat overallScore) @ '' / 100''),
                         SubHeading ''AI Confidence Score:'',
                         addP (nullish_else toStr (map_of analysisData ''confidence_score'') ''N/A''
                               @ '' / 100''),
                         addP ''Note: Confidence reflects AI certainty based on text completeness/coherence, not investment success.'',
                         H1 ''Category Analysis''] @
                        concat (map (category_section rd toStr analysisData) weights) @
                        [H1 ''Overall Strengths & Weaknesses'',
                         SubHeading ''Identified Strengths:''] @
                        bullet_list toStr (map_of analysisData ''overall_strengths'') @
                        [SubHeading ''Identified Weaknesses / Gaps:''] @
                        bullet_list toStr (map_of analysisData ''overall_weaknesses'') @
                        [H1 ''Recommendations for Investor Due Diligence'',
                         addP_or toStr (map_of analysisData ''recommendations_for_investor'')
                           ''No specific recommendations provided beyond the category feedback.'']\<rparr>))"

section \<open>The analysis columns of the Job\<close>

text \<open>The \<open>SET\<close> clause of \<open>updateAnalysisResultInDB\<close>; \<open>v || null\<close> stores \<open>NULL\<close> for a
  falsy value.\<close>

definition or_null :: "json option \<Rightarrow> json option" where
  "or_null v = (case v of None \<Rightarrow> None | Some x \<Rightarrow> if truthy x then Some x else None)"

definition updateAnalysisResultInDB :: "(rat \<Rightarrow> rat) \<Rightarrow> obj \<Rightarrow> job \<Rightarrow> job" where
  "updateAnalysisResultInDB rd analysisResult j =
     j\<lparr>analysis_data := analysisResult,
       overall_score := calculateOverallScore rd analysisResult,
       recommendation := or_null (map_of analysisResult ''recommendation''),
       confidence_score := or_null (map_of analysisResult ''confidence_score'')\<rparr>"

subsection \<open>The score does not read \<open>overall_score\<close>\<close>

lemma fold_score_step_cong:
  "(\<And>c. c \<in> fst ` set ws \<Longrightarrow> map_of a c = map_of b c) \<Longrightarrow>
     fold (score_step rd a) ws acc = fold (score_step rd b) ws acc"
proof (induction ws arbitrary: acc)
  case Nil
  then show ?case by simp
next
  case (Cons x xs)
  obtain c w where x: "x = (c, w)" by (cases x)
  obtain t u where acc: "acc = (t, u)" by (cases acc)
  have "map_of a c = map_of b c" using Cons.prems [of c] x by simp
  then have "score_step rd a x acc = score_step rd b x acc" by (simp add: x acc)
  moreover have "fold (score_step rd a) xs acc' = fold (score_step rd b) xs acc'" for acc'
    using Cons.IH [of acc'] Cons.prems by auto
  ultimately show ?case by simp
qed

lemma weights_keys: "map fst weights = requiredCategories"
  by (simp add: weights_def requiredCategories_def)

lemma calculateOverallScore_cong:
  assumes "\<And>c. c \<in> set requiredCategories \<Longrightarrow> map_of a c = map_of b c"
  shows "calculateOverallScore rd a = calculateOverallScore rd b"
proof -
  have "fst ` set weights = set requiredCategories"
    using weights_keys by (metis set_map)
  with assms have "fold (score_step rd a) weights (0, 0) = fold (score_step rd b) weights (0, 0)"
    by (intro fold_score_step_cong) auto
  then show ?thesis by (simp add: calculateOverallScore_def)
qed

lemma overall_score_not_required:
  "''overall_score'' \<notin> set requiredCategories" "''overall_score'' \<notin> set requiredTopLevelFields"
  by (simp_all add: requiredCategories_def requiredTopLevelFields_def)

lemma map_of_update_other:
  "k \<noteq> ''overall_score'' \<Longrightarrow> map_of (AList.update ''overall_score'' v a) k = map_of a k"
  by (simp add: update_conv')

lemma map_of_update_required:
  "c \<in> set requiredCategories \<Longrightarrow> map_of (AList.update ''overall_score'' v a) c = map_of a c"
  "f \<in> set requiredTopLevelFields \<Longrightarrow> map_of (AList.update ''overall_score'' v a) f = map_of a f"
  using overall_score_not_required map_of_update_other by metis+

lemma calculateOverallScore_update:
  "calculateOverallScore rd (AList.update ''overall_score'' v a) = calculateOverallScore rd a"
  by (rule calculateOverallScore_cong) (simp add: map_of_update_required)

lemma missingCategories_update:
  "missingCategories (AList.update ''overall_score'' v a) = missingCategories a"
  unfolding missingCategories_def
  by (rule filter_cong) (simp_all add: map_of_update_required)

lemma missingTopLevelFields_update:
  "missingTopLevelFields (AList.update ''overall_score'' v a) = missingTopLevelFields a"
  unfolding missingTopLevelFields_def
  by (rule filter_cong) (simp_all add: map_of_update_required)

lemma map_filter_cong:
  "(\<And>x. x \<in> set xs \<Longrightarrow> f x = g x) \<Longrightarrow> List.map_filter f xs = List.map_filter g xs"
  by (induction xs) (auto simp: List.map_filter_simps split: option.splits)

lemma categoriesWithInvalidScores_update:
  "categoriesWithInvalidScores toStr (AList.update ''overall_score'' v a) =
     categoriesWithInvalidScores toStr a"
  unfolding categoriesWithInvalidScores_def
  by (rule map_filter_cong) (simp add: map_of_update_required)

lemma validate_and_score_update:
  "validate_and_score rd toStr (AList.update ''overall_score'' v a) = validate_and_score rd toStr a"
  by (simp add: validate_and_score_def validationErrors_def calculateOverallScore_update
      missingCategories_update missingTopLevelFields_update categoriesWithInvalidScores_update)

lemma validate_and_score_result:
  "validate_and_score rd toStr a = Inr (a', ws) \<Longrightarrow>
     a' = AList.update ''overall_score'' (JNum (of_int (calculateOverallScore rd a))) a"
  by (auto simp: validate_and_score_def split: if_splits)

lemma content_score_line:
  "generateInvestmentThesisPDF rd toStr formatDate a i n today now = Inr r \<Longrightarrow>
     content r ! 6 = addP (show_nat (nat (calculateOverallScore rd a)) @ '' / 100'')"
  by (auto simp: generateInvestmentThesisPDF_def Let_def split: sum.splits)

lemma complete_step1:
  "score_step binary64 complete_response (''Problem Statement'', 1 / 10)
     (0, 0) =
     (6305039478318695 / 9007199254740992, 3602879701896397 / 36028797018963968)"
  by code_simp

lemma complete_step2:
  "score_step binary64 complete_response (''Solution/Product'', 3 / 20)
     (6305039478318695 / 9007199254740992, 3602879701896397 / 36028797018963968) =
     (4278419646001971 / 2251799813685248, 1 / 4)"
  by code_simp

lemma complete_step3:
  "score_step binary64 complete_response (''Market Opportunity'', 1 / 5)
     (4278419646001971 / 2251799813685248, 1 / 4) =
     (6980579422424269 / 2251799813685248, 8106479329266893 / 18014398509481984)"
  by code_simp

lemma complete_step4:
  "score_step binary64 complete_response (''Business Model'', 3 / 20)
     (6980579422424269 / 2251799813685248, 8106479329266893 / 18014398509481984) =
     (4, 5404319552844595 / 9007199254740992)"
  by code_simp

lemma complete_step5:
  "score_step binary64 complete_response (''Competitive Landscape'', 1 / 10)
     (4, 5404319552844595 / 9007199254740992) =
     (2476979795053773 / 562949953421312, 3152519739159347 / 4503599627370496)"
  by code_simp

lemma complete_step6:
  "score_step binary64 complete_response (''Team'', 1 / 10)
     (2476979795053773 / 562949953421312, 3152519739159347 / 4503599627370496) =
     (1491817376566477 / 281474976710656, 7205759403792793 / 9007199254740992)"
  by code_simp

lemma complete_step7:
  "score_step binary64 complete_response (''Traction/Milestones'', 1 / 10)
     (1491817376566477 / 281474976710656, 7205759403792793 / 9007199254740992) =
     (6305039478318695 / 1125899906842624, 2026619832316723 / 2251799813685248)"
  by code_simp

lemma complete_step8:
  "score_step binary64 complete_response (''Financial Projections'', 1 / 20)
     (6305039478318695 / 1125899906842624, 2026619832316723 / 2251799813685248) =
     (6417629469002957 / 1125899906842624, 4278419646001971 / 4503599627370496)"
  by code_simp

lemma complete_step9:
  "score_step binary64 complete_response (''Clarity and Presentation'', 1 / 20)
     (6417629469002957 / 1125899906842624, 4278419646001971 / 4503599627370496) =
     (6980579422424269 / 1125899906842624, 1)"
  by code_simp

lemma complete_fold:
  "fold (score_step binary64 complete_response) weights (0, 0) = (6980579422424269 / 1125899906842624, 1)"
  by (simp add: weights_def complete_step1 complete_step2 complete_step3 complete_step4
      complete_step5 complete_step6 complete_step7 complete_step8 complete_step9
      del: score_step.simps)

lemma complete_round:
  "Math_round (binary64 (binary64 (6980579422424269 / 1125899906842624 / 1) * 10)) = 62"
  by code_simp

lemma complete_score: "calculateOverallScore binary64 complete_response = 62"
  unfolding calculateOverallScore_def complete_fold using complete_round by (simp add: Let_def)

lemma complete_response_valid:
  "categoriesWithInvalidScores toStr complete_response = []"
  "missingTopLevelFields complete_response = []"
  "missingCategories complete_response = []"
  by (simp_all add: categoriesWithInvalidScores_def missingTopLevelFields_def
      missingCategories_def requiredCategories_def requiredTopLevelFields_def
      complete_response_def score_invalid_def field_missing_def category_missing_def
      List.map_filter_simps)

lemma complete_response_validated:
  "validate_and_score binary64 toStr complete_response =
     Inr (AList.update ''overall_score'' (JNum 62) complete_response, [])"
  by (simp add: validate_and_score_def complete_response_valid complete_score)

subsection \<open>The analysis the pipeline returns\<close>

text \<open>The sanitizing step of the two copies of \<open>analyzeWithGemini\<close>: none in \<open>server.js\<close>, and
  \<open>sanitizeJsonString\<close> on the response text in \<open>ai/analyzeWithGemini.js\<close>.\<close>

definition no_sanitizer :: "string \<Rightarrow> string + string" where
  "no_sanitizer responseText = Inr responseText"

definition with_sanitizer :: "(string \<Rightarrow> string + json) \<Rightarrow> string \<Rightarrow> string + string" where
  "with_sanitizer parse responseText =
     (case sanitizeJsonString parse (JStr responseText) of
        Inl message \<Rightarrow> Inl message
      | Inr (JStr sanitizedResponse) \<Rightarrow> Inr sanitizedResponse
      | Inr other \<Rightarrow> Inr responseText)"

lemma validate_and_score_Nil: "\<exists>message. validate_and_score rd toStr [] = Inl message"
  by (simp add: validate_and_score_def missingTopLevelFields_def requiredTopLevelFields_def
      field_missing_def)

text \<open>When \<open>analyzeWithGemini\<close> returns, the call returned a text, the text was sanitized
  and parsed to an object, and the object passed validation.\<close>

lemma analyzeWithGemini_returns:
  assumes "analyzeWithGemini rd toStr sanitize parse api extractedSlides = Inr (analysisResult, ws)"
  shows "\<exists>responseText sanitizedResponse parsed ws'.
           outcome (callGeminiWithRetry api) = Inr responseText \<and>
           sanitize responseText = Inr sanitizedResponse \<and>
           parse sanitizedResponse = Inr (JObj parsed) \<and>
           validate_and_score rd toStr parsed = Inr (analysisResult, ws')"
proof -
  from assms obtain responseText ws' where
    t: "outcome (callGeminiWithRetry api) = Inr responseText"
    and p: "parse_and_validate rd toStr sanitize parse responseText = Inr (analysisResult, ws')"
    by (auto simp: analyzeWithGemini_def Let_def
        split: json.splits list.splits sum.splits if_splits)
  from p obtain sanitizedResponse where s: "sanitize responseText = Inr sanitizedResponse"
    by (cases "sanitize responseText") (auto simp: parse_and_validate_def)
  from p s obtain v where v: "parse sanitizedResponse = Inr v"
    by (cases "parse sanitizedResponse") (auto simp: parse_and_validate_def)
  from validate_and_score_Nil [of rd toStr] obtain message where
    n: "validate_and_score rd toStr [] = Inl message" by blast
  from p s v n obtain parsed where o: "v = JObj parsed"
    by (cases v) (auto simp: parse_and_validate_def)
  from p s v o have "validate_and_score rd toStr parsed = Inr (analysisResult, ws')"
    by (cases "validate_and_score rd toStr parsed") (auto simp: parse_and_validate_def)
  with t s v o show ?thesis by blast
qed

text \<open>The result depends on the response through the parsed object only, and not on the
  \<open>overall_score\<close> the object carries.\<close>

lemma analyzeWithGemini_same:
  assumes "outcome (callGeminiWithRetry api) = Inr t" "sanitize t = Inr u" "parse u = Inr (JObj a)"
    and "outcome (callGeminiWithRetry api') = Inr t'" "sanitize t' = Inr u'"
      "parse u' = Inr (JObj (AList.update ''overall_score'' supplied a))"
  shows "analyzeWithGemini rd toStr sanitize parse api' extractedSlides =
         analyzeWithGemini rd toStr sanitize parse api extractedSlides"
proof -
  have "parse_and_validate rd toStr sanitize parse t' = parse_and_validate rd toStr sanitize parse t"
    using assms by (simp add: parse_and_validate_def validate_and_score_update)
  with assms(1,4) show ?thesis
    by (simp add: analyzeWithGemini_def Let_def split: json.splits list.splits)
qed

text \<open>The text of \<open>complete_response\<close>, as the model may return it.\<close>

definition quoted :: "string \<Rightarrow> string" where
  "quoted s = dquote # s @ [dquote]"

definition complete_response_text :: string where
  "complete_response_text =
     ''{'' @ quoted ''Problem Statement'' @ '':{'' @ quoted ''score'' @ '':7,'' @ quoted ''qualitative_feedback'' @ '':'' @ quoted ''Clear pain.'' @ ''}'' @
     '','' @ quoted ''Solution/Product'' @ '':{'' @ quoted ''score'' @ '':8,'' @ quoted ''qualitative_feedback'' @ '':'' @ quoted ''Feasible.'' @ ''}'' @
     '','' @ quoted ''Market Opportunity'' @ '':{'' @ quoted ''score'' @ '':6,'' @ quoted ''qualitative_feedback'' @ '':'' @ quoted ''TAM given.'' @ ''}'' @
     '','' @ quoted ''Business Model'' @ '':{'' @ quoted ''score'' @ '':6,'' @ quoted ''qualitative_feedback'' @ '':'' @ quoted ''Subscription.'' @ ''}'' @
     '','' @ quoted ''Competitive Landscape'' @ '':{'' @ quoted ''score'' @ '':4,'' @ quoted ''qualitative_feedback'' @ '':'' @ quoted ''Thin.'' @ ''}'' @
     '','' @ quoted ''Team'' @ '':{'' @ quoted ''score'' @ '':9,'' @ quoted ''qualitative_feedback'' @ '':'' @ quoted ''Experienced.'' @ ''}'' @
     '','' @ quoted ''Traction/Milestones'' @ '':{'' @ quoted ''score'' @ '':3,'' @ quoted ''qualitative_feedback'' @ '':'' @ quoted ''Early.'' @ ''}'' @
     '','' @ quoted ''Financial Projections'' @ '':{'' @ quoted ''score'' @ '':2,'' @ quoted ''qualitative_feedback'' @ '':'' @ quoted ''Sparse.'' @ ''}'' @
     '','' @ quoted ''Clarity and Presentation'' @ '':{'' @ quoted ''score'' @ '':10,'' @ quoted ''qualitative_feedback'' @ '':'' @ quoted ''Concise.'' @ ''}'' @
     '','' @ quoted ''overall_strengths'' @ '':['' @ quoted ''Team'' @ '','' @ quoted ''Product'' @ '','' @ quoted ''Clarity'' @ '']'' @
     '','' @ quoted ''overall_weaknesses'' @ '':['' @ quoted ''Traction'' @ '','' @ quoted ''Financials'' @ '','' @ quoted ''Competition'' @ '']'' @
     '','' @ quoted ''recommendation'' @ '':'' @ quoted ''Hold'' @
     '','' @ quoted ''confidence_score'' @ '':70'' @
     '','' @ quoted ''recommendations_for_investor'' @ '':'' @ quoted ''Probe the unit economics.'' @
     '','' @ quoted ''processing_date'' @ '':'' @ quoted ''2025-04-18 10:00:00 UTC'' @
     '','' @ quoted ''overall_score'' @ '':99}''"

lemma complete_response_text_parses:
  "read_json complete_response_text = Inr (JObj complete_response)"
  by code_simp

text \<open>The model answers the first call with that text.\<close>

definition llm_answers :: "nat \<Rightarrow> api_call" where
  "llm_answers k = TextReturns complete_response_text"

definition three_slides :: json where
  "three_slides =
     JArr [JObj [(''text'', JStr ''Problem''), (''notes'', JStr [])],
           JObj [(''text'', JStr ''Solution''), (''notes'', JStr [])],
           JObj [(''text'', JStr ''Team''), (''notes'', JStr [])]]"

lemma llm_answers_text:
  "outcome (callGeminiWithRetry llm_answers) = Inr complete_response_text"
  by (simp add: callGeminiWithRetry_cases llm_answers_def)

lemma complete_response_analyzed:
  "analyzeWithGemini binary64 toStr no_sanitizer read_json llm_answers three_slides =
     Inr (AList.update ''overall_score'' (JNum 62) complete_response, [])"
  by (simp add: analyzeWithGemini_def three_slides_def llm_answers_text parse_and_validate_def
      no_sanitizer_def complete_response_text_parses complete_response_validated)

lemma complete_response_sanitized:
  "with_sanitizer read_json complete_response_text = Inr complete_response_text"
  by (simp add: with_sanitizer_def sanitizeJsonString_def complete_response_text_parses)

subsection \<open>What the rendering reads of the clock\<close>












section \<open>The job orchestrator: status writes\<close>

text \<open>The row \<open>saveAnalysisToDB(s3KeyDeck, {}, userId, originalFileName)\<close> inserts.\<close>

definition saveAnalysisToDB :: "string \<Rightarrow> nat \<Rightarrow> string \<Rightarrow> job" where
  "saveAnalysisToDB s3Key userId originalFilename =
     \<lparr>s3_key = s3Key, user_id = userId, original_filename = originalFilename,
      analysis_data = [], overall_score = 0, recommendation = None, confidence_score = None,
      processing_status = PENDING, failure_reason = None, pdf_s3_key = None,
      email_status = None, email_failure_reason = None\<rparr>"

text \<open>The \<open>SET\<close> clause of \<open>updateAnalysisStatus\<close>; the reason is stored with \<open>FAILED\<close> only,
  cut to 500 characters.\<close>

definition updateAnalysisStatus :: "status \<Rightarrow> string option \<Rightarrow> job \<Rightarrow> job" where
  "updateAnalysisStatus st failureReason j =
     j\<lparr>processing_status := st,
       failure_reason :=
         (case failureReason of
            Some r \<Rightarrow> if st = FAILED \<and> r \<noteq> [] then Some (take 500 r) else None
          | None \<Rightarrow> None)\<rparr>"

text \<open>The \<open>SET\<close> clause of \<open>updatePdfKeyAndComplete\<close>: the key and the status in one statement.\<close>

definition updatePdfKeyAndComplete :: "string option \<Rightarrow> job \<Rightarrow> job" where
  "updatePdfKeyAndComplete pdfS3Key j =
     j\<lparr>pdf_s3_key := pdfS3Key, processing_status := COMPLETED\<rparr>"

text \<open>
  What the functions that wrap a statement throw when it fails with \<open>error\<close>:
  \<open>catch (error) { console.error(..., error.stack); throw new Error(text); }\<close> in
  \<open>saveAnalysisToDB\<close>, \<open>updateAnalysisResultInDB\<close> and \<open>updatePdfKeyAndComplete\<close>, and
  \<open>throw new Error(`S3 upload failed: ${s3Err.message}`)\<close> in \<open>uploadToS3\<close>. Reading the
  property of \<open>null\<close> or \<open>undefined\<close> throws the \<open>TypeError\<close> instead.
\<close>

definition thrown_again :: "string \<Rightarrow> thrown \<Rightarrow> thrown" where
  "thrown_again text error =
     (case stack_of error of Inl typeError \<Rightarrow> Error typeError | Inr logged \<Rightarrow> Error text)"

definition s3_upload_failed :: "thrown \<Rightarrow> thrown" where
  "s3_upload_failed s3Err =
     (case message_of s3Err of
        Inl typeError \<Rightarrow> Error typeError
      | Inr message \<Rightarrow> Error (''S3 upload failed: '' @ message_text message))"

section \<open>The download route\<close>

datatype download_response =
    NotFound404
  | NotAvailableYet404
  | AnalysisFailed400
  | SignedUrl200
  | FileAccessError404

text \<open>
  \<open>GET /report/:analysisId/download\<close>. \<open>selected\<close> is the row its \<open>SELECT\<close> returned,
  \<open>s3_ok\<close> tells whether the inner \<open>try\<close> block (the \<open>HEAD\<close> request, the signing and the
  response) went through; when it threw, the handler updates the status of the row as it is
  by then (\<open>row\<close>), and an error of that \<open>UPDATE\<close> (\<open>query_ok = False\<close>) is caught and logged.
\<close>

definition download :: "job option \<Rightarrow> bool \<Rightarrow> bool \<Rightarrow> job option \<Rightarrow> download_response \<times> job option" where
  "download selected s3_ok query_ok row =
     (case selected of
        None \<Rightarrow> (NotFound404, row)
      | Some r \<Rightarrow>
          if \<not> present (pdf_s3_key r) then (NotAvailableYet404, row)
          else if processing_status r = FAILED then (AnalysisFailed400, row)
          else if s3_ok then (SignedUrl200, row)
          else (FileAccessError404,
                db_update query_ok (\<lambda>j. j\<lparr>processing_status := FILE_UNAVAILABLE\<rparr>) row))"

section \<open>The job orchestrator: \<open>POST /api/analysis/upload\<close>\<close>

text \<open>
  The handler runs one awaited statement at a time; between two of them other requests
  on the same Job may run. Its position: a statement of the \<open>try\<close> block, the \<open>catch\<close>
  block with the value caught, or the end.
\<close>

datatype pc =
    DatabaseInitialization
  | Mark status
  | Run status
  | FinalizingDatabaseRecord
  | EmailNotification
  | Respond200
  | Catch thrown
  | Done

text \<open>
  What the environment answers to the statement at the current position: it succeeds; it
  fails with a value; the extraction returns slides; the calls to the model have their
  outcomes (given with \<open>JSON.parse\<close> and the conversion to text of the engine, which
  \<open>analyzeWithGemini\<close> uses); the report is written under a file name; the email call
  meets its environment.
\<close>

datatype reply =
    Succeeds
  | Fails thrown
  | Slides json
  | Llm "nat \<Rightarrow> api_call" "string \<Rightarrow> string + json" "json option \<Rightarrow> string"
  | Pdf string
  | Mail mail_env

datatype upload_response = Ok200 | Error500 string

record request =
  s3KeyDeck :: string
  userId :: nat
  userEmail :: string
  originalFileName :: string
  newId :: nat

text \<open>
  The row of the Job, the rows that download requests have selected so far (each such
  request may still continue), and the handler's position and variables.
\<close>

record system =
  row :: "job option"
  selected_rows :: "job option list"
  pc :: pc
  analysisId :: "nat option"
  extractedTextData :: json
  analysisResult :: "obj option"
  pdfS3Key :: "string option"
  currentStage :: string
  response :: "upload_response option"

definition initial :: system where
  "initial =
     \<lparr>row = None, selected_rows = [], pc = DatabaseInitialization, analysisId = None,
      extractedTextData = JNull, analysisResult = None, pdfS3Key = None,
      currentStage = ''Database Initialization'', response = None\<rparr>"

text \<open>The statement that follows the side effect of a stage, and the \<open>currentStage\<close> set
  before it.\<close>

fun after_stage :: "status \<Rightarrow> pc \<times> string" where
  "after_stage UPLOADING_DECK = (Mark EXTRACTING_TEXT, ''Text Extraction'')"
| "after_stage EXTRACTING_TEXT = (Mark ANALYZING_AI, ''AI Analysis'')"
| "after_stage ANALYZING_AI = (Mark SAVING_ANALYSIS, ''Saving Analysis Results'')"
| "after_stage SAVING_ANALYSIS = (Mark GENERATING_PDF, ''PDF Generation'')"
| "after_stage GENERATING_PDF = (Mark UPLOADING_PDF, ''PDF Upload to S3'')"
| "after_stage UPLOADING_PDF = (FinalizingDatabaseRecord, ''Finalizing Database Record'')"
| "after_stage st = (Done, [])"

definition advance :: "status \<Rightarrow> system \<Rightarrow> system" where
  "advance st s = s\<lparr>pc := fst (after_stage st), currentStage := snd (after_stage st)\<rparr>"

definition throw :: "thrown \<Rightarrow> system \<Rightarrow> system" where
  "throw error s = s\<lparr>pc := Catch error\<rparr>"

text \<open>
  The side effect of a stage: \<open>uploadToS3\<close>; \<open>runTextExtraction\<close>, which rejects with an
  \<open>Error\<close> of its own, and the check of its result; \<open>analyzeWithGemini\<close>, of \<open>server.js\<close>, on the
  slides extracted; \<open>updateAnalysisResultInDB\<close>; \<open>generateInvestmentThesisPDF\<close>, which
  rejects with the value it caught; \<open>uploadToS3\<close>.
\<close>

definition run_stage :: "status \<Rightarrow> reply \<Rightarrow> system \<Rightarrow> system" where
  "run_stage st reply s =
     (case st of
        UPLOADING_DECK \<Rightarrow>
          (case reply of
             Succeeds \<Rightarrow> advance st s
           | Fails s3Err \<Rightarrow> throw (s3_upload_failed s3Err) s
           | _ \<Rightarrow> s)
      | EXTRACTING_TEXT \<Rightarrow>
          (case reply of
             Slides (JArr (slide # slides)) \<Rightarrow>
               advance st (s\<lparr>extractedTextData := JArr (slide # slides)\<rparr>)
           | Slides extracted \<Rightarrow>
               throw (Error ''Text extraction yielded no slides or invalid data.'') s
           | Fails (Thrown (Some message)) \<Rightarrow> throw (Error message) s
           | _ \<Rightarrow> s)
      | ANALYZING_AI \<Rightarrow>
          (case reply of
             Llm api parse toStr \<Rightarrow>
               (case analyzeWithGemini binary64 toStr no_sanitizer parse api (extractedTextData s) of
                  Inl message \<Rightarrow> throw (Error message) s
                | Inr (a, warnings) \<Rightarrow> advance st (s\<lparr>analysisResult := Some a\<rparr>))
           | _ \<Rightarrow> s)
      | SAVING_ANALYSIS \<Rightarrow>
          (case reply of
             Succeeds \<Rightarrow>
               advance st
                 (s\<lparr>row := db_update True
                      (updateAnalysisResultInDB binary64
                         (case analysisResult s of Some a \<Rightarrow> a | None \<Rightarrow> [])) (row s)\<rparr>)
           | Fails error \<Rightarrow>
               throw (thrown_again ''Failed to update analysis details in database.'' error) s
           | _ \<Rightarrow> s)
      | GENERATING_PDF \<Rightarrow>
          (case reply of
             Pdf name \<Rightarrow> advance st (s\<lparr>pdfS3Key := Some (''reports/'' @ name)\<rparr>)
           | Fails error \<Rightarrow> throw error s
           | _ \<Rightarrow> s)
      | UPLOADING_PDF \<Rightarrow>
          (case reply of
             Succeeds \<Rightarrow> advance st s
           | Fails s3Err \<Rightarrow> throw (s3_upload_failed s3Err) s
           | _ \<Rightarrow> s)
      | _ \<Rightarrow> s)"

text \<open>
  The \<open>catch\<close> block. It reads \<open>error.message\<close> first: on \<open>null\<close> or \<open>undefined\<close> that throws
  and the handler ends there, with no write and no response. Otherwise, when
  \<open>analysisId\<close> is truthy, it awaits \<open>updateAnalysisStatus(analysisId, 'FAILED', error.message)\<close>, which
  writes \<open>FAILED\<close> whatever the status is, and then responds; \<open>updateAnalysisStatus\<close> logs the
  message of a failing statement and returns, and rejects when that message cannot be
  read.
\<close>

definition catch_block :: "thrown \<Rightarrow> reply \<Rightarrow> system \<Rightarrow> system" where
  "catch_block error reply s =
     (case message_of error of
        Inl typeError \<Rightarrow> s\<lparr>pc := Done\<rparr>
      | Inr message \<Rightarrow>
          if analysisId s = None \<or> analysisId s = Some 0
          then s\<lparr>response := Some (Error500 (currentStage s)), pc := Done\<rparr>
          else
            (case reply of
               Succeeds \<Rightarrow>
                 s\<lparr>row := db_update True (updateAnalysisStatus FAILED message) (row s),
                   response := Some (Error500 (currentStage s)), pc := Done\<rparr>
             | Fails dbError \<Rightarrow>
                 (case message_of dbError of
                    Inl typeError \<Rightarrow> s\<lparr>pc := Done\<rparr>
                  | Inr logged \<Rightarrow> s\<lparr>response := Some (Error500 (currentStage s)), pc := Done\<rparr>)
             | _ \<Rightarrow> s))"

text \<open>
  One statement of the handler. \<open>updateAnalysisStatus\<close> catches the error of its query
  and the handler goes on, unless the message of the error cannot be read.
  \<open>sendCompletionEmail\<close> and the response are inside the same \<open>try\<close> block: a rejection of
  the one and an error thrown by the other reach the \<open>catch\<close> block as well.
\<close>

definition upload_step :: "request \<Rightarrow> reply \<Rightarrow> system \<Rightarrow> system" where
  "upload_step req reply s =
     (case pc s of
        DatabaseInitialization \<Rightarrow>
          (case reply of
             Succeeds \<Rightarrow>
               s\<lparr>row := Some (saveAnalysisToDB (s3KeyDeck req) (userId req) (originalFileName req)),
                 analysisId := Some (newId req),
                 pc := Mark UPLOADING_DECK, currentStage := ''Deck Upload to S3''\<rparr>
           | Fails error \<Rightarrow> throw (thrown_again ''Failed to create analysis record in DB.'' error) s
           | _ \<Rightarrow> s)
      | Mark st \<Rightarrow>
          (case reply of
             Succeeds \<Rightarrow> s\<lparr>row := db_update True (updateAnalysisStatus st None) (row s), pc := Run st\<rparr>
           | Fails error \<Rightarrow>
               (case message_of error of
                  Inl typeError \<Rightarrow> throw (Error typeError) s
                | Inr logged \<Rightarrow> s\<lparr>pc := Run st\<rparr>)
           | _ \<Rightarrow> s)
      | Run st \<Rightarrow> run_stage st reply s
      | FinalizingDatabaseRecord \<Rightarrow>
          (case reply of
             Succeeds \<Rightarrow>
               s\<lparr>row := db_update True (updatePdfKeyAndComplete (pdfS3Key s)) (row s),
                 pc := EmailNotification, currentStage := ''Email Notification''\<rparr>
           | Fails error \<Rightarrow>
               throw (thrown_again ''Failed to finalize PDF location in database.'' error) s
           | _ \<Rightarrow> s)
      | EmailNotification \<Rightarrow>
          (case reply of
             Mail env \<Rightarrow>
               (case sendCompletionEmail env (Some (userEmail req)) (pdfS3Key s) (row s) of
                  (Inl typeError, row') \<Rightarrow> s\<lparr>row := row', pc := Catch (Error typeError)\<rparr>
                | (Inr sent, row') \<Rightarrow> s\<lparr>row := row', pc := Respond200\<rparr>)
           | _ \<Rightarrow> s)
      | Respond200 \<Rightarrow>
          (case reply of
             Succeeds \<Rightarrow> s\<lparr>response := Some Ok200, pc := Done\<rparr>
           | Fails error \<Rightarrow> throw error s
           | _ \<Rightarrow> s)
      | Catch error \<Rightarrow> catch_block error reply s
      | Done \<Rightarrow> s)"

text \<open>
  What can happen to the Job: the upload handler runs its next statement; a download
  request runs its \<open>SELECT\<close>; a download request that selected the \<open>k\<close>-th row of
  \<open>selected_rows\<close> goes on to the storage check and, if that fails, its \<open>UPDATE\<close>; the
  owner deletes the record.
\<close>

datatype event =
    Upload reply
  | Select
  | Download nat bool bool
  | DeleteRecord

definition step :: "request \<Rightarrow> event \<Rightarrow> system \<Rightarrow> system" where
  "step req e s =
     (case e of
        Upload reply \<Rightarrow> upload_step req reply s
      | Select \<Rightarrow> s\<lparr>selected_rows := selected_rows s @ [row s]\<rparr>
      | Download k s3_ok query_ok \<Rightarrow>
          if k < length (selected_rows s)
          then s\<lparr>row := snd (download (selected_rows s ! k) s3_ok query_ok (row s))\<rparr>
          else s
      | DeleteRecord \<Rightarrow> s\<lparr>row := None\<rparr>)"

definition run :: "request \<Rightarrow> event list \<Rightarrow> system" where
  "run req evs = fold (step req) evs initial"

text \<open>The fixed stage sequence, by position; the two other statuses stand outside it.\<close>

fun stage_rank :: "status \<Rightarrow> nat" where
  "stage_rank PENDING = 0"
| "stage_rank UPLOADING_DECK = 1"
| "stage_rank EXTRACTING_TEXT = 2"
| "stage_rank ANALYZING_AI = 3"
| "stage_rank SAVING_ANALYSIS = 4"
| "stage_rank GENERATING_PDF = 5"
| "stage_rank UPLOADING_PDF = 6"
| "stage_rank COMPLETED = 7"
| "stage_rank FAILED = 8"
| "stage_rank FILE_UNAVAILABLE = 9"

text \<open>A change of status the specification allows: forward in the sequence, to \<open>FAILED\<close>
  from a status before \<open>COMPLETED\<close>, and from \<open>COMPLETED\<close> to \<open>FILE_UNAVAILABLE\<close>.\<close>

definition legal_move :: "status \<Rightarrow> status \<Rightarrow> bool" where
  "legal_move a b =
     ((stage_rank a < stage_rank b \<and> stage_rank b \<le> 7) \<or>
      (stage_rank a \<le> 6 \<and> b = FAILED) \<or>
      (a = COMPLETED \<and> b = FILE_UNAVAILABLE))"

text \<open>The handler has reached its last stage: the completion is recorded. And: it failed
  there, by the email call rejecting or the response throwing.\<close>

definition completion_recorded :: "system \<Rightarrow> bool" where
  "completion_recorded s = (currentStage s = ''Email Notification'')"

definition failed_after_completion :: "system \<Rightarrow> bool" where
  "failed_after_completion s =
     (completion_recorded s \<and>
      (case pc s of Catch error \<Rightarrow> True | Done \<Rightarrow> response s \<noteq> Some Ok200 | _ \<Rightarrow> False))"


subsection \<open>The invariant of the Job\<close>

text \<open>A row before its report exists, a row whose report has been recorded, a row marked
  \<open>FAILED\<close> before that, and a row with a report whose status may be \<open>FAILED\<close> as well.\<close>

definition in_pipeline :: "nat \<Rightarrow> job \<Rightarrow> bool" where
  "in_pipeline bound j =
     (stage_rank (processing_status j) \<le> bound \<and> pdf_s3_key j = None)"

definition has_report :: "job \<Rightarrow> bool" where
  "has_report j =
     ((processing_status j = COMPLETED \<or> processing_status j = FILE_UNAVAILABLE) \<and>
      present (pdf_s3_key j))"

definition marked_failed :: "job \<Rightarrow> bool" where
  "marked_failed j = (processing_status j = FAILED \<and> pdf_s3_key j = None)"

definition report_or_failed :: "job \<Rightarrow> bool" where
  "report_or_failed j =
     ((processing_status j = COMPLETED \<or> processing_status j = FILE_UNAVAILABLE \<or>
       processing_status j = FAILED) \<and> present (pdf_s3_key j))"

text \<open>The same for a row that may be absent, and for a row some download request has
  selected.\<close>

definition row_in_pipeline :: "nat \<Rightarrow> job option \<Rightarrow> bool" where
  "row_in_pipeline bound r = (case r of None \<Rightarrow> True | Some j \<Rightarrow> in_pipeline bound j)"

definition row_has_report :: "job option \<Rightarrow> bool" where
  "row_has_report r = (case r of None \<Rightarrow> True | Some j \<Rightarrow> has_report j)"

definition row_failed :: "job option \<Rightarrow> bool" where
  "row_failed r = (case r of None \<Rightarrow> True | Some j \<Rightarrow> marked_failed j \<or> in_pipeline 6 j)"

definition row_late :: "job option \<Rightarrow> bool" where
  "row_late r = (case r of None \<Rightarrow> True | Some j \<Rightarrow> report_or_failed j)"

definition selected_without_key :: "job option \<Rightarrow> bool" where
  "selected_without_key r = (case r of None \<Rightarrow> True | Some j \<Rightarrow> pdf_s3_key j = None)"

definition selected_ok :: "job option \<Rightarrow> bool" where
  "selected_ok r = (case r of None \<Rightarrow> True | Some j \<Rightarrow> pdf_s3_key j = None \<or> has_report j)"

definition selected_late :: "job option \<Rightarrow> bool" where
  "selected_late r = (case r of None \<Rightarrow> True | Some j \<Rightarrow> pdf_s3_key j = None \<or> report_or_failed j)"

definition before_completion :: "nat \<Rightarrow> system \<Rightarrow> bool" where
  "before_completion bound s =
     (row_in_pipeline bound (row s) \<and> list_all selected_without_key (selected_rows s))"

definition after_completion :: "system \<Rightarrow> bool" where
  "after_completion s = (row_has_report (row s) \<and> list_all selected_ok (selected_rows s))"

definition after_failure :: "system \<Rightarrow> bool" where
  "after_failure s = (row_failed (row s) \<and> list_all selected_without_key (selected_rows s))"

definition after_late :: "system \<Rightarrow> bool" where
  "after_late s = (row_late (row s) \<and> list_all selected_late (selected_rows s))"

definition is_stage :: "status \<Rightarrow> bool" where
  "is_stage st = (1 \<le> stage_rank st \<and> stage_rank st \<le> 6)"

definition job_inv :: "system \<Rightarrow> bool" where
  "job_inv s =
     (case pc s of
        DatabaseInitialization \<Rightarrow>
          \<not> completion_recorded s \<and> before_completion 0 s \<and> row s = None
      | Mark st \<Rightarrow>
          \<not> completion_recorded s \<and> is_stage st \<and> before_completion (stage_rank st - 1) s \<and>
          (st = UPLOADING_PDF \<longrightarrow> present (pdfS3Key s))
      | Run st \<Rightarrow>
          \<not> completion_recorded s \<and> is_stage st \<and> before_completion (stage_rank st) s \<and>
          (st = UPLOADING_PDF \<longrightarrow> present (pdfS3Key s))
      | FinalizingDatabaseRecord \<Rightarrow>
          \<not> completion_recorded s \<and> before_completion 6 s \<and> present (pdfS3Key s)
      | EmailNotification \<Rightarrow> completion_recorded s \<and> after_completion s
      | Respond200 \<Rightarrow> completion_recorded s \<and> after_completion s
      | Catch error \<Rightarrow>
          if completion_recorded s then after_completion s else before_completion 6 s
      | Done \<Rightarrow>
          if completion_recorded s
          then (if response s = Some Ok200 then after_completion s else after_late s)
          else after_failure s)"

lemma inv_initial: "job_inv initial"
  by (simp add: job_inv_def initial_def before_completion_def row_in_pipeline_def
      completion_recorded_def)

lemma row_in_pipeline_mono:
  "row_in_pipeline b r \<Longrightarrow> b \<le> b' \<Longrightarrow> row_in_pipeline b' r"
  by (auto simp: row_in_pipeline_def in_pipeline_def split: option.splits)

lemma selected_of_row:
  "row_in_pipeline b r \<Longrightarrow> selected_without_key r"
  "row_has_report r \<Longrightarrow> selected_ok r"
  "row_failed r \<Longrightarrow> selected_without_key r"
  "selected_without_key r \<Longrightarrow> selected_ok r"
  "row_late r \<Longrightarrow> selected_late r"
  "selected_ok r \<Longrightarrow> selected_late r"
  "row_has_report r \<Longrightarrow> row_late r"
  by (auto simp: row_in_pipeline_def row_has_report_def row_failed_def selected_without_key_def
      selected_ok_def in_pipeline_def marked_failed_def row_late_def selected_late_def
      has_report_def report_or_failed_def split: option.splits)

lemma list_all_selected_ok:
  "list_all selected_without_key xs \<Longrightarrow> list_all selected_ok xs"
  by (induction xs) (auto simp: selected_of_row)

lemma list_all_selected_late:
  "list_all selected_ok xs \<Longrightarrow> list_all selected_late xs"
  by (induction xs) (auto simp: selected_of_row)

lemma after_completion_late: "after_completion s \<Longrightarrow> after_late s"
  by (simp add: after_completion_def after_late_def selected_of_row list_all_selected_late)

lemma inv_Select: "job_inv s \<Longrightarrow> job_inv (step req Select s)"
  by (auto simp: job_inv_def step_def before_completion_def after_completion_def after_failure_def
      after_late_def completion_recorded_def selected_of_row split: pc.splits if_splits)

lemma inv_DeleteRecord: "job_inv s \<Longrightarrow> job_inv (step req DeleteRecord s)"
  by (auto simp: job_inv_def step_def before_completion_def after_completion_def after_failure_def
      after_late_def completion_recorded_def row_in_pipeline_def row_has_report_def row_failed_def
      row_late_def split: pc.splits if_splits)

lemma download_without_key:
  "selected_without_key sel \<Longrightarrow> snd (download sel s3_ok query_ok r) = r"
  by (auto simp: download_def selected_without_key_def present_def split: option.splits)

lemma download_has_report:
  "row_has_report r \<Longrightarrow> selected_ok sel \<Longrightarrow> row_has_report (snd (download sel s3_ok query_ok r))"
  by (auto simp: download_def selected_ok_def row_has_report_def has_report_def db_update_def
      split: option.splits)

lemma download_late:
  "row_late r \<Longrightarrow> selected_late sel \<Longrightarrow> row_late (snd (download sel s3_ok query_ok r))"
  by (auto simp: download_def selected_late_def row_late_def report_or_failed_def db_update_def
      split: option.splits)

lemma inv_Download: "job_inv s \<Longrightarrow> job_inv (step req (Download k s3_ok query_ok) s)"
proof (cases "k < length (selected_rows s)")
  case False
  then show "job_inv s \<Longrightarrow> ?thesis" by (simp add: step_def)
next
  case True
  assume i: "job_inv s"
  have nk: "list_all selected_without_key (selected_rows s) \<Longrightarrow>
      snd (download (selected_rows s ! k) s3_ok query_ok (row s)) = row s"
    using True by (simp add: download_without_key list_all_length)
  have ok: "list_all selected_ok (selected_rows s) \<Longrightarrow> row_has_report (row s) \<Longrightarrow>
      row_has_report (snd (download (selected_rows s ! k) s3_ok query_ok (row s)))"
    using True by (simp add: download_has_report list_all_length)
  have late: "list_all selected_late (selected_rows s) \<Longrightarrow> row_late (row s) \<Longrightarrow>
      row_late (snd (download (selected_rows s ! k) s3_ok query_ok (row s)))"
    using True by (simp add: download_late list_all_length)
  show ?thesis
    using i True nk ok late
    by (auto simp: job_inv_def step_def before_completion_def after_completion_def
        after_failure_def after_late_def completion_recorded_def split: pc.splits if_splits)
qed

lemma row_updates:
  "row_in_pipeline b r \<Longrightarrow> stage_rank st \<le> b' \<Longrightarrow>
     row_in_pipeline b' (db_update True (updateAnalysisStatus st None) r)"
  "row_in_pipeline b r \<Longrightarrow> row_in_pipeline b (db_update True (updateAnalysisResultInDB rd a) r)"
  "row_in_pipeline b r \<Longrightarrow> present k \<Longrightarrow>
     row_has_report (db_update True (updatePdfKeyAndComplete k) r)"
  "row_in_pipeline b r \<Longrightarrow> row_failed (db_update True (updateAnalysisStatus FAILED m) r)"
  "row_in_pipeline b r \<Longrightarrow> b \<le> 6 \<Longrightarrow> row_failed r"
  "row_has_report r \<Longrightarrow> row_late (db_update True (updateAnalysisStatus FAILED m) r)"
  by (auto simp: row_in_pipeline_def row_has_report_def row_failed_def in_pipeline_def
      has_report_def marked_failed_def db_update_def updateAnalysisStatus_def row_late_def
      report_or_failed_def updateAnalysisResultInDB_def updatePdfKeyAndComplete_def
      split: option.splits)

lemma email_only_keeps:
  assumes "email_only r r'"
  shows "row_has_report r \<Longrightarrow> row_has_report r'" "row_in_pipeline b r \<Longrightarrow> row_in_pipeline b r'"
    "map_option processing_status r' = map_option processing_status r"
    "r = None \<longleftrightarrow> r' = None"
proof -
  have c: "same_but_email j j' \<Longrightarrow>
      processing_status j' = processing_status j \<and> pdf_s3_key j' = pdf_s3_key j" for j j'
    using same_but_email_columns by blast
  from assms c show "row_has_report r \<Longrightarrow> row_has_report r'"
    by (auto simp: email_only_def row_has_report_def has_report_def split: option.splits)
  from assms c show "row_in_pipeline b r \<Longrightarrow> row_in_pipeline b r'"
    by (auto simp: email_only_def row_in_pipeline_def in_pipeline_def split: option.splits)
  from assms c show "map_option processing_status r' = map_option processing_status r"
    by (auto simp: email_only_def split: option.splits)
  from assms show "r = None \<longleftrightarrow> r' = None"
    by (auto simp: email_only_def split: option.splits)
qed

lemma row_has_report_email:
  "row_has_report r \<Longrightarrow> row_has_report (snd (sendCompletionEmail env recipient k r))"
  using email_only_keeps(1) [OF sendCompletionEmail_frame] .

lemma is_stage_cases:
  "is_stage st \<longleftrightarrow> st = UPLOADING_DECK \<or> st = EXTRACTING_TEXT \<or> st = ANALYZING_AI \<or>
     st = SAVING_ANALYSIS \<or> st = GENERATING_PDF \<or> st = UPLOADING_PDF"
  by (cases st) (simp_all add: is_stage_def)

lemma inv_advance:
  assumes "is_stage st" "before_completion (stage_rank st) s" "st = UPLOADING_PDF \<longrightarrow> present (pdfS3Key s)"
    "st = GENERATING_PDF \<longrightarrow> present (pdfS3Key s)"
  shows "job_inv (advance st s)"
  using assms
  by (auto simp: is_stage_cases job_inv_def advance_def before_completion_def is_stage_def
      completion_recorded_def)

lemma inv_throw:
  "before_completion b s \<Longrightarrow> b \<le> 6 \<Longrightarrow> \<not> completion_recorded s \<Longrightarrow> job_inv (throw m s)"
  by (auto simp: job_inv_def throw_def before_completion_def completion_recorded_def
      intro: row_in_pipeline_mono)

lemma inv_run_stage:
  assumes "is_stage st" "before_completion (stage_rank st) s" "st = UPLOADING_PDF \<longrightarrow> present (pdfS3Key s)"
    "pc s = Run st" "\<not> completion_recorded s"
  shows "job_inv (run_stage st reply s)"
proof -
  have le: "stage_rank st \<le> 6" using assms(1) by (simp add: is_stage_def)
  have same: "job_inv s" using assms by (simp add: job_inv_def)
  have thr: "job_inv (throw m s)" for m using inv_throw [OF assms(2) le assms(5)] .
  have adv: "st \<noteq> GENERATING_PDF \<Longrightarrow> job_inv (advance st s)"
    using inv_advance [OF assms(1,2,3)] by simp
  from assms(1) consider "st = UPLOADING_DECK" | "st = EXTRACTING_TEXT" | "st = ANALYZING_AI"
    | "st = SAVING_ANALYSIS" | "st = GENERATING_PDF" | "st = UPLOADING_PDF"
    by (auto simp: is_stage_cases)
  then show ?thesis
  proof cases
    case 1
    then show ?thesis using same thr adv by (cases reply) (simp_all add: run_stage_def)
  next
    case 2
    have "job_inv (advance st (s\<lparr>extractedTextData := d\<rparr>))" for d
      using 2 assms by (intro inv_advance) (simp_all add: before_completion_def)
    with 2 show ?thesis using same thr
      by (cases reply)
         (simp_all add: run_stage_def split: json.splits list.splits thrown.splits option.splits)
  next
    case 3
    have "job_inv (advance st (s\<lparr>analysisResult := Some a\<rparr>))" for a
      using 3 assms by (intro inv_advance) (simp_all add: before_completion_def)
    with 3 show ?thesis using same thr
      by (cases reply) (simp_all add: run_stage_def split: sum.splits prod.splits)
  next
    case 4
    have "job_inv (advance st (s\<lparr>row := db_update True (updateAnalysisResultInDB binary64 a) (row s)\<rparr>))" for a
      using 4 assms by (intro inv_advance) (simp_all add: before_completion_def row_updates)
    with 4 show ?thesis using same thr by (cases reply) (simp_all add: run_stage_def)
  next
    case 5
    have "job_inv (advance st (s\<lparr>pdfS3Key := Some (''reports/'' @ name)\<rparr>))" for name
      using 5 assms by (intro inv_advance) (simp_all add: before_completion_def present_def)
    with 5 show ?thesis using same thr by (cases reply) (simp_all add: run_stage_def)
  next
    case 6
    then show ?thesis using same thr adv by (cases reply) (simp_all add: run_stage_def)
  qed
qed

lemma inv_catch_block:
  assumes i: "job_inv s" and c: "pc s = Catch error"
  shows "job_inv (catch_block error reply s)"
proof (cases "completion_recorded s")
  case True
  with i c have a: "after_completion s" by (simp add: job_inv_def)
  then have l: "after_late s" by (rule after_completion_late)
  have 1: "job_inv (s\<lparr>pc := Done\<rparr>)"
    using True a l by (simp add: job_inv_def completion_recorded_def after_completion_def after_late_def)
  have 2: "job_inv (s\<lparr>response := Some (Error500 (currentStage s)), pc := Done\<rparr>)"
    using True l by (simp add: job_inv_def completion_recorded_def after_late_def)
  have 3: "job_inv (s\<lparr>row := db_update True (updateAnalysisStatus FAILED m) (row s),
                   response := Some (Error500 (currentStage s)), pc := Done\<rparr>)" for m
    using True a l
    by (simp add: job_inv_def completion_recorded_def after_late_def after_completion_def row_updates)
  from i 1 2 3 show ?thesis
    by (cases reply) (simp_all add: catch_block_def split: sum.splits)
next
  case False
  with i c have b: "before_completion 6 s" by (simp add: job_inv_def)
  have 1: "job_inv (s\<lparr>pc := Done\<rparr>)"
    using False b
    by (auto simp: job_inv_def completion_recorded_def after_failure_def before_completion_def
        intro: row_updates)
  have 2: "job_inv (s\<lparr>response := Some (Error500 (currentStage s)), pc := Done\<rparr>)"
    using False b
    by (auto simp: job_inv_def completion_recorded_def after_failure_def before_completion_def
        intro: row_updates)
  have 3: "job_inv (s\<lparr>row := db_update True (updateAnalysisStatus FAILED m) (row s),
                   response := Some (Error500 (currentStage s)), pc := Done\<rparr>)" for m
    using False b
    by (auto simp: job_inv_def completion_recorded_def after_failure_def before_completion_def
        intro: row_updates)
  from i 1 2 3 show ?thesis
    by (cases reply) (simp_all add: catch_block_def split: sum.splits)
qed

lemma email_step:
  "pc s = EmailNotification \<Longrightarrow>
     upload_step req (Mail env) s =
       s\<lparr>row := snd (sendCompletionEmail env (Some (userEmail req)) (pdfS3Key s) (row s)),
         pc := (case fst (sendCompletionEmail env (Some (userEmail req)) (pdfS3Key s) (row s)) of
                  Inl typeError \<Rightarrow> Catch (Error typeError)
                | Inr sent \<Rightarrow> Respond200)\<rparr>"
  by (simp add: upload_step_def split: prod.splits sum.splits)

lemma inv_Upload: "job_inv s \<Longrightarrow> job_inv (step req (Upload reply) s)"
proof -
  assume i: "job_inv s"
  show ?thesis
  proof (cases "pc s")
    case DatabaseInitialization
    with i have b: "before_completion 0 s" "\<not> completion_recorded s" by (simp_all add: job_inv_def)
    have "job_inv (throw m s)" for m using inv_throw [OF b(1) _ b(2)] by simp
    moreover have "job_inv (s\<lparr>row := Some (saveAnalysisToDB (s3KeyDeck req) (userId req) (originalFileName req)),
                 analysisId := Some (newId req),
                 pc := Mark UPLOADING_DECK, currentStage := ''Deck Upload to S3''\<rparr>)"
      using b by (simp add: job_inv_def is_stage_def before_completion_def row_in_pipeline_def
          in_pipeline_def saveAnalysisToDB_def completion_recorded_def)
    ultimately show ?thesis
      using i DatabaseInitialization by (cases reply) (simp_all add: step_def upload_step_def)
  next
    case (Mark st)
    with i have st: "is_stage st" "before_completion (stage_rank st - 1) s"
        "st = UPLOADING_PDF \<longrightarrow> present (pdfS3Key s)" "\<not> completion_recorded s"
      by (simp_all add: job_inv_def)
    have "job_inv (s\<lparr>pc := Run st\<rparr>)"
      using st by (auto simp: job_inv_def before_completion_def completion_recorded_def
          intro: row_in_pipeline_mono)
    moreover have "job_inv (s\<lparr>row := db_update True (updateAnalysisStatus st None) (row s), pc := Run st\<rparr>)"
      using st by (auto simp: job_inv_def before_completion_def completion_recorded_def
          intro: row_updates)
    moreover have "job_inv (throw m s)" for m
    proof -
      from st(1) have "stage_rank st - 1 \<le> 6" unfolding is_stage_def by arith
      from inv_throw [OF st(2) this st(4)] show ?thesis .
    qed
    ultimately show ?thesis
      using i Mark by (cases reply) (simp_all add: step_def upload_step_def split: sum.splits)
  next
    case (Run st)
    with i have "is_stage st" "before_completion (stage_rank st) s"
        "st = UPLOADING_PDF \<longrightarrow> present (pdfS3Key s)" "pc s = Run st" "\<not> completion_recorded s"
      by (simp_all add: job_inv_def)
    from inv_run_stage [OF this] show ?thesis
      using Run by (simp add: step_def upload_step_def)
  next
    case FinalizingDatabaseRecord
    with i have b: "before_completion 6 s" "present (pdfS3Key s)" "\<not> completion_recorded s"
      by (simp_all add: job_inv_def)
    have "job_inv (throw m s)" for m using inv_throw [OF b(1) _ b(3)] by simp
    moreover have "job_inv (s\<lparr>row := db_update True (updatePdfKeyAndComplete (pdfS3Key s)) (row s),
                 pc := EmailNotification, currentStage := ''Email Notification''\<rparr>)"
      using b by (auto simp: job_inv_def after_completion_def before_completion_def
          completion_recorded_def intro: row_updates list_all_selected_ok)
    ultimately show ?thesis
      using i FinalizingDatabaseRecord by (cases reply) (simp_all add: step_def upload_step_def)
  next
    case EmailNotification
    with i have a: "after_completion s" "completion_recorded s" by (simp_all add: job_inv_def)
    have "job_inv (s\<lparr>row := snd (sendCompletionEmail env (Some (userEmail req)) (pdfS3Key s) (row s)),
                 pc := p\<rparr>)" if "p = Respond200 \<or> (\<exists>e. p = Catch e)" for env p
      using a that
      by (auto simp: job_inv_def after_completion_def row_has_report_email completion_recorded_def)
    then have "job_inv (upload_step req (Mail env) s)" for env
      using email_step [OF EmailNotification, of req env] by (simp split: sum.splits)
    then show ?thesis
      using i EmailNotification
      by (cases reply) (simp_all add: step_def, simp_all add: upload_step_def)
  next
    case Respond200
    with i have a: "after_completion s" "completion_recorded s" by (simp_all add: job_inv_def)
    have "job_inv (throw m s)" for m
      using a by (simp add: job_inv_def throw_def completion_recorded_def after_completion_def)
    moreover have "job_inv (s\<lparr>response := Some Ok200, pc := Done\<rparr>)"
      using a by (simp add: job_inv_def completion_recorded_def after_completion_def)
    ultimately show ?thesis
      using i Respond200 by (cases reply) (simp_all add: step_def upload_step_def)
  next
    case (Catch error)
    from inv_catch_block [OF i Catch] Catch show ?thesis
      by (simp add: step_def upload_step_def)
  next
    case Done
    with i show ?thesis by (simp add: step_def upload_step_def)
  qed
qed

lemma inv_step: "job_inv s \<Longrightarrow> job_inv (step req e s)"
  by (cases e) (simp_all add: inv_Upload inv_Select inv_Download inv_DeleteRecord)

lemma inv_run: "job_inv (run req evs)"
proof (induction evs rule: rev_induct)
  case Nil
  show ?case by (simp add: run_def inv_initial)
next
  case (snoc e evs)
  then show ?case by (simp add: run_def inv_step)
qed


subsection \<open>How a step changes the status\<close>

lemma run_stage_row:
  "row (run_stage st reply s) = row s \<or>
   (\<exists>a. row (run_stage st reply s) = db_update True (updateAnalysisResultInDB binary64 a) (row s))"
  by (cases st; cases reply)
     (auto simp: run_stage_def advance_def throw_def
        split: json.splits list.splits thrown.splits option.splits sum.splits prod.splits)

lemma catch_block_row:
  "row (catch_block error reply s) = row s \<or>
   (\<exists>m. row (catch_block error reply s) = db_update True (updateAnalysisStatus FAILED m) (row s) \<and>
        pc (catch_block error reply s) = Done \<and>
        response (catch_block error reply s) = Some (Error500 (currentStage s)) \<and>
        currentStage (catch_block error reply s) = currentStage s)"
  by (cases reply) (auto simp: catch_block_def split: sum.splits)

lemma status_after_email:
  "map_option processing_status (snd (sendCompletionEmail env recipient k r)) =
   map_option processing_status r"
  using email_only_keeps(3) [OF sendCompletionEmail_frame] .

text \<open>What a statement of the handler does to the status of a row that exists: nothing,
  a move forward to a stage up to \<open>COMPLETED\<close>, or the write of \<open>FAILED\<close> by the \<open>catch\<close>
  block, which is a move from a status before \<open>COMPLETED\<close> unless the completion is
  recorded by then.\<close>

lemma upload_move:
  assumes i: "job_inv s" and r: "row s = Some j" and r': "row (upload_step req reply s) = Some j'"
  shows "processing_status j' = processing_status j \<or>
         (stage_rank (processing_status j) < stage_rank (processing_status j') \<and>
          stage_rank (processing_status j') \<le> 7) \<or>
         (processing_status j' = FAILED \<and>
          (stage_rank (processing_status j) \<le> 6 \<or> failed_after_completion (upload_step req reply s)))"
proof (cases "pc s")
  case DatabaseInitialization
  with i r show ?thesis by (simp add: job_inv_def)
next
  case (Mark st)
  with i r have "is_stage st" "stage_rank (processing_status j) \<le> stage_rank st - 1"
    by (simp_all add: job_inv_def before_completion_def row_in_pipeline_def in_pipeline_def)
  then have "stage_rank (processing_status j) < stage_rank st \<and> stage_rank st \<le> 7"
    by (auto simp: is_stage_def)
  with r r' Mark show ?thesis
    by (cases reply)
       (auto simp: upload_step_def db_update_def updateAnalysisStatus_def throw_def
          split: sum.splits)
next
  case (Run st)
  with r r' run_stage_row [of st reply s] show ?thesis
    by (auto simp: upload_step_def db_update_def updateAnalysisResultInDB_def)
next
  case FinalizingDatabaseRecord
  with i r have "stage_rank (processing_status j) \<le> 6"
    by (simp add: job_inv_def before_completion_def row_in_pipeline_def in_pipeline_def)
  with r r' FinalizingDatabaseRecord show ?thesis
    by (cases reply) (auto simp: upload_step_def db_update_def updatePdfKeyAndComplete_def throw_def)
next
  case EmailNotification
  show ?thesis
  proof (cases reply)
    case (Mail env)
    from status_after_email [of env "Some (userEmail req)" "pdfS3Key s" "row s"] r r'
    show ?thesis
      by (simp add: Mail email_step [OF EmailNotification])
  qed (use r r' EmailNotification in \<open>simp_all add: upload_step_def\<close>)
next
  case Respond200
  with r r' show ?thesis by (cases reply) (simp_all add: upload_step_def throw_def)
next
  case (Catch error)
  from catch_block_row [of error reply s]
  show ?thesis
  proof
    assume "row (catch_block error reply s) = row s"
    with r r' Catch show ?thesis by (simp add: upload_step_def)
  next
    assume "\<exists>m. row (catch_block error reply s) = db_update True (updateAnalysisStatus FAILED m) (row s) \<and>
        pc (catch_block error reply s) = Done \<and>
        response (catch_block error reply s) = Some (Error500 (currentStage s)) \<and>
        currentStage (catch_block error reply s) = currentStage s"
    then obtain m where m: "row (catch_block error reply s) = db_update True (updateAnalysisStatus FAILED m) (row s)"
      "pc (catch_block error reply s) = Done"
      "response (catch_block error reply s) = Some (Error500 (currentStage s))"
      "currentStage (catch_block error reply s) = currentStage s"
      by blast
    from m(1) r r' Catch have f: "processing_status j' = FAILED"
      by (auto simp: upload_step_def db_update_def updateAnalysisStatus_def)
    show ?thesis
    proof (cases "completion_recorded s")
      case True
      with m Catch have "failed_after_completion (upload_step req reply s)"
        by (simp add: upload_step_def failed_after_completion_def completion_recorded_def)
      with f show ?thesis by simp
    next
      case False
      with i r Catch have "stage_rank (processing_status j) \<le> 6"
        by (simp add: job_inv_def before_completion_def row_in_pipeline_def in_pipeline_def)
      with f show ?thesis by simp
    qed
  qed
next
  case Done
  with r r' show ?thesis by (simp add: upload_step_def)
qed

text \<open>What a download request does to the status: nothing, or the write of
  \<open>FILE_UNAVAILABLE\<close> when its check fails on a Job that has a report, which is a move from
  \<open>COMPLETED\<close> unless the handler failed after the completion.\<close>

lemma download_move:
  assumes i: "job_inv s" and r: "row s = Some j" and k: "k < length (selected_rows s)"
    and r': "snd (download (selected_rows s ! k) s3_ok query_ok (row s)) = Some j'"
  shows "processing_status j' = processing_status j \<or>
         (processing_status j' = FILE_UNAVAILABLE \<and> \<not> s3_ok \<and> present (pdf_s3_key j') \<and>
          (processing_status j = COMPLETED \<or> failed_after_completion s))"
proof (cases "selected_without_key (selected_rows s ! k)")
  case True
  with r r' show ?thesis by (simp add: download_without_key)
next
  case False
  have nk: "\<not> list_all selected_without_key (selected_rows s)"
    using False k by (auto simp: list_all_length)
  show ?thesis
  proof (cases "failed_after_completion s")
    case False
    with nk i have "after_completion s"
      by (auto simp: job_inv_def before_completion_def after_failure_def failed_after_completion_def
          split: pc.splits if_splits)
    with r have "has_report j" by (simp add: after_completion_def row_has_report_def)
    with r r' show ?thesis
      by (auto simp: download_def has_report_def db_update_def split: option.splits if_splits)
  next
    case True
    with i have "after_late s"
      by (auto simp: job_inv_def failed_after_completion_def after_completion_late
          split: pc.splits if_splits)
    with r have "report_or_failed j" by (simp add: after_late_def row_late_def)
    with r r' True show ?thesis
      by (auto simp: download_def report_or_failed_def db_update_def split: option.splits if_splits)
  qed
qed

lemma failed_after_completion_Download:
  "failed_after_completion (step req (Download k s3_ok query_ok) s) = failed_after_completion s"
  by (simp add: step_def failed_after_completion_def completion_recorded_def split: pc.splits)

text \<open>Every change of the status of a row that exists.\<close>

lemma step_change:
  assumes "job_inv s" "row s = Some j" "row (step req e s) = Some j'"
  shows "processing_status j' = processing_status j \<or>
         ((\<exists>reply. e = Upload reply) \<and>
          stage_rank (processing_status j) < stage_rank (processing_status j') \<and>
          stage_rank (processing_status j') \<le> 7) \<or>
         ((\<exists>reply. e = Upload reply) \<and> processing_status j' = FAILED \<and>
          (stage_rank (processing_status j) \<le> 6 \<or> failed_after_completion (step req e s))) \<or>
         ((\<exists>k q. e = Download k False q) \<and> processing_status j' = FILE_UNAVAILABLE \<and>
          present (pdf_s3_key j') \<and>
          (processing_status j = COMPLETED \<or> failed_after_completion (step req e s)))"
proof (cases e)
  case (Upload reply)
  with upload_move [OF assms(1,2), of req reply j'] assms(3) show ?thesis
    by (auto simp: step_def)
next
  case Select
  with assms show ?thesis by (simp add: step_def)
next
  case (Download k s3_ok query_ok)
  show ?thesis
  proof (cases "k < length (selected_rows s)")
    case True
    with download_move [OF assms(1,2) True, of s3_ok query_ok j'] assms(3) Download
      failed_after_completion_Download [of req k s3_ok query_ok s]
    show ?thesis by (auto simp: step_def)
  next
    case False
    with assms Download show ?thesis by (simp add: step_def)
  qed
next
  case DeleteRecord
  with assms show ?thesis by (simp add: step_def)
qed

lemma step_move:
  assumes "job_inv s" "row s = Some j" "row (step req e s) = Some j'"
    "\<not> failed_after_completion (step req e s)"
  shows "processing_status j' = processing_status j \<or>
         (legal_move (processing_status j) (processing_status j') \<and>
          (processing_status j' = FILE_UNAVAILABLE \<longrightarrow> (\<exists>k q. e = Download k False q)))"
  using step_change [OF assms(1,2,3)] assms(4)
  by (auto simp: legal_move_def)

lemma step_creates:
  assumes "row s = None" "row (step req e s) = Some j'"
  shows "e = Upload Succeeds \<and> pc s = DatabaseInitialization \<and> processing_status j' = PENDING \<and>
         pdf_s3_key j' = None"
proof (cases e)
  case (Upload reply)
  have "row (run_stage st reply s) = None" for st
    using run_stage_row [of st reply s] assms(1) by (auto simp: db_update_def)
  moreover have "row (catch_block error reply s) = None" for error
    using catch_block_row [of error reply s] assms(1) by (auto simp: db_update_def)
  moreover have "row (upload_step req (Mail env) s) = None" if "pc s = EmailNotification" for env
    using email_only_keeps(4) [OF sendCompletionEmail_frame, of "row s" env "Some (userEmail req)" "pdfS3Key s"]
      assms(1) by (simp add: email_step [OF that])
  ultimately show ?thesis
    using assms Upload
    by (cases "pc s"; cases reply)
       (auto simp: step_def upload_step_def throw_def db_update_def saveAnalysisToDB_def
          split: if_splits sum.splits)
next
  case Select
  with assms show ?thesis by (simp add: step_def)
next
  case (Download k s3_ok query_ok)
  with assms show ?thesis
    by (auto simp: step_def download_def db_update_def split: if_splits option.splits)
next
  case DeleteRecord
  with assms show ?thesis by (simp add: step_def)
qed

lemma pc_left:
  "pc s \<noteq> DatabaseInitialization \<Longrightarrow> pc (step req e s) \<noteq> DatabaseInitialization"
proof (cases e)
  case (Upload reply)
  have "pc (run_stage st reply s) \<noteq> DatabaseInitialization" if "pc s = Run st" for st
    using that
    by (cases st; cases reply)
       (auto simp: run_stage_def advance_def throw_def
          split: json.splits list.splits thrown.splits option.splits sum.splits prod.splits)
  moreover have "pc (catch_block error reply s) \<noteq> DatabaseInitialization" if "pc s = Catch error" for error
    using that by (cases reply) (auto simp: catch_block_def split: sum.splits)
  moreover have "pc (upload_step req (Mail env) s) \<noteq> DatabaseInitialization"
    if "pc s = EmailNotification" for env
    by (simp add: email_step [OF that] split: sum.splits)
  ultimately show "pc s \<noteq> DatabaseInitialization \<Longrightarrow> ?thesis"
    using Upload
    by (cases "pc s"; cases reply)
       (auto simp: step_def upload_step_def throw_def split: sum.splits)
qed (auto simp: step_def)

lemma row_stays_or_goes:
  assumes "job_inv s" "row s = Some j \<or> pc s \<noteq> DatabaseInitialization"
    "row (step req e s) = Some j'"
  shows "\<exists>j0. row s = Some j0"
proof (cases "row s")
  case None
  with step_creates [OF None assms(3)] assms(2) show ?thesis by simp
qed simp

lemma legal_move_rank: "legal_move a b \<Longrightarrow> stage_rank a < stage_rank b"
  by (auto simp: legal_move_def)

text \<open>The handler responds at its end only.\<close>

definition no_response_yet :: "system \<Rightarrow> bool" where
  "no_response_yet s = (pc s \<noteq> Done \<longrightarrow> response s = None)"

lemma no_response_yet_step: "no_response_yet s \<Longrightarrow> no_response_yet (step req e s)"
proof (cases e)
  case (Upload reply)
  assume n: "no_response_yet s"
  have "no_response_yet (run_stage st reply s)" if "pc s = Run st" for st
    using that n
    by (cases st; cases reply)
       (auto simp: run_stage_def advance_def throw_def no_response_yet_def
          split: json.splits list.splits thrown.splits option.splits sum.splits prod.splits)
  moreover have "no_response_yet (catch_block error reply s)" for error
    using n by (cases reply) (auto simp: catch_block_def no_response_yet_def split: sum.splits)
  moreover have "no_response_yet (upload_step req (Mail env) s)" if "pc s = EmailNotification" for env
    using n that by (simp add: email_step [OF that] no_response_yet_def)
  ultimately show ?thesis
    using n Upload
    by (cases "pc s"; cases reply)
       (auto simp: step_def upload_step_def throw_def no_response_yet_def split: sum.splits)
qed (auto simp: step_def no_response_yet_def)

lemma no_response_yet_run: "no_response_yet (run req evs)"
proof (induction evs rule: rev_induct)
  case Nil
  show ?case by (simp add: run_def initial_def no_response_yet_def)
next
  case (snoc e evs)
  then show ?case by (simp add: run_def no_response_yet_step)
qed

text \<open>Once the handler has failed after the completion, it stays so.\<close>

lemma failed_after_completion_step:
  assumes n: "no_response_yet s" and f: "failed_after_completion s"
  shows "failed_after_completion (step req e s)"
proof (cases e)
  case (Upload reply)
  from f consider error where "pc s = Catch error" | "pc s = Done" "response s \<noteq> Some Ok200"
    by (auto simp: failed_after_completion_def split: pc.splits)
  then show ?thesis
  proof cases
    case 1
    with n have "response s = None" by (simp add: no_response_yet_def)
    with 1 f show ?thesis
      unfolding Upload
      by (cases reply)
         (auto simp: step_def upload_step_def catch_block_def failed_after_completion_def
            completion_recorded_def split: sum.splits)
  next
    case 2
    with f show ?thesis by (simp add: Upload step_def upload_step_def)
  qed
qed (use f in \<open>auto simp: step_def failed_after_completion_def completion_recorded_def split: pc.splits\<close>)

lemma rank_never_drops:
  assumes "row (run req evs) = Some j" "row (run req (evs @ later)) = Some j'"
    "\<not> failed_after_completion (run req (evs @ later))"
  shows "stage_rank (processing_status j) \<le> stage_rank (processing_status j')"
  using assms(2,3)
proof (induction later arbitrary: j' rule: rev_induct)
  case Nil
  with assms(1) show ?case by simp
next
  case (snoc e later)
  let ?s = "run req (evs @ later)"
  have st: "run req (evs @ later @ [e]) = step req e ?s"
    by (simp add: run_def)
  have left: "pc (run req (evs @ xs)) \<noteq> DatabaseInitialization" for xs
  proof (induction xs rule: rev_induct)
    case Nil
    from inv_run [of req evs] assms(1) show ?case
      by (auto simp: job_inv_def)
  next
    case (snoc x xs)
    then show ?case
      using pc_left [of "run req (evs @ xs)" req x] by (simp add: run_def)
  qed
  from snoc.prems st have r': "row (step req e ?s) = Some j'"
    and nf': "\<not> failed_after_completion (step req e ?s)" by simp_all
  from nf' failed_after_completion_step [OF no_response_yet_run, of req "evs @ later" req e]
  have nf: "\<not> failed_after_completion ?s"
    by blast
  from row_stays_or_goes [OF inv_run _ r'] left [of later]
  obtain j0 where j0: "row ?s = Some j0" by blast
  from snoc.IH [OF j0 nf] have "stage_rank (processing_status j) \<le> stage_rank (processing_status j0)" .
  moreover from step_move [OF inv_run j0 r' nf']
  have "stage_rank (processing_status j0) \<le> stage_rank (processing_status j')"
    using legal_move_rank by fastforce
  ultimately show ?case by simp
qed


subsection \<open>The report key and the status\<close>

lemma inv_row_key:
  assumes "job_inv s" "row s = Some j"
  shows "pdf_s3_key j \<noteq> None \<longleftrightarrow>
           processing_status j = COMPLETED \<or> processing_status j = FILE_UNAVAILABLE \<or>
           (processing_status j = FAILED \<and> failed_after_completion s)"
  using assms
  by (cases "pc s")
     (auto simp: job_inv_def before_completion_def after_completion_def after_failure_def
        after_late_def row_in_pipeline_def row_has_report_def row_failed_def row_late_def
        in_pipeline_def has_report_def marked_failed_def report_or_failed_def present_def
        failed_after_completion_def is_stage_def split: if_splits option.splits)

subsection \<open>The status written is the stage reached\<close>







subsection \<open>The score stored and the score handed on\<close>

lemma fold_score_step_empty:
  "rd 0 = 0 \<Longrightarrow> fst (fold (score_step rd []) ws (0, u)) = 0"
  by (induction ws arbitrary: u) (auto simp: usable_score_def)

lemma calculateOverallScore_empty: "calculateOverallScore binary64 [] = 0"
proof -
  have z: "binary64 0 = 0" by (simp add: binary64_def)
  obtain t u where f: "fold (score_step binary64 []) weights (0, 0) = (t, u)"
    by (cases "fold (score_step binary64 []) weights (0, 0)")
  with fold_score_step_empty [where rd = binary64 and ws = weights and u = 0, OF z]
  have "t = 0" by simp
  with f show ?thesis
    by (simp add: calculateOverallScore_def Let_def z Math_round_def)
qed

lemma analyzeWithGemini_score:
  assumes "analyzeWithGemini rd toStr sanitize parse api slides = Inr (a, ws)"
  shows "map_of a ''overall_score'' = Some (JNum (of_int (calculateOverallScore rd a)))"
proof -
  from analyzeWithGemini_returns [OF assms] obtain parsed ws' where
    "validate_and_score rd toStr parsed = Inr (a, ws')" by blast
  from validate_and_score_result [OF this]
  have a: "a = AList.update ''overall_score'' (JNum (of_int (calculateOverallScore rd parsed))) parsed" .
  then have "calculateOverallScore rd a = calculateOverallScore rd parsed"
    by (simp add: calculateOverallScore_update)
  with a show ?thesis by (simp add: update_conv')
qed

text \<open>In every state: the analysis the handler holds carries the score computed from
  its categories, and so does the row.\<close>

definition score_recomputed :: "system \<Rightarrow> bool" where
  "score_recomputed s =
     ((case analysisResult s of
         None \<Rightarrow> True
       | Some a \<Rightarrow> map_of a ''overall_score'' = Some (JNum (of_int (calculateOverallScore binary64 a)))) \<and>
      (case row s of
         None \<Rightarrow> True
       | Some j \<Rightarrow> overall_score j = calculateOverallScore binary64 (analysis_data j)))"

definition score_columns :: "job option \<Rightarrow> (obj \<times> int) option" where
  "score_columns r = map_option (\<lambda>j. (analysis_data j, overall_score j)) r"

lemma score_recomputed_columns:
  "score_recomputed s \<longleftrightarrow>
     (case analysisResult s of
         None \<Rightarrow> True
       | Some a \<Rightarrow> map_of a ''overall_score'' = Some (JNum (of_int (calculateOverallScore binary64 a)))) \<and>
     (case score_columns (row s) of
         None \<Rightarrow> True
       | Some (d, v) \<Rightarrow> v = calculateOverallScore binary64 d)"
  by (simp add: score_recomputed_def score_columns_def split: option.splits)

lemma score_columns_kept:
  "score_columns (db_update ok (updateAnalysisStatus st m) r) = score_columns r"
  "score_columns (db_update ok (updatePdfKeyAndComplete k) r) = score_columns r"
  "score_columns (db_update ok (\<lambda>j. j\<lparr>processing_status := FILE_UNAVAILABLE\<rparr>) r) = score_columns r"
  by (cases r; simp add: score_columns_def db_update_def updateAnalysisStatus_def
      updatePdfKeyAndComplete_def)+

lemma score_columns_email:
  "score_columns (snd (sendCompletionEmail env recipient k r)) = score_columns r"
proof -
  have c: "same_but_email j j' \<Longrightarrow>
      analysis_data j' = analysis_data j \<and> overall_score j' = overall_score j" for j j'
  proof -
    assume "same_but_email j j'"
    then have "j' = j\<lparr>email_status := email_status j', email_failure_reason := email_failure_reason j'\<rparr>"
      by (simp add: same_but_email_def)
    then show ?thesis
      by (metis job.select_convs(4) job.select_convs(5) job.surjective
          job.update_convs(11) job.update_convs(12))
  qed
  from sendCompletionEmail_frame [of r env recipient k] c show ?thesis
    by (auto simp: email_only_def score_columns_def split: option.splits)
qed

lemma score_columns_download:
  "score_columns (snd (download sel s3_ok query_ok r)) = score_columns r"
  by (simp add: download_def score_columns_kept split: option.splits)

lemma score_recomputed_step: "score_recomputed s \<Longrightarrow> score_recomputed (step req e s)"
proof (cases e)
  case (Upload reply)
  assume n: "score_recomputed s"
  have rs: "score_recomputed (run_stage st reply s)" for st
  proof -
    have a: "score_recomputed (advance st s')" "score_recomputed (throw m s')"
      if "score_recomputed s'" for s' m
      using that by (simp_all add: score_recomputed_def advance_def throw_def)
    have f: "score_recomputed (s\<lparr>extractedTextData := d\<rparr>)" "score_recomputed (s\<lparr>pdfS3Key := k\<rparr>)" for d k
      using n by (simp_all add: score_recomputed_def)
    have g: "score_recomputed (s\<lparr>analysisResult := Some a\<rparr>)"
      if "analyzeWithGemini binary64 toStr no_sanitizer parse api (extractedTextData s) = Inr (a, ws)"
      for a ws toStr parse api
      using n analyzeWithGemini_score [OF that] by (simp add: score_recomputed_def)
    have u: "score_recomputed (s\<lparr>row := db_update True
                      (updateAnalysisResultInDB binary64
                         (case analysisResult s of Some a \<Rightarrow> a | None \<Rightarrow> [])) (row s)\<rparr>)"
      using n
      by (auto simp: score_recomputed_def db_update_def updateAnalysisResultInDB_def
          split: option.splits)
    show ?thesis
      using n a f g u
      by (cases st; cases reply)
         (auto simp: run_stage_def
            split: json.splits list.splits thrown.splits option.splits sum.splits prod.splits)
  qed
  have cb: "score_recomputed (catch_block error reply s)" for error
    using n
    by (cases reply)
       (auto simp: catch_block_def score_recomputed_columns score_columns_kept split: sum.splits)
  have em: "score_recomputed (upload_step req (Mail env) s)" if "pc s = EmailNotification" for env
    using n by (simp add: email_step [OF that] score_recomputed_columns score_columns_email)
  have sv: "score_recomputed
      (s\<lparr>row := Some (saveAnalysisToDB (s3KeyDeck req) (userId req) (originalFileName req)),
         analysisId := Some (newId req),
         pc := Mark UPLOADING_DECK, currentStage := ''Deck Upload to S3''\<rparr>)"
    using n by (simp add: score_recomputed_def saveAnalysisToDB_def calculateOverallScore_empty)
  show ?thesis
    using n rs cb em sv unfolding Upload
    by (cases "pc s"; cases reply)
       (auto simp: step_def upload_step_def throw_def score_recomputed_columns score_columns_kept
          split: sum.splits)
next
  case Select
  then show "score_recomputed s \<Longrightarrow> ?thesis" by (simp add: step_def score_recomputed_def)
next
  case (Download k s3_ok query_ok)
  then show "score_recomputed s \<Longrightarrow> ?thesis"
    by (simp add: step_def score_recomputed_columns score_columns_download)
next
  case DeleteRecord
  then show "score_recomputed s \<Longrightarrow> ?thesis" by (simp add: step_def score_recomputed_def)
qed

lemma score_recomputed_run: "score_recomputed (run req evs)"
proof (induction evs rule: rev_induct)
  case Nil
  show ?case by (simp add: run_def initial_def score_recomputed_def)
next
  case (snoc e evs)
  then show ?case by (simp add: run_def score_recomputed_step)
qed


subsection \<open>Example runs\<close>

definition example_request :: request where
  "example_request =
     \<lparr>s3KeyDeck = ''1744970400000-deck.pptx'', userId = 7, userEmail = ''founder@example.com'',
      originalFileName = ''deck.pptx'', newId = 42\<rparr>"

definition slide :: json where
  "slide = JObj [(''text'', JStr ''Problem''), (''notes'', JStr [])]"

text \<open>The upload handler with every statement succeeding, on a deck whose extraction
  returned \<open>slides\<close>; the model answers with the text of \<open>complete_response\<close>.\<close>

definition upload_events :: "json \<Rightarrow> event list" where
  "upload_events slides =
     map Upload
       [Succeeds, Succeeds, Succeeds, Succeeds, Slides slides, Succeeds,
        Llm llm_answers read_json template_text,
        Succeeds, Succeeds, Succeeds, Pdf ''Investment_Thesis_deck_18042025.pdf'',
        Succeeds, Succeeds, Succeeds, Mail mail_delivered, Succeeds]"

text \<open>The same up to the completion; then the mail transport rejects with \<open>null\<close>, and the
  \<open>catch\<close> block runs.\<close>

definition upload_events_null_rejection :: "json \<Rightarrow> event list" where
  "upload_events_null_rejection slides =
     take 14 (upload_events slides) @ [Upload (Mail transport_rejects_null), Upload Succeeds]"



lemma four_slides_analyzed:
  "analyzeWithGemini binary64 toStr no_sanitizer read_json llm_answers
     (JArr [slide, slide, slide, slide]) =
     Inr (AList.update ''overall_score'' (JNum 62) complete_response, [])"
  by (simp add: analyzeWithGemini_def slide_def llm_answers_text parse_and_validate_def
      no_sanitizer_def complete_response_text_parses complete_response_validated)

lemma example_after_extraction:
  "pc (run example_request (take 5 (upload_events (JArr [slide, slide, slide, slide])))) = Mark ANALYZING_AI \<and>
   map_option processing_status
     (row (run example_request (take 5 (upload_events (JArr [slide, slide, slide, slide]))))) =
     Some EXTRACTING_TEXT"
  by (simp add: run_def upload_events_def example_request_def initial_def step_def
      upload_step_def run_stage_def advance_def throw_def db_update_def saveAnalysisToDB_def
      updateAnalysisStatus_def)

text \<open>The state when the completion has been recorded.\<close>

definition example_row :: job where
  "example_row =
     \<lparr>s3_key = ''1744970400000-deck.pptx'', user_id = 7, original_filename = ''deck.pptx'',
      analysis_data = AList.update ''overall_score'' (JNum 62) complete_response,
      overall_score = 62,
      recommendation = Some (JStr ''Hold''), confidence_score = Some (JNum 70),
      processing_status = COMPLETED, failure_reason = None,
      pdf_s3_key = Some ''reports/Investment_Thesis_deck_18042025.pdf'',
      email_status = None, email_failure_reason = None\<rparr>"

lemma complete_response_columns:
  "or_null (map_of (AList.update ''overall_score'' v complete_response) ''recommendation'') =
     Some (JStr ''Hold'')"
  "or_null (map_of (AList.update ''overall_score'' v complete_response) ''confidence_score'') =
     Some (JNum 70)"
  by (simp_all add: update_conv' complete_response_def or_null_def)

lemma example_at_email:
  "run example_request (take 14 (upload_events (JArr [slide, slide, slide, slide]))) =
     \<lparr>row = Some example_row, selected_rows = [], pc = EmailNotification, analysisId = Some 42,
      extractedTextData = JArr [slide, slide, slide, slide],
      analysisResult = Some (AList.update ''overall_score'' (JNum 62) complete_response),
      pdfS3Key = Some ''reports/Investment_Thesis_deck_18042025.pdf'',
      currentStage = ''Email Notification'', response = None\<rparr>"
  by (simp add: run_def upload_events_def example_request_def initial_def step_def
      upload_step_def run_stage_def advance_def throw_def db_update_def saveAnalysisToDB_def
      updateAnalysisStatus_def updateAnalysisResultInDB_def updatePdfKeyAndComplete_def
      four_slides_analyzed complete_score calculateOverallScore_update
      complete_response_columns example_row_def)


lemma run_append: "run req (xs @ ys) = fold (step req) ys (run req xs)"
  by (simp add: run_def)

lemma example_userEmail: "userEmail example_request = ''founder@example.com''"
  by (simp add: example_request_def)

lemma upload_events_split:
  "upload_events slides =
     take 14 (upload_events slides) @ [Upload (Mail mail_delivered), Upload Succeeds]"
  by (simp add: upload_events_def)

lemma example_final:
  "run example_request (upload_events (JArr [slide, slide, slide, slide])) =
     \<lparr>row = Some (example_row\<lparr>email_status := Some ''SENT'', email_failure_reason := None\<rparr>),
      selected_rows = [], pc = Done, analysisId = Some 42,
      extractedTextData = JArr [slide, slide, slide, slide],
      analysisResult = Some (AList.update ''overall_score'' (JNum 62) complete_response),
      pdfS3Key = Some ''reports/Investment_Thesis_deck_18042025.pdf'',
      currentStage = ''Email Notification'', response = Some Ok200\<rparr>"
proof -
  let ?S = "JArr [slide, slide, slide, slide]"
  have "run example_request (upload_events ?S) =
        run example_request
          (take 14 (upload_events ?S) @ [Upload (Mail mail_delivered), Upload Succeeds])"
    by (rule arg_cong [OF upload_events_split])
  also have "\<dots> =
     \<lparr>row = Some (example_row\<lparr>email_status := Some ''SENT'', email_failure_reason := None\<rparr>),
      selected_rows = [], pc = Done, analysisId = Some 42,
      extractedTextData = ?S,
      analysisResult = Some (AList.update ''overall_score'' (JNum 62) complete_response),
      pdfS3Key = Some ''reports/Investment_Thesis_deck_18042025.pdf'',
      currentStage = ''Email Notification'', response = Some Ok200\<rparr>"
    by (simp add: run_append example_at_email step_def upload_step_def example_userEmail
        sendCompletionEmail_def mail_delivered_def no_query_fails_def present_def
        updateEmailStatus_def email_reasonToStore_def db_update_def)
  finally show ?thesis .
qed

lemma example_completed:
  "pc (run example_request (upload_events (JArr [slide, slide, slide, slide]))) = Done \<and>
   response (run example_request (upload_events (JArr [slide, slide, slide, slide]))) = Some Ok200 \<and>
   map_option processing_status
     (row (run example_request (upload_events (JArr [slide, slide, slide, slide])))) = Some COMPLETED \<and>
   map_option pdf_s3_key
     (row (run example_request (upload_events (JArr [slide, slide, slide, slide])))) =
     Some (Some ''reports/Investment_Thesis_deck_18042025.pdf'')"
  by (simp add: example_final example_row_def)

text \<open>After the completion a download request selects the row, and its storage check
  fails.\<close>

lemma example_lost_report:
  "map_option processing_status
     (row (run example_request
        (upload_events (JArr [slide, slide, slide, slide]) @ [Select]))) = Some COMPLETED \<and>
   map_option processing_status
     (row (run example_request
        ((upload_events (JArr [slide, slide, slide, slide]) @ [Select]) @ [Download 0 False True]))) =
     Some FILE_UNAVAILABLE \<and>
   map_option pdf_s3_key
     (row (run example_request
        ((upload_events (JArr [slide, slide, slide, slide]) @ [Select]) @ [Download 0 False True]))) =
     Some (Some ''reports/Investment_Thesis_deck_18042025.pdf'')"
  by (simp add: run_append example_final step_def download_def present_def db_update_def
      example_row_def)

text \<open>The mail transport rejects with \<open>null\<close>: \<open>sendCompletionEmail\<close> rejects with the
  \<open>TypeError\<close> of its \<open>catch\<close> block, and the \<open>catch\<close> block of the handler marks the
  completed Job as failed.\<close>

lemma example_null_rejection:
  "run example_request (upload_events_null_rejection (JArr [slide, slide, slide, slide])) =
     \<lparr>row = Some (example_row
               \<lparr>processing_status := FAILED,
                failure_reason := Some ''Cannot read properties of null (reading 'message')'',
                email_status := Some ''SENDING''\<rparr>),
      selected_rows = [], pc = Done, analysisId = Some 42,
      extractedTextData = JArr [slide, slide, slide, slide],
      analysisResult = Some (AList.update ''overall_score'' (JNum 62) complete_response),
      pdfS3Key = Some ''reports/Investment_Thesis_deck_18042025.pdf'',
      currentStage = ''Email Notification'', response = Some (Error500 ''Email Notification'')\<rparr>"
  by (simp add: upload_events_null_rejection_def run_append example_at_email step_def
      upload_step_def example_userEmail catch_block_def Error_def
      sendCompletionEmail_def transport_rejects_null_def mail_delivered_def no_query_fails_def
      present_def smtp_failed_def updateEmailStatus_def email_reasonToStore_def db_update_def
      updateAnalysisStatus_def example_row_def)



section \<open>The properties of the orchestrated Job\<close>

subsection \<open>The email call inside the handler\<close>







subsection \<open>The overall score\<close>

text \<open>
  Claim C6: when \<open>analyzeWithGemini\<close> returns an analysis, the call to the model returned
  a text, that text (sanitized) parsed to an object, and the analysis returned is that
  object with \<open>overall_score\<close> set to what \<open>calculateOverallScore\<close> computes from the nine
  category scores and the fixed weights, a computation that does not read the
  \<open>overall_score\<close> an object carries: a model answering with an object that differs only in
  \<open>overall_score\<close> leads to the same analysis. The score stored in the Job's
  \<open>overall_score\<close> column and the score printed in the report are computed from the
  categories again and are that same value. In every state of a Job, the analysis the
  handler holds and the row stored carry the score computed from their categories.
\<close>

theorem overall_score_recomputed:
  "(analyzeWithGemini rd toStr sanitize parse api extractedSlides = Inr (returned, ws) \<longrightarrow>
      (\<exists>responseText sanitizedResponse parsed.
         outcome (callGeminiWithRetry api) = Inr responseText \<and>
         sanitize responseText = Inr sanitizedResponse \<and>
         parse sanitizedResponse = Inr (JObj parsed) \<and>
         returned =
           AList.update ''overall_score'' (JNum (of_int (calculateOverallScore rd parsed))) parsed \<and>
         (\<forall>supplied. calculateOverallScore rd (AList.update ''overall_score'' supplied parsed) =
                     calculateOverallScore rd parsed) \<and>
         (\<forall>api' responseText' sanitizedResponse' supplied.
            outcome (callGeminiWithRetry api') = Inr responseText' \<longrightarrow>
            sanitize responseText' = Inr sanitizedResponse' \<longrightarrow>
            parse sanitizedResponse' = Inr (JObj (AList.update ''overall_score'' supplied parsed)) \<longrightarrow>
            analyzeWithGemini rd toStr sanitize parse api' extractedSlides = Inr (returned, ws)) \<and>
         overall_score (updateAnalysisResultInDB rd returned j) = calculateOverallScore rd parsed \<and>
         (\<forall>report. generateInvestmentThesisPDF rd toStr' formatDate returned i n today now = Inr report \<longrightarrow>
            content report ! 6 = addP (show_nat (nat (calculateOverallScore rd parsed)) @ '' / 100''))) \<and>
      map_of returned ''overall_score'' = Some (JNum (of_int (calculateOverallScore rd returned)))) \<and>
   score_recomputed (run req evs)"
proof (intro conjI impI)
  assume a: "analyzeWithGemini rd toStr sanitize parse api extractedSlides = Inr (returned, ws)"
  from analyzeWithGemini_returns [OF a]
  obtain responseText sanitizedResponse parsed ws' where
    t: "outcome (callGeminiWithRetry api) = Inr responseText"
       "sanitize responseText = Inr sanitizedResponse"
       "parse sanitizedResponse = Inr (JObj parsed)"
    and v: "validate_and_score rd toStr parsed = Inr (returned, ws')"
    by blast
  from validate_and_score_result [OF v]
  have r: "returned =
      AList.update ''overall_score'' (JNum (of_int (calculateOverallScore rd parsed))) parsed" .
  then have s: "calculateOverallScore rd returned = calculateOverallScore rd parsed"
    by (simp add: calculateOverallScore_update)
  have same: "analyzeWithGemini rd toStr sanitize parse api' extractedSlides = Inr (returned, ws)"
    if "outcome (callGeminiWithRetry api') = Inr responseText'"
       "sanitize responseText' = Inr sanitizedResponse'"
       "parse sanitizedResponse' = Inr (JObj (AList.update ''overall_score'' supplied parsed))"
    for api' responseText' sanitizedResponse' supplied
    using analyzeWithGemini_same [OF t that, of rd toStr extractedSlides] a by simp
  have stored: "overall_score (updateAnalysisResultInDB rd returned j) = calculateOverallScore rd parsed"
    by (simp add: updateAnalysisResultInDB_def s)
  have printed: "content report ! 6 = addP (show_nat (nat (calculateOverallScore rd parsed)) @ '' / 100'')"
    if "generateInvestmentThesisPDF rd toStr' formatDate returned i n today now = Inr report" for report
    using content_score_line [OF that] s by simp
  from t r same stored printed
  show "\<exists>responseText sanitizedResponse parsed.
         outcome (callGeminiWithRetry api) = Inr responseText \<and>
         sanitize responseText = Inr sanitizedResponse \<and>
         parse sanitizedResponse = Inr (JObj parsed) \<and>
         returned =
           AList.update ''overall_score'' (JNum (of_int (calculateOverallScore rd parsed))) parsed \<and>
         (\<forall>supplied. calculateOverallScore rd (AList.update ''overall_score'' supplied parsed) =
                     calculateOverallScore rd parsed) \<and>
         (\<forall>api' responseText' sanitizedResponse' supplied.
            outcome (callGeminiWithRetry api') = Inr responseText' \<longrightarrow>
            sanitize responseText' = Inr sanitizedResponse' \<longrightarrow>
            parse sanitizedResponse' = Inr (JObj (AList.update ''overall_score'' supplied parsed)) \<longrightarrow>
            analyzeWithGemini rd toStr sanitize parse api' extractedSlides = Inr (returned, ws)) \<and>
         overall_score (updateAnalysisResultInDB rd returned j) = calculateOverallScore rd parsed \<and>
         (\<forall>report. generateInvestmentThesisPDF rd toStr' formatDate returned i n today now = Inr report \<longrightarrow>
            content report ! 6 = addP (show_nat (nat (calculateOverallScore rd parsed)) @ '' / 100''))"
    by (intro exI [of _ responseText] exI [of _ sanitizedResponse] exI [of _ parsed] conjI allI impI)
       (simp_all add: calculateOverallScore_update)
  from analyzeWithGemini_score [OF a]
  show "map_of returned ''overall_score'' = Some (JNum (of_int (calculateOverallScore rd returned)))" .
next
  show "score_recomputed (run req evs)" by (rule score_recomputed_run)
qed

text \<open>The model answers with an \<open>overall_score\<close> of 99; the analysis returned carries 62,
  the score of its categories, and so does the row stored.\<close>

theorem overall_score_recomputed_witness:
  "analyzeWithGemini binary64 template_text no_sanitizer read_json llm_answers three_slides =
     Inr (AList.update ''overall_score'' (JNum 62) complete_response, []) \<and>
   map_of complete_response ''overall_score'' = Some (JNum 99) \<and>
   map_of (AList.update ''overall_score'' (JNum 62) complete_response) ''overall_score'' =
     Some (JNum (of_int (calculateOverallScore binary64
        (AList.update ''overall_score'' (JNum 62) complete_response)))) \<and>
   calculateOverallScore binary64 (AList.update ''overall_score'' (JNum 62) complete_response) = 62 \<and>
   score_recomputed (run example_request (upload_events (JArr [slide, slide, slide, slide]))) \<and>
   map_option overall_score
     (row (run example_request (upload_events (JArr [slide, slide, slide, slide])))) = Some 62"
proof -
  note c = overall_score_recomputed
      [of binary64 template_text no_sanitizer read_json llm_answers three_slides
          "AList.update ''overall_score'' (JNum 62) complete_response" "[]"
          _ _ _ _ _ _ _ example_request "upload_events (JArr [slide, slide, slide, slide])"]
  have a: "analyzeWithGemini binary64 template_text no_sanitizer read_json llm_answers three_slides =
     Inr (AList.update ''overall_score'' (JNum 62) complete_response, [])"
    by (rule complete_response_analyzed)
  with c have "map_of (AList.update ''overall_score'' (JNum 62) complete_response) ''overall_score'' =
     Some (JNum (of_int (calculateOverallScore binary64
        (AList.update ''overall_score'' (JNum 62) complete_response))))"
    by blast
  moreover from c have "score_recomputed (run example_request (upload_events (JArr [slide, slide, slide, slide])))"
    by blast
  moreover have "map_of complete_response ''overall_score'' = Some (JNum 99)"
    by (simp add: complete_response_def)
  moreover have "map_option overall_score
     (row (run example_request (upload_events (JArr [slide, slide, slide, slide])))) = Some 62"
    by (simp add: example_final example_row_def)
  ultimately show ?thesis
    using a by (simp add: calculateOverallScore_update complete_score)
qed

subsection \<open>The report key\<close>

text \<open>
  Claim C2, as the code has it: in every state the Job can reach, its report key
  \<open>pdf_s3_key\<close> is set if and only if its status is \<open>COMPLETED\<close> or \<open>FILE_UNAVAILABLE\<close>, or
  its status is \<open>FAILED\<close> and the upload handler failed at its last stage, after it had
  recorded the completion. So as long as the handler has not failed there, the key is set
  exactly in \<open>COMPLETED\<close> and \<open>FILE_UNAVAILABLE\<close>. The statement that records the key sets
  \<open>COMPLETED\<close> with it, and the later flip to \<open>FILE_UNAVAILABLE\<close> leaves the key in place.
\<close>

theorem report_key_iff_report_recorded:
  "(\<forall>j. row (run req evs) = Some j \<longrightarrow>
      (pdf_s3_key j \<noteq> None \<longleftrightarrow>
         processing_status j = COMPLETED \<or> processing_status j = FILE_UNAVAILABLE \<or>
         (processing_status j = FAILED \<and> failed_after_completion (run req evs)))) \<and>
   (\<not> failed_after_completion (run req evs) \<longrightarrow>
      (\<forall>j. row (run req evs) = Some j \<longrightarrow>
         (pdf_s3_key j \<noteq> None \<longleftrightarrow>
            processing_status j = COMPLETED \<or> processing_status j = FILE_UNAVAILABLE))) \<and>
   processing_status (updatePdfKeyAndComplete k j0) = COMPLETED \<and>
   pdf_s3_key (updatePdfKeyAndComplete k j0) = k \<and>
   (\<forall>j'. snd (download selected s3_ok query_ok (Some j0)) = Some j' \<longrightarrow>
      pdf_s3_key j' = pdf_s3_key j0)"
proof (intro conjI allI impI)
  fix j assume "row (run req evs) = Some j"
  from inv_row_key [OF inv_run this]
  show "pdf_s3_key j \<noteq> None \<longleftrightarrow>
         processing_status j = COMPLETED \<or> processing_status j = FILE_UNAVAILABLE \<or>
         (processing_status j = FAILED \<and> failed_after_completion (run req evs))" .
next
  fix j assume "\<not> failed_after_completion (run req evs)" "row (run req evs) = Some j"
  with inv_row_key [OF inv_run this(2)]
  show "pdf_s3_key j \<noteq> None \<longleftrightarrow>
         processing_status j = COMPLETED \<or> processing_status j = FILE_UNAVAILABLE"
    by simp
next
  fix j' assume "snd (download selected s3_ok query_ok (Some j0)) = Some j'"
  then show "pdf_s3_key j' = pdf_s3_key j0"
    by (auto simp: download_def db_update_def split: option.splits if_splits)
qed (simp_all add: updatePdfKeyAndComplete_def)

theorem report_key_iff_report_recorded_witness:
  "\<not> failed_after_completion (run example_request (upload_events (JArr [slide, slide, slide, slide]))) \<and>
   (\<exists>j. row (run example_request (upload_events (JArr [slide, slide, slide, slide]))) = Some j \<and>
       processing_status j = COMPLETED \<and> pdf_s3_key j \<noteq> None)"
proof -
  have n: "\<not> failed_after_completion
             (run example_request (upload_events (JArr [slide, slide, slide, slide])))"
    by (simp add: example_final failed_after_completion_def)
  from example_completed obtain j where
    j: "row (run example_request (upload_events (JArr [slide, slide, slide, slide]))) = Some j"
       "processing_status j = COMPLETED"
    by auto
  with n report_key_iff_report_recorded
         [of example_request "upload_events (JArr [slide, slide, slide, slide])"]
  have "pdf_s3_key j \<noteq> None" by blast
  with n j show ?thesis by blast
qed

text \<open>
  Claim C2 as stated fails after a failed download: the Job completes, a download
  request selects the row, the \<open>HEAD\<close> check fails, and the status becomes
  \<open>FILE_UNAVAILABLE\<close> while the report key stays set. It fails as well when the handler
  fails after the completion: the mail transport rejects with \<open>null\<close>, and the Job is
  marked \<open>FAILED\<close> with its report key set.
\<close>

theorem file_unavailable_keeps_report_key:
  "map_option processing_status
     (row (run example_request
        ((upload_events (JArr [slide, slide, slide, slide]) @ [Select]) @ [Download 0 False True]))) =
     Some FILE_UNAVAILABLE \<and>
   map_option pdf_s3_key
     (row (run example_request
        ((upload_events (JArr [slide, slide, slide, slide]) @ [Select]) @ [Download 0 False True]))) =
     Some (Some ''reports/Investment_Thesis_deck_18042025.pdf'') \<and>
   map_option processing_status
     (row (run example_request
        (upload_events_null_rejection (JArr [slide, slide, slide, slide])))) = Some FAILED \<and>
   map_option pdf_s3_key
     (row (run example_request
        (upload_events_null_rejection (JArr [slide, slide, slide, slide])))) =
     Some (Some ''reports/Investment_Thesis_deck_18042025.pdf'')"
  using example_lost_report by (simp add: example_null_rejection example_row_def)

subsection \<open>The order of the statuses\<close>








section \<open>Slide-count validation\<close>

subsection \<open>The server route \<open>POST /api/analysis/validate-slides\<close>\<close>

text \<open>
  What the route meets: the upload middleware fails (\<open>LIMIT_FILE_SIZE\<close> or another error),
  no file came, the Python process cannot be started, or it closes with an exit code and
  an output that \<open>JSON.parse\<close> turns into a value (\<open>Inl\<close> the message of the \<open>SyntaxError\<close>).
\<close>

datatype precheck =
    UploadError bool string
  | NoFile
  | SpawnError string
  | Closed int "string + json"

record precheck_response =
  http_status :: nat
  body_error :: bool
  body_slideCount :: "json option"
  body_message :: string

definition validate_slides :: "(json option \<Rightarrow> string) \<Rightarrow> precheck \<Rightarrow> precheck_response" where
  "validate_slides toStr env =
     (case env of
        UploadError limit_file_size m \<Rightarrow>
          \<lparr>http_status = (if limit_file_size then 413 else 400), body_error = True,
           body_slideCount = None, body_message = ''Upload failed: '' @ m\<rparr>
      | NoFile \<Rightarrow>
          \<lparr>http_status = 400, body_error = True, body_slideCount = None,
           body_message = ''No file uploaded. Please attach a .ppt or .pptx file.''\<rparr>
      | SpawnError m \<Rightarrow>
          \<lparr>http_status = 500, body_error = True, body_slideCount = None,
           body_message = ''Failed to start slide validation process: '' @ m\<rparr>
      | Closed code out \<Rightarrow>
          if code = 0 then
            (case out of
               Inl m \<Rightarrow>
                 \<lparr>http_status = 500, body_error = True, body_slideCount = None,
                  body_message = ''Failed to parse validation result: '' @ m\<rparr>
             | Inr JNull \<Rightarrow>
                 \<lparr>http_status = 500, body_error = True, body_slideCount = None,
                  body_message = ''Failed to parse validation result: '' @
                                 ''Cannot read properties of null (reading 'error')''\<rparr>
             | Inr result \<Rightarrow>
                 (case js_prop result ''error'' of
                    Some e \<Rightarrow>
                      if truthy e then
                        \<lparr>http_status = 400, body_error = True, body_slideCount = None,
                         body_message = ''Slide validation failed: '' @ toStr (Some e)\<rparr>
                      else
                        (case js_prop result ''data'' of
                           Some d \<Rightarrow>
                             (case (truthy d, js_prop d ''slideCount'') of
                                (True, Some (JNum slideCount)) \<Rightarrow>
                                  \<lparr>http_status = 200, body_error = False,
                                   body_slideCount = Some (JNum slideCount),
                                   body_message = ''Slide validation complete. File has '' @
                                     toStr (Some (JNum slideCount)) @ '' slides.''\<rparr>
                              | _ \<Rightarrow>
                                  \<lparr>http_status = 400, body_error = True, body_slideCount = None,
                                   body_message = ''Invalid response format from slide validation''\<rparr>)
                         | None \<Rightarrow>
                             \<lparr>http_status = 400, body_error = True, body_slideCount = None,
                              body_message = ''Invalid response format from slide validation''\<rparr>)
                  | None \<Rightarrow>
                      (case js_prop result ''data'' of
                         Some d \<Rightarrow>
                           (case (truthy d, js_prop d ''slideCount'') of
                              (True, Some (JNum slideCount)) \<Rightarrow>
                                \<lparr>http_status = 200, body_error = False,
                                 body_slideCount = Some (JNum slideCount),
                                 body_message = ''Slide validation complete. File has '' @
                                   toStr (Some (JNum slideCount)) @ '' slides.''\<rparr>
                            | _ \<Rightarrow>
                                \<lparr>http_status = 400, body_error = True, body_slideCount = None,
                                 body_message = ''Invalid response format from slide validation''\<rparr>)
                       | None \<Rightarrow>
                           \<lparr>http_status = 400, body_error = True, body_slideCount = None,
                            body_message = ''Invalid response format from slide validation''\<rparr>)))
          else
            \<lparr>http_status = 500, body_error = True, body_slideCount = None,
             body_message = ''Failed to validate slides. Python script error.''\<rparr>)"

subsection \<open>The client: \<open>handleFile\<close> and \<open>handleUpload\<close> of \<open>FileUpload.tsx\<close>\<close>

record picked_file =
  file_type :: string
  file_name :: string
  file_size :: nat

text \<open>How the request \<open>axios.post('/api/analysis/validate-slides', ...)\<close> settles: with the
  data of a 2xx response, with an error that carries the data of the response, or with an
  error without a response.\<close>

datatype axios_result =
    Resolved json
  | RejectedWithResponse json
  | RejectedWithoutResponse

record file_ui =
  ui_message :: string
  ui_messageType :: string
  selectedFile :: "picked_file option"

definition endsWith :: "string \<Rightarrow> string \<Rightarrow> bool" where
  "endsWith s suffix = (length suffix \<le> length s \<and> drop (length s - length suffix) s = suffix)"

definition validTypes :: "string list" where
  "validTypes =
     [''application/vnd.ms-powerpoint'',
      ''application/vnd.openxmlformats-officedocument.presentationml.presentation'']"

text \<open>
  \<open>handleFile\<close>: the state of the component after it, from the state \<open>ui\<close> before it; \<open>Inl\<close>
  when the function rejects with an error that nothing catches (a property read of \<open>null\<close>
  inside the \<open>catch\<close> block).
\<close>

definition handleFile ::
  "(json option \<Rightarrow> string) \<Rightarrow> picked_file \<Rightarrow> axios_result \<Rightarrow> file_ui \<Rightarrow> string + file_ui" where
  "handleFile toStr file settled ui =
     (if file_type file \<notin> set validTypes \<and> \<not> endsWith (file_name file) ''.ppt'' \<and>
         \<not> endsWith (file_name file) ''.pptx''
      then Inr (ui\<lparr>ui_message := ''Please upload a PowerPoint file (.ppt or .pptx)'',
                   ui_messageType := ''error''\<rparr>)
      else if file_size file > 50 * 1024 * 1024
      then Inr (ui\<lparr>ui_message := ''File is too large. Maximum size is 50MB'',
                   ui_messageType := ''error''\<rparr>)
      else
        (case settled of
           Resolved JNull \<Rightarrow>
             Inr (ui\<lparr>ui_message := ''Could not validate presentation. Please try again.'',
                      ui_messageType := ''error''\<rparr>)
         | Resolved data \<Rightarrow>
             (case js_prop data ''slideCount'' of
                Some (JNum slideCount) \<Rightarrow>
                  if slideCount < 5 then
                    Inr (ui\<lparr>ui_message := ''Slides too low: Your presentation has '' @
                               toStr (Some (JNum slideCount)) @ '' slides. Minimum is 5.'',
                             ui_messageType := ''error''\<rparr>)
                  else if slideCount > 35 then
                    Inr (ui\<lparr>ui_message := ''Slides too high: Your presentation has '' @
                               toStr (Some (JNum slideCount)) @ '' slides. Maximum is 35.'',
                             ui_messageType := ''error''\<rparr>)
                  else
                    Inr (ui\<lparr>ui_message := [], ui_messageType := ''info'',
                             selectedFile := Some file\<rparr>)
              | _ \<Rightarrow>
                  Inr (ui\<lparr>ui_message := ''Could not determine slide count. Please try again.'',
                           ui_messageType := ''error''\<rparr>))
         | RejectedWithResponse JNull \<Rightarrow>
             Inl ''Cannot read properties of null (reading 'message')''
         | RejectedWithResponse data \<Rightarrow>
             Inr (ui\<lparr>ui_message := ''Validation failed: '' @
                        or_else toStr (js_prop data ''message'') ''Could not validate slide count'',
                      ui_messageType := ''error''\<rparr>)
         | RejectedWithoutResponse \<Rightarrow>
             Inr (ui\<lparr>ui_message := ''Could not validate presentation. Please try again.'',
                      ui_messageType := ''error''\<rparr>)))"

text \<open>\<open>handleUpload\<close> sends the upload request only for a selected file, with a token.\<close>

definition handleUpload_sends :: "file_ui \<Rightarrow> string option \<Rightarrow> picked_file option" where
  "handleUpload_sends ui token = (if selectedFile ui = None \<or> \<not> present token then None else selectedFile ui)"


text \<open>The body that \<open>res.status(...).json(...)\<close> sends, and how \<open>axios.post\<close> settles on it: a
  status from 200 to 299 resolves, any other rejects with an error carrying the response.\<close>

definition body_json :: "precheck_response \<Rightarrow> json" where
  "body_json r =
     JObj ([(''error'', JBool (body_error r))] @
           (case body_slideCount r of None \<Rightarrow> [] | Some c \<Rightarrow> [(''slideCount'', c)]) @
           [(''message'', JStr (body_message r))])"

definition axios_post :: "precheck_response \<Rightarrow> axios_result" where
  "axios_post r =
     (if 200 \<le> http_status r \<and> http_status r < 300 then Resolved (body_json r)
      else RejectedWithResponse (body_json r))"

definition count_output :: "rat \<Rightarrow> precheck" where
  "count_output n = Closed 0 (Inr (JObj [(''data'', JObj [(''slideCount'', JNum n)])]))"

definition deck_pptx :: picked_file where
  "deck_pptx =
     \<lparr>file_type = ''application/vnd.openxmlformats-officedocument.presentationml.presentation'',
      file_name = ''deck.pptx'', file_size = 1048576\<rparr>"

definition nothing_selected :: file_ui where
  "nothing_selected = \<lparr>ui_message = [], ui_messageType = ''info'', selectedFile = None\<rparr>"

subsection \<open>Where the range of the slide count is checked\<close>

lemma validate_slides_count:
  assumes "\<forall>e. js_prop result ''error'' = Some e \<longrightarrow> \<not> truthy e"
    and "js_prop result ''data'' = Some d" and "truthy d"
    and "js_prop d ''slideCount'' = Some (JNum n)"
  shows "validate_slides toStr (Closed 0 (Inr result)) =
     \<lparr>http_status = 200, body_error = False, body_slideCount = Some (JNum n),
      body_message = ''Slide validation complete. File has '' @ toStr (Some (JNum n)) @ '' slides.''\<rparr>"
proof -
  from assms(2) have "result \<noteq> JNull" by auto
  with assms show ?thesis
    by (cases result; cases "js_prop result ''error''") (simp_all add: validate_slides_def)
qed

lemma handleFile_count:
  assumes "file_type file \<in> set validTypes \<or> endsWith (file_name file) ''.ppt'' \<or>
           endsWith (file_name file) ''.pptx''"
    and "file_size file \<le> 50 * 1024 * 1024"
    and "js_prop body ''slideCount'' = Some (JNum n)"
  shows "handleFile toStr file (Resolved body) ui =
     Inr (if n < 5 then
            ui\<lparr>ui_message := ''Slides too low: Your presentation has '' @
                   toStr (Some (JNum n)) @ '' slides. Minimum is 5.'',
                ui_messageType := ''error''\<rparr>
          else if 35 < n then
            ui\<lparr>ui_message := ''Slides too high: Your presentation has '' @
                   toStr (Some (JNum n)) @ '' slides. Maximum is 35.'',
                ui_messageType := ''error''\<rparr>
          else ui\<lparr>ui_message := [], ui_messageType := ''info'', selectedFile := Some file\<rparr>)"
proof -
  from assms(3) have "body \<noteq> JNull" by auto
  with assms show ?thesis
    by (cases body) (auto simp: handleFile_def)
qed


lemma count_text_examples:
  "template_text (Some (JNum 4)) = ''4''" "template_text (Some (JNum 5)) = ''5''"
  "template_text (Some (JNum 35)) = ''35''" "template_text (Some (JNum 36)) = ''36''"
  by (simp_all add: template_text_def show_nat.simps)

lemma deck_pptx_passes:
  "file_type deck_pptx \<in> set validTypes" "file_size deck_pptx \<le> 50 * 1024 * 1024"
  by (simp_all add: deck_pptx_def validTypes_def)

text \<open>
  Claim C3, as the code has it: the pre-check route reports the slide count of the file,
  whatever it is, with status 200; the range is checked by the client, in \<open>handleFile\<close>.
  For a PowerPoint file of at most 50MB whose pre-check reports the count \<open>n\<close>, \<open>handleFile\<close>
  shows \<open>Slides too low\<close> with the count when \<open>n < 5\<close> and \<open>Slides too high\<close> with the count
  when \<open>35 < n\<close>, and leaves the selection as it was; for \<open>5 \<le> n \<le> 35\<close> it selects the file.
  \<open>handleUpload\<close> sends the upload request, the one that creates the Job, only for a
  selected file: after a rejection with nothing selected before, none is sent.
\<close>

theorem slide_count_checked_by_client:
  assumes "file_type file \<in> set validTypes \<or> endsWith (file_name file) ''.ppt'' \<or>
           endsWith (file_name file) ''.pptx''"
    and "file_size file \<le> 50 * 1024 * 1024"
    and "\<forall>e. js_prop result ''error'' = Some e \<longrightarrow> \<not> truthy e"
    and "js_prop result ''data'' = Some d" and "truthy d"
    and "js_prop d ''slideCount'' = Some (JNum n)"
  shows "http_status (validate_slides toStr (Closed 0 (Inr result))) = 200 \<and>
     body_slideCount (validate_slides toStr (Closed 0 (Inr result))) = Some (JNum n) \<and>
     handleFile toStr file (axios_post (validate_slides toStr (Closed 0 (Inr result)))) ui =
       Inr (if n < 5 then
              ui\<lparr>ui_message := ''Slides too low: Your presentation has '' @
                     toStr (Some (JNum n)) @ '' slides. Minimum is 5.'',
                  ui_messageType := ''error''\<rparr>
            else if 35 < n then
              ui\<lparr>ui_message := ''Slides too high: Your presentation has '' @
                     toStr (Some (JNum n)) @ '' slides. Maximum is 35.'',
                  ui_messageType := ''error''\<rparr>
            else ui\<lparr>ui_message := [], ui_messageType := ''info'', selectedFile := Some file\<rparr>) \<and>
     (\<forall>shown. (n < 5 \<or> 35 < n) \<and> selectedFile ui = None \<and>
        handleFile toStr file (axios_post (validate_slides toStr (Closed 0 (Inr result)))) ui =
          Inr shown \<longrightarrow> handleUpload_sends shown token = None)"
proof -
  let ?r = "validate_slides toStr (Closed 0 (Inr result))"
  note r = validate_slides_count [OF assms(3-6), of toStr]
  have post: "axios_post ?r = Resolved (body_json ?r)"
    by (simp add: r axios_post_def)
  have count: "js_prop (body_json ?r) ''slideCount'' = Some (JNum n)"
    by (simp add: r body_json_def)
  note h = handleFile_count [OF assms(1,2) count, of toStr ui]
  have "http_status ?r = 200" "body_slideCount ?r = Some (JNum n)"
    by (simp_all add: r)
  moreover have "\<forall>shown. (n < 5 \<or> 35 < n) \<and> selectedFile ui = None \<and>
        handleFile toStr file (axios_post ?r) ui = Inr shown \<longrightarrow>
        handleUpload_sends shown token = None"
    unfolding post h by (auto simp: handleUpload_sends_def)
  ultimately show ?thesis
    unfolding post h by blast
qed

theorem slide_count_checked_by_client_witness:
  "handleFile template_text deck_pptx (axios_post (validate_slides template_text (count_output 4)))
     nothing_selected =
     Inr \<lparr>ui_message = ''Slides too low: Your presentation has 4 slides. Minimum is 5.'',
          ui_messageType = ''error'', selectedFile = None\<rparr> \<and>
   handleFile template_text deck_pptx (axios_post (validate_slides template_text (count_output 5)))
     nothing_selected =
     Inr \<lparr>ui_message = [], ui_messageType = ''info'', selectedFile = Some deck_pptx\<rparr> \<and>
   handleFile template_text deck_pptx (axios_post (validate_slides template_text (count_output 35)))
     nothing_selected =
     Inr \<lparr>ui_message = [], ui_messageType = ''info'', selectedFile = Some deck_pptx\<rparr> \<and>
   handleFile template_text deck_pptx (axios_post (validate_slides template_text (count_output 36)))
     nothing_selected =
     Inr \<lparr>ui_message = ''Slides too high: Your presentation has 36 slides. Maximum is 35.'',
          ui_messageType = ''error'', selectedFile = None\<rparr>"
proof -
  have inst:
    "handleFile template_text deck_pptx (axios_post (validate_slides template_text (count_output n)))
       nothing_selected =
     Inr (if n < 5 then
            nothing_selected\<lparr>ui_message := ''Slides too low: Your presentation has '' @
                   template_text (Some (JNum n)) @ '' slides. Minimum is 5.'',
                ui_messageType := ''error''\<rparr>
          else if 35 < n then
            nothing_selected\<lparr>ui_message := ''Slides too high: Your presentation has '' @
                   template_text (Some (JNum n)) @ '' slides. Maximum is 35.'',
                ui_messageType := ''error''\<rparr>
          else nothing_selected\<lparr>ui_message := [], ui_messageType := ''info'',
                 selectedFile := Some deck_pptx\<rparr>)" for n
  proof -
    let ?d = "JObj [(''slideCount'', JNum n)]"
    let ?result = "JObj [(''data'', ?d)]"
    have no_error: "\<forall>e. js_prop ?result ''error'' = Some e \<longrightarrow> \<not> truthy e" by simp
    have data: "js_prop ?result ''data'' = Some ?d" "truthy ?d"
      "js_prop ?d ''slideCount'' = Some (JNum n)" by simp_all
    from slide_count_checked_by_client
      [OF disjI1 [OF deck_pptx_passes(1)] deck_pptx_passes(2) no_error data,
        where toStr = template_text and ui = nothing_selected]
    show ?thesis unfolding count_output_def by blast
  qed
  from inst [of 4] inst [of 5] inst [of 35] inst [of 36] show ?thesis
    by (simp add: count_text_examples nothing_selected_def)
qed

text \<open>
  Claim C3 as stated fails on the server: reported the count 4, the
  pre-check route answers 200, and the upload route, given a deck of four slides, creates
  the Job and takes it to \<open>COMPLETED\<close>.
\<close>

theorem four_slide_deck_is_analysed:
  "http_status (validate_slides template_text (count_output 4)) = 200 \<and>
   body_error (validate_slides template_text (count_output 4)) = False \<and>
   body_slideCount (validate_slides template_text (count_output 4)) = Some (JNum 4) \<and>
   map_option processing_status
     (row (run example_request (take 5 (upload_events (JArr [slide, slide, slide, slide]))))) =
     Some EXTRACTING_TEXT \<and>
   pc (run example_request (take 5 (upload_events (JArr [slide, slide, slide, slide])))) =
     Mark ANALYZING_AI \<and>
   response (run example_request (upload_events (JArr [slide, slide, slide, slide]))) = Some Ok200 \<and>
   map_option processing_status
     (row (run example_request (upload_events (JArr [slide, slide, slide, slide])))) = Some COMPLETED"
  using example_after_extraction example_completed
  by (simp add: validate_slides_def count_output_def)

end
